theory Spec2Isabelle
  imports Complex_Main "HOL-Library.AList" "HOL-Library.Multiset"
begin

section \<open>numio: typed values, rate cache, evaluator, parser\<close>

text \<open>
  A shallow embedding of the Go packages \<^verbatim>\<open>types\<close>, \<^verbatim>\<open>cache\<close>, \<^verbatim>\<open>eval\<close>,
  \<^verbatim>\<open>parser\<close> and \<^verbatim>\<open>engine\<close> of numio.

  Conventions of the model:
  \<^item> \<^verbatim>\<open>float64\<close> is modelled by \<^typ>\<open>real\<close>: arithmetic is exact, rounding, infinities
    and NaN are not represented.
  \<^item> a Go \<^verbatim>\<open>string\<close> is a \<^typ>\<open>string\<close> (a list of bytes).
  \<^item> a pointer to a registry entry (\<^verbatim>\<open>*Currency\<close>, \<^verbatim>\<open>*Unit\<close>, ...) is an
    \<^typ>\<open>'a option\<close>, \<^term>\<open>None\<close> for \<^verbatim>\<open>nil\<close>; the code only reads through these
    pointers.
  \<^item> \<^verbatim>\<open>strings.ToUpper\<close> and \<^verbatim>\<open>strings.ToLower\<close> are modelled on strings of ASCII
    bytes, where they map the letters a-z and A-Z and leave every other byte as it is.
    Beyond ASCII Go maps further letters (U+017F to \<^verbatim>\<open>S\<close>, for one), which the model does
    not follow; the theorems about currency codes are therefore stated for codes that
    satisfy \<open>asciiCode\<close>.
\<close>

subsection \<open>Case mapping of strings\<close>

definition toUpperChar :: "char \<Rightarrow> char" where
  "toUpperChar c =
     (let n = (of_char c :: nat) in if 97 \<le> n \<and> n \<le> 122 then char_of (n - 32) else c)"

definition toLowerChar :: "char \<Rightarrow> char" where
  "toLowerChar c =
     (let n = (of_char c :: nat) in if 65 \<le> n \<and> n \<le> 90 then char_of (n + 32) else c)"

definition ToUpper :: "string \<Rightarrow> string" where
  "ToUpper s = map toUpperChar s"

definition ToLower :: "string \<Rightarrow> string" where
  "ToLower s = map toLowerChar s"

text \<open>The strings on which the two definitions above are Go's functions.\<close>

definition asciiCode :: "string \<Rightarrow> bool" where
  "asciiCode s = list_all (\<lambda>c. (of_char c :: nat) < 128) s"

subsection \<open>types: registry entries and values\<close>

record Currency =
  curCode :: string
  curSymbol :: string
  curName :: string
  curAliases :: "string list"
  curSymbolAfter :: bool

datatype UnitType =
  UnitTypeLength | UnitTypeWeight | UnitTypeTime | UnitTypeTemperature
  | UnitTypeData | UnitTypeArea | UnitTypeVolume | UnitTypeSpeed

record Unit =
  unitCode :: string
  unitSymbol :: string
  unitName :: string
  unitPlural :: string
  unitType :: UnitType
  unitAliases :: "string list"
  unitToBase :: real
  unitFromBaseAdd :: real
  unitIsBase :: bool

record Metal =
  metalCode :: string
  metalSymbol :: string
  metalName :: string
  metalAliases :: "string list"
  metalUnitName :: string
  metalUnitLabel :: string

record Crypto =
  cryptoCode :: string
  cryptoSymbol :: string
  cryptoName :: string
  cryptoAliases :: "string list"
  cryptoCoingeckoID :: string
  cryptoDecimals :: int

datatype ValueKind =
  ValueEmpty | ValueNumber | ValuePercentage | ValueCurrency
  | ValueWithUnit | ValueMetal | ValueCrypto | ValueError

record Value =
  Kind :: ValueKind
  Num :: real
  Curr :: "Currency option"
  VUnit :: "Unit option"
  VMetal :: "Metal option"
  VCrypto :: "Crypto option"
  Err :: string

text \<open>The zero value of the Go struct: every constructor starts from it.\<close>

definition zeroValue :: Value where
  "zeroValue = \<lparr>Kind = ValueEmpty, Num = 0, Curr = None, VUnit = None, VMetal = None,
     VCrypto = None, Err = []\<rparr>"

definition Empty :: Value where
  "Empty = zeroValue\<lparr>Kind := ValueEmpty\<rparr>"

definition Number :: "real \<Rightarrow> Value" where
  "Number n = zeroValue\<lparr>Kind := ValueNumber, Num := n\<rparr>"

definition Percentage :: "real \<Rightarrow> Value" where
  "Percentage p = zeroValue\<lparr>Kind := ValuePercentage, Num := p\<rparr>"

definition CurrencyValue :: "real \<Rightarrow> Currency option \<Rightarrow> Value" where
  "CurrencyValue amount c = zeroValue\<lparr>Kind := ValueCurrency, Num := amount, Curr := c\<rparr>"

definition UnitValue :: "real \<Rightarrow> Unit option \<Rightarrow> Value" where
  "UnitValue amount u = zeroValue\<lparr>Kind := ValueWithUnit, Num := amount, VUnit := u\<rparr>"

definition MetalValue :: "real \<Rightarrow> Metal option \<Rightarrow> Value" where
  "MetalValue amount m = zeroValue\<lparr>Kind := ValueMetal, Num := amount, VMetal := m\<rparr>"

definition CryptoValue :: "real \<Rightarrow> Crypto option \<Rightarrow> Value" where
  "CryptoValue amount c = zeroValue\<lparr>Kind := ValueCrypto, Num := amount, VCrypto := c\<rparr>"

definition Error :: "string \<Rightarrow> Value" where
  "Error message = zeroValue\<lparr>Kind := ValueError, Err := message\<rparr>"

definition IsEmpty :: "Value \<Rightarrow> bool" where
  "IsEmpty v = (Kind v = ValueEmpty)"

definition IsError :: "Value \<Rightarrow> bool" where
  "IsError v = (Kind v = ValueError)"

definition IsNumeric :: "Value \<Rightarrow> bool" where
  "IsNumeric v = (case Kind v of ValueEmpty \<Rightarrow> False | ValueError \<Rightarrow> False | _ \<Rightarrow> True)"

definition IsNumber :: "Value \<Rightarrow> bool" where
  "IsNumber v = (Kind v = ValueNumber)"

definition IsPercentage :: "Value \<Rightarrow> bool" where
  "IsPercentage v = (Kind v = ValuePercentage)"

definition IsCurrency :: "Value \<Rightarrow> bool" where
  "IsCurrency v = (Kind v = ValueCurrency)"

definition IsUnit :: "Value \<Rightarrow> bool" where
  "IsUnit v = (Kind v = ValueWithUnit)"

definition AsFloat :: "Value \<Rightarrow> real" where
  "AsFloat v = Num v"

definition WithAmount :: "Value \<Rightarrow> real \<Rightarrow> Value" where
  "WithAmount v amount = v\<lparr>Num := amount\<rparr>"

definition Negate :: "Value \<Rightarrow> Value" where
  "Negate v = (if IsError v \<or> IsEmpty v then v else WithAmount v (- Num v))"

text \<open>\<^verbatim>\<open>Unit.ConvertTo\<close> and \<^verbatim>\<open>convertTemperature\<close> of unit.go.\<close>

definition convertTemperature :: "real \<Rightarrow> Unit \<Rightarrow> Unit \<Rightarrow> real" where
  "convertTemperature v from to =
     (let kelvin =
        (if unitCode from = ''K'' then v
         else if unitCode from = ''C'' then v + 273.15
         else if unitCode from = ''F'' then (v - 32) * 5 / 9 + 273.15
         else v)
      in if unitCode to = ''K'' then kelvin
         else if unitCode to = ''C'' then kelvin - 273.15
         else if unitCode to = ''F'' then (kelvin - 273.15) * 9 / 5 + 32
         else kelvin)"

definition ConvertTo :: "Unit \<Rightarrow> real \<Rightarrow> Unit \<Rightarrow> real option" where
  "ConvertTo u v target =
     (if unitType u \<noteq> unitType target then None
      else if unitType u = UnitTypeTemperature then Some (convertTemperature v u target)
      else Some (v * unitToBase u / unitToBase target))"

subsection \<open>cache: the rate table\<close>

text \<open>
  \<^verbatim>\<open>rates map[ratePair]float64\<close>: a Go map, kept as an association list with distinct
  keys. A \<^verbatim>\<open>ratePair{From, To}\<close> is the pair \<open>(From, To)\<close>. Go leaves the order in which
  \<^verbatim>\<open>range\<close> visits a map unspecified, and it may differ from one \<^verbatim>\<open>range\<close> statement to
  the next; \<open>rangeOrder\<close> below makes that choice explicit.
\<close>

type_synonym ratePair = "string \<times> string"
type_synonym rateTable = "(ratePair \<times> real) list"

definition SetRate :: "rateTable \<Rightarrow> string \<Rightarrow> string \<Rightarrow> real \<Rightarrow> rateTable" where
  "SetRate rates from to rate =
     (let from' = ToUpper from; to' = ToUpper to;
          rates1 = AList.update (from', to') rate rates
      in if rate \<noteq> 0 then AList.update (to', from') (1 / rate) rates1 else rates1)"

text \<open>
  The order of one \<^verbatim>\<open>range c.rates\<close>: the entries sorted by an arbitrary ranking of the
  keys. Every ordering of the table is \<open>rangeOrder r\<close> for some ranking \<open>r\<close>, and
  \<open>rangeOrder r\<close> is always a reordering of the table.
\<close>

definition rangeOrder :: "(ratePair \<Rightarrow> nat) \<Rightarrow> rateTable \<Rightarrow> rateTable" where
  "rangeOrder r rates = sort_key (\<lambda>e. r (fst e)) rates"

type_synonym queueEntry = "string \<times> real"

text \<open>
  The inner \<^verbatim>\<open>for pair, rate := range c.rates\<close> of \<^verbatim>\<open>findRateBFS\<close> over the entries in the
  order given: \<open>Inl\<close> is the \<^verbatim>\<open>return nextRate, true\<close>, \<open>Inr\<close> the visited set and the
  queue when the loop ends.
\<close>

fun scanRates :: "rateTable \<Rightarrow> queueEntry \<Rightarrow> string \<Rightarrow> string set \<Rightarrow> queueEntry list
    \<Rightarrow> real + (string set \<times> queueEntry list)" where
  "scanRates [] current to visited queue = Inr (visited, queue)"
| "scanRates ((pair, rate) # rest) current to visited queue =
     (if fst pair \<noteq> fst current then scanRates rest current to visited queue
      else
        let nextCurrency = snd pair; nextRate = snd current * rate in
        if nextCurrency = to then Inl nextRate
        else if nextCurrency \<notin> visited
          then scanRates rest current to (insert nextCurrency visited)
                 (queue @ [(nextCurrency, nextRate)])
          else scanRates rest current to visited queue)"

lemma scanRates_measure:
  assumes "scanRates es current to visited queue = Inr (visited', queue')"
    and "snd ` fst ` set es \<subseteq> U" and "finite U"
  shows "card (U - visited') + length queue' = card (U - visited) + length queue"
  using assms
proof (induction es arbitrary: visited queue)
  case Nil
  then show ?case by simp
next
  case (Cons e es)
  obtain pair rate where e: "e = (pair, rate)" by (cases e)
  show ?case
  proof (cases "fst pair = fst current \<and> snd pair \<noteq> to \<and> snd pair \<notin> visited")
    case True
    have step: "scanRates es current to (insert (snd pair) visited)
        (queue @ [(snd pair, snd current * rate)]) = Inr (visited', queue')"
      using Cons.prems(1) True by (simp add: e Let_def)
    have sub: "snd ` fst ` set es \<subseteq> U" using Cons.prems(2) by auto
    have inU: "snd pair \<in> U" using Cons.prems(2) by (auto simp: e)
    have "card (U - visited') + length queue'
        = card (U - insert (snd pair) visited) + Suc (length queue)"
      using Cons.IH [OF step sub Cons.prems(3)] by simp
    moreover have "snd pair \<in> U - visited" using inU True by simp
    then have "card (U - insert (snd pair) visited) = card (U - visited) - 1"
      and "0 < card (U - visited)"
      using Cons.prems(3) by (auto simp: card_Diff_insert card_gt_0_iff)
    ultimately show ?thesis by simp
  next
    case False
    have step: "scanRates es current to visited queue = Inr (visited', queue')"
      using Cons.prems(1) False by (auto simp: e Let_def split: if_splits)
    have sub: "snd ` fst ` set es \<subseteq> U" using Cons.prems(2) by auto
    show ?thesis using Cons.IH [OF step sub Cons.prems(3)] .
  qed
qed

text \<open>
  The outer \<^verbatim>\<open>for len(queue) > 0\<close> of \<^verbatim>\<open>findRateBFS\<close>. \<open>ord k\<close> ranks the keys for the
  \<open>k\<close>-th \<^verbatim>\<open>range\<close> statement executed. \<open>None\<close> is \<^verbatim>\<open>return 0, false\<close>.
\<close>

function bfsLoop :: "(nat \<Rightarrow> ratePair \<Rightarrow> nat) \<Rightarrow> nat \<Rightarrow> rateTable \<Rightarrow> string \<Rightarrow> string set
    \<Rightarrow> queueEntry list \<Rightarrow> real option" where
  "bfsLoop ord k rates to visited [] = None"
| "bfsLoop ord k rates to visited (current # queue) =
     (case scanRates (rangeOrder (ord k) rates) current to visited queue of
        Inl r \<Rightarrow> Some r
      | Inr (visited', queue') \<Rightarrow> bfsLoop ord (Suc k) rates to visited' queue')"
  by pat_completeness auto
termination
proof (relation "measure (\<lambda>(ord, k, rates, to, visited, queue).
    card (snd ` fst ` set rates - visited) + length queue)", goal_cases)
  case 1
  then show ?case by simp
next
  case (2 ord k rates to visited current queue x2 visited' queue')
  have "scanRates (rangeOrder (ord k) rates) current to visited queue = Inr (visited', queue')"
    using 2 by simp
  then have "card (snd ` fst ` set rates - visited') + length queue'
      = card (snd ` fst ` set rates - visited) + length queue"
    by (rule scanRates_measure) (simp_all add: rangeOrder_def)
  then show ?case by simp
qed

definition findRateBFS :: "(nat \<Rightarrow> ratePair \<Rightarrow> nat) \<Rightarrow> rateTable \<Rightarrow> string \<Rightarrow> string
    \<Rightarrow> real option" where
  "findRateBFS ord rates from to = bfsLoop ord 0 rates to {from} [(from, 1)]"

definition GetRate :: "(nat \<Rightarrow> ratePair \<Rightarrow> nat) \<Rightarrow> rateTable \<Rightarrow> string \<Rightarrow> string
    \<Rightarrow> real option" where
  "GetRate ord rates from to =
     (let from' = ToUpper from; to' = ToUpper to in
      if from' = to' then Some 1
      else case map_of rates (from', to') of
             Some rate \<Rightarrow> Some rate
           | None \<Rightarrow> findRateBFS ord rates from' to')"

definition Convert :: "(nat \<Rightarrow> ratePair \<Rightarrow> nat) \<Rightarrow> rateTable \<Rightarrow> real \<Rightarrow> string \<Rightarrow> string
    \<Rightarrow> real option" where
  "Convert ord rates amount from to =
     (case GetRate ord rates from to of None \<Rightarrow> None | Some rate \<Rightarrow> Some (amount * rate))"

subsection \<open>cache: the offline defaults\<close>

text \<open>
  \<^verbatim>\<open>loadDefaults\<close>. The three tables are Go maps; their codes are pairwise different, so
  the table that results does not depend on the order in which they are visited.
\<close>

definition fiatDefaults :: "(string \<times> real) list" where
  "fiatDefaults =
    [(''EUR'', 0.92), (''GBP'', 0.79), (''JPY'', 149.5), (''CHF'', 0.88), (''CAD'', 1.36),
     (''AUD'', 1.53), (''CNY'', 7.24), (''INR'', 83.12), (''KRW'', 1320), (''MXN'', 17.15),
     (''BRL'', 4.97), (''RUB'', 92.5), (''TRY'', 32.5), (''ZAR'', 18.65), (''SGD'', 1.34),
     (''HKD'', 7.82), (''NOK'', 10.65), (''SEK'', 10.42), (''DKK'', 6.87), (''PLN'', 3.98),
     (''THB'', 35.2), (''IDR'', 15650), (''MYR'', 4.72), (''PHP'', 55.8), (''CZK'', 22.85),
     (''ILS'', 3.72), (''AED'', 3.67), (''SAR'', 3.75), (''TWD'', 31.5), (''HUF'', 355),
     (''UAH'', 41), (''VND'', 24500), (''EGP'', 30.9), (''PKR'', 285), (''BDT'', 110),
     (''NGN'', 800), (''ARS'', 850), (''CLP'', 880), (''COP'', 3950), (''KES'', 155),
     (''QAR'', 3.64), (''KWD'', 0.31), (''RON'', 4.57), (''NZD'', 1.64)]"

definition cryptoDefaults :: "(string \<times> real) list" where
  "cryptoDefaults =
    [(''BTC'', 95000), (''ETH'', 3500), (''SOL'', 180), (''BNB'', 650), (''XRP'', 2.2),
     (''ADA'', 0.95), (''DOGE'', 0.38), (''DOT'', 7.5), (''MATIC'', 0.55), (''LTC'', 105),
     (''LINK'', 22), (''AVAX'', 42), (''ATOM'', 9.5), (''UNI'', 12), (''XLM'', 0.42),
     (''ALGO'', 0.35), (''TON'', 6.5), (''NEAR'', 5.8), (''APT'', 12.5), (''ARB'', 1.1),
     (''OP'', 2.8), (''AAVE'', 350), (''MKR'', 3200), (''CRV'', 0.85), (''SHIB'', 0.000025),
     (''PEPE'', 0.000018), (''WIF'', 2.5), (''BONK'', 0.000032), (''USDT'', 1), (''USDC'', 1),
     (''DAI'', 1), (''BUSD'', 1)]"

definition metalDefaults :: "(string \<times> real) list" where
  "metalDefaults =
    [(''XAU'', 2650), (''XAG'', 31.5), (''XPT'', 1020), (''XPD'', 1100)]"

definition storeFiat :: "string \<times> real \<Rightarrow> rateTable \<Rightarrow> rateTable" where
  "storeFiat e rates =
     (let rates1 = AList.update (''USD'', fst e) (snd e) rates
      in if snd e \<noteq> 0 then AList.update (fst e, ''USD'') (1 / snd e) rates1 else rates1)"

definition storeAsset :: "string \<times> real \<Rightarrow> rateTable \<Rightarrow> rateTable" where
  "storeAsset e rates =
     (let rates1 = AList.update (fst e, ''USD'') (snd e) rates
      in if snd e \<noteq> 0 then AList.update (''USD'', fst e) (1 / snd e) rates1 else rates1)"

definition loadDefaults :: "rateTable \<Rightarrow> rateTable" where
  "loadDefaults rates =
     fold storeAsset metalDefaults
       (fold storeAsset cryptoDefaults
          (fold storeFiat fiatDefaults
             (AList.update (''USD'', ''USD'') 1 rates)))"

subsection \<open>Facts about the breadth-first search\<close>

lemma scanRates_filter:
  "scanRates es cur to vis q = scanRates (filter (\<lambda>e. fst (fst e) = fst cur) es) cur to vis q"
  by (induction es cur to vis q rule: scanRates.induct) (simp_all add: Let_def)

lemma rangeOrder_filter:
  "filter P (rangeOrder r rates) = rangeOrder r (filter P rates)"
  by (simp add: rangeOrder_def filter_sort)

lemma scanRates_Inl:
  "scanRates es cur to vis q = Inl r \<Longrightarrow> (fst cur, to) \<in> fst ` set es"
  by (induction es cur to vis q rule: scanRates.induct)
     (auto simp: Let_def split: if_splits intro: rev_image_eqI)

lemma scanRates_Inr_queue:
  "scanRates es cur to vis q = Inr (vis', q') \<Longrightarrow>
     fst ` set q' \<subseteq> fst ` set q \<union> {t. (fst cur, t) \<in> fst ` set es}"
proof (induction es arbitrary: vis q)
  case Nil
  then show ?case by simp
next
  case (Cons e es)
  obtain pair rate where e: "e = (pair, rate)" by (cases e)
  have mono: "{t. (fst cur, t) \<in> fst ` set es} \<subseteq> {t. (fst cur, t) \<in> fst ` set (e # es)}"
    by auto
  show ?case
  proof (cases "fst pair = fst cur \<and> snd pair \<noteq> to \<and> snd pair \<notin> vis")
    case True
    have step: "scanRates es cur to (insert (snd pair) vis)
        (q @ [(snd pair, snd cur * rate)]) = Inr (vis', q')"
      using Cons.prems True by (simp add: e Let_def)
    have "pair = (fst cur, snd pair)" using True by (cases pair) simp
    then have "(fst cur, snd pair) \<in> fst ` set (e # es)"
      by (metis e fst_conv image_eqI list.set_intros(1))
    then have new: "snd pair \<in> {t. (fst cur, t) \<in> fst ` set (e # es)}" by simp
    have "fst ` set q' \<subseteq> fst ` set (q @ [(snd pair, snd cur * rate)])
        \<union> {t. (fst cur, t) \<in> fst ` set es}"
      using Cons.IH [OF step] .
    also have "\<dots> \<subseteq> fst ` set q \<union> {t. (fst cur, t) \<in> fst ` set (e # es)}"
      using new mono by auto
    finally show ?thesis .
  next
    case False
    have step: "scanRates es cur to vis q = Inr (vis', q')"
      using Cons.prems False by (auto simp: e Let_def split: if_splits)
    have "fst ` set q' \<subseteq> fst ` set q \<union> {t. (fst cur, t) \<in> fst ` set es}"
      using Cons.IH [OF step] .
    then show ?thesis using mono by blast
  qed
qed

text \<open>A rate found by the search comes from a chain of stored pairs.\<close>

lemma bfsLoop_sound:
  "bfsLoop ord k rates to vis q = Some r \<Longrightarrow>
     \<exists>c \<in> fst ` set q. (c, to) \<in> (fst ` set rates)\<^sup>+"
proof (induction ord k rates to vis q rule: bfsLoop.induct)
  case (1 ord k rates to visited)
  then show ?case by simp
next
  case (2 ord k rates to visited current queue)
  let ?es = "rangeOrder (ord k) rates"
  have es: "fst ` set ?es = fst ` set rates" by (simp add: rangeOrder_def)
  show ?case
  proof (cases "scanRates ?es current to visited queue")
    case (Inl x)
    from scanRates_Inl [OF Inl] es have "(fst current, to) \<in> fst ` set rates" by simp
    then show ?thesis by auto
  next
    case (Inr p)
    obtain visited' queue' where p: "p = (visited', queue')" by (cases p)
    have run: "bfsLoop ord (Suc k) rates to visited' queue' = Some r"
      using "2.prems" Inr p by simp
    from "2.IH" [OF Inr [unfolded p] refl run]
    obtain c where c: "c \<in> fst ` set queue'" "(c, to) \<in> (fst ` set rates)\<^sup>+" by blast
    from scanRates_Inr_queue [OF Inr [unfolded p]] c(1) es
    have "c \<in> fst ` set queue \<or> (fst current, c) \<in> fst ` set rates" by auto
    then show ?thesis
    proof
      assume "c \<in> fst ` set queue"
      with c(2) show ?thesis by auto
    next
      assume "(fst current, c) \<in> fst ` set rates"
      from this c(2) have "(fst current, to) \<in> (fst ` set rates)\<^sup>+"
        by (rule trancl_into_trancl2)
      then show ?thesis by auto
    qed
  qed
qed

lemma GetRate_unreachable:
  assumes "(ToUpper from, ToUpper to) \<notin> (fst ` set rates)\<^sup>*"
  shows "GetRate ord rates from to = None"
proof -
  have ne: "ToUpper from \<noteq> ToUpper to" using assms by auto
  have nodirect: "map_of rates (ToUpper from, ToUpper to) = None"
  proof (rule ccontr)
    assume "map_of rates (ToUpper from, ToUpper to) \<noteq> None"
    then obtain r where "map_of rates (ToUpper from, ToUpper to) = Some r" by auto
    then have "(ToUpper from, ToUpper to) \<in> fst ` set rates"
      by (metis image_eqI fst_conv map_of_SomeD)
    with assms show False by auto
  qed
  have "findRateBFS ord rates (ToUpper from) (ToUpper to) = None"
  proof (rule ccontr)
    assume "findRateBFS ord rates (ToUpper from) (ToUpper to) \<noteq> None"
    then obtain r where
      "bfsLoop ord 0 rates (ToUpper to) {ToUpper from} [(ToUpper from, 1)] = Some r"
      by (auto simp: findRateBFS_def)
    from bfsLoop_sound [OF this]
    have "(ToUpper from, ToUpper to) \<in> (fst ` set rates)\<^sup>+" by simp
    with assms show False by (simp add: trancl_into_rtrancl)
  qed
  with ne nodirect show ?thesis by (simp add: GetRate_def Let_def)
qed

lemma table_two:
  assumes "a \<noteq> b" "b \<noteq> c" "a \<noteq> c" "r1 \<noteq> 0" "r2 \<noteq> 0"
  shows "AList.update (c, b) (1 / r2) (AList.update (b, c) r2
          (AList.update (b, a) (1 / r1) (AList.update (a, b) r1 [])))
       = [((a, b), r1), ((b, a), 1 / r1), ((b, c), r2), ((c, b), 1 / r2)]"
  using assms by auto

lemma GetRate_two_hops:
  assumes "ToUpper A \<noteq> ToUpper B" "ToUpper B \<noteq> ToUpper C" "ToUpper A \<noteq> ToUpper C"
    and "r1 \<noteq> 0" "r2 \<noteq> 0"
  shows "GetRate ord (SetRate (SetRate [] A B r1) B C r2) A C = Some (r1 * r2)"
proof -
  define a b c where "a = ToUpper A" and "b = ToUpper B" and "c = ToUpper C"
  define T where "T = [((a, b), r1), ((b, a), 1 / r1), ((b, c), r2), ((c, b), 1 / r2)]"
  have ne: "a \<noteq> b" "b \<noteq> c" "a \<noteq> c" using assms by (simp_all add: a_def b_def c_def)
  have T: "SetRate (SetRate [] A B r1) B C r2 = T"
    using table_two [OF ne assms(4,5)] assms(4,5)
    by (simp add: SetRate_def Let_def T_def a_def b_def c_def)
  have first: "scanRates (rangeOrder r T) (a, 1) c {a} [] = Inr ({a, b}, [(b, r1)])" for r
    using ne
    by (subst scanRates_filter) (auto simp: rangeOrder_filter T_def rangeOrder_def Let_def)
  have second: "scanRates (rangeOrder r T) (b, r1) c {a, b} [] = Inl (r1 * r2)" for r
    using ne
    by (subst scanRates_filter) (auto simp: rangeOrder_filter T_def rangeOrder_def Let_def)
  have "bfsLoop ord 0 T c {a} [(a, 1)] = Some (r1 * r2)"
    by (simp add: first second)
  moreover have "map_of T (a, c) = None" using ne by (simp add: T_def)
  ultimately show ?thesis
    using ne by (simp add: GetRate_def Let_def T findRateBFS_def a_def b_def c_def)
qed


subsection \<open>Facts about the stored table\<close>

lemma keys_update: "fst ` set (AList.update k v al) = insert k (fst ` set al)"
  by (induction al) auto

lemma map_of_SetRate_inverse:
  "rate \<noteq> 0 \<Longrightarrow>
     map_of (SetRate rates from to rate) (ToUpper to, ToUpper from) = Some (1 / rate)"
  by (simp add: SetRate_def Let_def update_conv')

lemma map_of_SetRate_direct:
  "ToUpper from \<noteq> ToUpper to \<Longrightarrow>
     map_of (SetRate rates from to rate) (ToUpper from, ToUpper to) = Some rate"
  by (simp add: SetRate_def Let_def update_conv')

lemma keys_SetRate:
  "fst ` set (SetRate rates from to rate)
     \<subseteq> insert (ToUpper from, ToUpper to) (insert (ToUpper to, ToUpper from) (fst ` set rates))"
  by (auto simp: SetRate_def Let_def keys_update)

lemma GetRate_same: "GetRate ord rates A A = Some 1"
  by (simp add: GetRate_def)

lemma map_of_storeFiat_other:
  "c \<noteq> ''USD'' \<Longrightarrow>
     map_of (storeFiat (c, r) rates) (''USD'', ''USD'') = map_of rates (''USD'', ''USD'')"
  by (simp add: storeFiat_def Let_def update_conv')

lemma map_of_storeAsset_other:
  "c \<noteq> ''USD'' \<Longrightarrow>
     map_of (storeAsset (c, r) rates) (''USD'', ''USD'') = map_of rates (''USD'', ''USD'')"
  by (simp add: storeAsset_def Let_def update_conv')

lemma map_of_fold_storeFiat:
  "\<forall>e \<in> set es. fst e \<noteq> ''USD'' \<Longrightarrow>
     map_of (fold storeFiat es rates) (''USD'', ''USD'') = map_of rates (''USD'', ''USD'')"
proof (induction es arbitrary: rates)
  case Nil
  then show ?case by simp
next
  case (Cons e es)
  obtain c r where e: "e = (c, r)" by (cases e)
  have c: "c \<noteq> ''USD''" using Cons.prems e by simp
  have "map_of (fold storeFiat es (storeFiat e rates)) (''USD'', ''USD'')
      = map_of (storeFiat e rates) (''USD'', ''USD'')"
    using Cons.IH Cons.prems by simp
  then show ?case using map_of_storeFiat_other [OF c] e by simp
qed

lemma map_of_fold_storeAsset:
  "\<forall>e \<in> set es. fst e \<noteq> ''USD'' \<Longrightarrow>
     map_of (fold storeAsset es rates) (''USD'', ''USD'') = map_of rates (''USD'', ''USD'')"
proof (induction es arbitrary: rates)
  case Nil
  then show ?case by simp
next
  case (Cons e es)
  obtain c r where e: "e = (c, r)" by (cases e)
  have c: "c \<noteq> ''USD''" using Cons.prems e by simp
  have "map_of (fold storeAsset es (storeAsset e rates)) (''USD'', ''USD'')
      = map_of (storeAsset e rates) (''USD'', ''USD'')"
    using Cons.IH Cons.prems by simp
  then show ?case using map_of_storeAsset_other [OF c] e by simp
qed

lemma usd_not_default:
  "\<forall>e \<in> set fiatDefaults. fst e \<noteq> ''USD''"
  "\<forall>e \<in> set cryptoDefaults. fst e \<noteq> ''USD''"
  "\<forall>e \<in> set metalDefaults. fst e \<noteq> ''USD''"
  by (simp_all add: fiatDefaults_def cryptoDefaults_def metalDefaults_def)

lemma loadDefaults_USD_USD: "map_of (loadDefaults rates) (''USD'', ''USD'') = Some 1"
  unfolding loadDefaults_def
  by (simp only: map_of_fold_storeFiat [OF usd_not_default(1)]
      map_of_fold_storeAsset [OF usd_not_default(2)]
      map_of_fold_storeAsset [OF usd_not_default(3)] update_conv' fun_upd_same)

text \<open>The defaults write pairs with \<^verbatim>\<open>USD\<close> on one side only.\<close>

lemma identity_storeFiat:
  "(c, c) \<in> fst ` set (storeFiat e rates) \<Longrightarrow> c = ''USD'' \<or> (c, c) \<in> fst ` set rates"
  by (auto simp: storeFiat_def Let_def keys_update split: if_splits)

lemma identity_storeAsset:
  "(c, c) \<in> fst ` set (storeAsset e rates) \<Longrightarrow> c = ''USD'' \<or> (c, c) \<in> fst ` set rates"
  by (auto simp: storeAsset_def Let_def keys_update split: if_splits)

lemma identity_fold_storeFiat:
  "(c, c) \<in> fst ` set (fold storeFiat es rates) \<Longrightarrow> c = ''USD'' \<or> (c, c) \<in> fst ` set rates"
proof (induction es arbitrary: rates)
  case Nil
  then show ?case by simp
next
  case (Cons e es)
  from Cons.prems have "(c, c) \<in> fst ` set (fold storeFiat es (storeFiat e rates))" by simp
  from Cons.IH [OF this] show ?case using identity_storeFiat [of c e rates] by blast
qed

lemma identity_fold_storeAsset:
  "(c, c) \<in> fst ` set (fold storeAsset es rates) \<Longrightarrow> c = ''USD'' \<or> (c, c) \<in> fst ` set rates"
proof (induction es arbitrary: rates)
  case Nil
  then show ?case by simp
next
  case (Cons e es)
  from Cons.prems have "(c, c) \<in> fst ` set (fold storeAsset es (storeAsset e rates))" by simp
  from Cons.IH [OF this] show ?case using identity_storeAsset [of c e rates] by blast
qed

lemma identity_loadDefaults:
  assumes "(c, c) \<in> fst ` set (loadDefaults rates)"
  shows "c = ''USD'' \<or> (c, c) \<in> fst ` set rates"
proof -
  let ?t0 = "AList.update (''USD'', ''USD'') 1 rates"
  let ?t1 = "fold storeFiat fiatDefaults ?t0"
  let ?t2 = "fold storeAsset cryptoDefaults ?t1"
  from assms have "c = ''USD'' \<or> (c, c) \<in> fst ` set ?t2"
    unfolding loadDefaults_def by (rule identity_fold_storeAsset)
  then have "c = ''USD'' \<or> (c, c) \<in> fst ` set ?t1"
    using identity_fold_storeAsset [of c cryptoDefaults ?t1] by blast
  then have "c = ''USD'' \<or> (c, c) \<in> fst ` set ?t0"
    using identity_fold_storeFiat [of c fiatDefaults ?t0] by blast
  then show ?thesis
    by (auto simp: keys_update)
qed

subsection \<open>ast: statements and expressions\<close>

datatype BinaryOp = OpAdd | OpSub | OpMul | OpDiv | OpPow | OpMod

datatype UnaryOp = OpNeg | OpPos

fun Precedence :: "BinaryOp \<Rightarrow> int" where
  "Precedence OpAdd = 1"
| "Precedence OpSub = 1"
| "Precedence OpMul = 2"
| "Precedence OpDiv = 2"
| "Precedence OpMod = 2"
| "Precedence OpPow = 3"

datatype Expr =
    NumberLit real string
  | PercentLit real string
  | CurrencyLit real "Currency option" string
  | UnitLit real "Unit option" string
  | MetalLit real "Metal option" string
  | CryptoLit real "Crypto option" string
  | Identifier string
  | BinaryExpr Expr BinaryOp Expr
  | UnaryExpr UnaryOp Expr
  | PercentOfExpr Expr Expr
  | ConversionExpr Expr string
  | CallExpr string "Expr list"
  | GroupExpr Expr
  | ContinuationExpr BinaryOp Expr
  | ConversionContinuation string
  | CondExpr Expr Expr Expr
  | RangeExpr Expr Expr "Expr option"

datatype Stmt = EmptyStmt | CommentStmt string | ExprStmt Expr | AssignStmt string Expr

record Line =
  Stmt :: "Stmt option"
  Comment :: string
  Raw :: string

subsection \<open>The surroundings of the evaluator\<close>

text \<open>
  What the evaluator and the parser take from outside: the static registries of package
  \<^verbatim>\<open>types\<close> (lookup tables of currencies, cryptocurrencies, metals and units), Go's
  \<^verbatim>\<open>math\<close> and \<^verbatim>\<open>strconv\<close>, the order in which the runtime visits the rate table, and
  the capacity that \<^verbatim>\<open>append\<close> gives a slice it has to move (\<open>appendCap\<close>, from the length
  so far).
  A \<^verbatim>\<open>math\<close> function of one argument yields \<open>None\<close> where Go's yields NaN or an
  infinity. Every statement below holds for every such environment.
\<close>

record Env =
  ParseCurrency :: "string \<Rightarrow> Currency option"
  ParseCrypto :: "string \<Rightarrow> Crypto option"
  ParseMetal :: "string \<Rightarrow> Metal option"
  ParseUnit :: "string \<Rightarrow> Unit option"
  CurrencyFromCode :: "string \<Rightarrow> Currency option"
  LookupCurrencyBySymbol :: "string \<Rightarrow> Currency option"
  LookupCrypto :: "string \<Rightarrow> Crypto option"
  IsCurrencySymbolRune :: "nat \<Rightarrow> bool"
  IsCryptoSymbolRune :: "nat \<Rightarrow> bool"
  unicodeIsLetter :: "nat \<Rightarrow> bool"
  mathPow :: "real \<Rightarrow> real \<Rightarrow> real"
  mathMod :: "real \<Rightarrow> real \<Rightarrow> real"
  mathUnary :: "string \<Rightarrow> real \<Rightarrow> real option"
  strconvParseFloat :: "string \<Rightarrow> real option"
  rangeRank :: "nat \<Rightarrow> ratePair \<Rightarrow> nat"
  appendCap :: "nat \<Rightarrow> nat"

subsection \<open>cache: converting values\<close>

definition RateCache_ConvertValue :: "Env \<Rightarrow> rateTable \<Rightarrow> Value \<Rightarrow> string \<Rightarrow> Value \<times> bool" where
  "RateCache_ConvertValue env rates v target0 =
     (if IsError v \<or> IsEmpty v then (v, False)
      else
        let target = ToUpper target0 in
        case Kind v of
          ValueCurrency \<Rightarrow>
            (case Curr v of
               None \<Rightarrow> (v, False)
             | Some c \<Rightarrow>
                 (case Convert (rangeRank env) rates (Num v) (curCode c) target of
                    None \<Rightarrow> (v, False)
                  | Some converted \<Rightarrow>
                      (let targetCurr =
                         (case ParseCurrency env target of
                            None \<Rightarrow> CurrencyFromCode env target
                          | Some t \<Rightarrow> Some t)
                       in (CurrencyValue converted targetCurr, True))))
        | ValueCrypto \<Rightarrow>
            (case VCrypto v of
               None \<Rightarrow> (v, False)
             | Some c \<Rightarrow>
                 (case Convert (rangeRank env) rates (Num v) (cryptoCode c) target of
                    None \<Rightarrow> (v, False)
                  | Some converted \<Rightarrow>
                      (case ParseCrypto env target of
                         Some tc \<Rightarrow> (CryptoValue converted (Some tc), True)
                       | None \<Rightarrow>
                           (case ParseCurrency env target of
                              Some t \<Rightarrow> (CurrencyValue converted (Some t), True)
                            | None \<Rightarrow> (Number converted, True)))))
        | ValueMetal \<Rightarrow>
            (case VMetal v of
               None \<Rightarrow> (v, False)
             | Some m \<Rightarrow>
                 (case Convert (rangeRank env) rates (Num v) (metalCode m) target of
                    None \<Rightarrow> (v, False)
                  | Some converted \<Rightarrow>
                      (case ParseCurrency env target of
                         Some t \<Rightarrow> (CurrencyValue converted (Some t), True)
                       | None \<Rightarrow> (Number converted, True))))
        | _ \<Rightarrow> (v, False))"

subsection \<open>eval: the context\<close>

record LineResult =
  Input :: string
  LValue :: Value
  IsConsumed :: bool
  IsContinuation :: bool
  AssignedVar :: string

text \<open>
  The session state held by a \<^verbatim>\<open>*Context\<close>: the contents of its variables map and of its
  line slice, and its scalar fields. \<open>rateCache\<close> is \<open>None\<close> for a \<^verbatim>\<open>nil\<close> pointer.
\<close>

record Context =
  variables :: "string \<rightharpoonup> Value"
  rateCache :: "rateTable option"
  previous :: Value
  lines :: "LineResult list"
  precision :: int
  strict :: bool

definition NewContext :: "rateTable \<Rightarrow> Context" where
  "NewContext rc = \<lparr>variables = Map.empty, rateCache = Some rc, previous = Empty, lines = [],
     precision = 2, strict = False\<rparr>"

text \<open>\<^verbatim>\<open>calculateTotal\<close>: the sum over the lines that are not consumed and are numeric.\<close>

fun totalLoop :: "LineResult list \<Rightarrow> real \<Rightarrow> real" where
  "totalLoop [] tot = tot"
| "totalLoop (lr # rest) tot =
     (if IsConsumed lr then totalLoop rest tot
      else if IsNumeric (LValue lr) then totalLoop rest (tot + AsFloat (LValue lr))
      else totalLoop rest tot)"

definition calculateTotal :: "Context \<Rightarrow> Value" where
  "calculateTotal c = Number (totalLoop (lines c) 0)"

text \<open>\<^verbatim>\<open>GetVariable\<close> returns the value and the \<^verbatim>\<open>ok\<close> flag.\<close>

definition GetVariable :: "Context \<Rightarrow> string \<Rightarrow> Value \<times> bool" where
  "GetVariable c name =
     (let lower = ToLower name in
      if lower = ''_'' \<or> lower = ''ans'' then
        (if \<not> IsEmpty (previous c) then (previous c, True) else (Empty, False))
      else if lower = ''total'' then (calculateTotal c, True)
      else case variables c name of
             Some v \<Rightarrow> (v, True)
           | None \<Rightarrow>
               (case variables c lower of
                  Some v \<Rightarrow> (v, True)
                | None \<Rightarrow> (zeroValue, False)))"

definition SetVariable :: "Context \<Rightarrow> string \<Rightarrow> Value \<Rightarrow> Context" where
  "SetVariable c name v =
     (let lower = ToLower name in
      if lower = ''_'' \<or> lower = ''ans'' \<or> lower = ''total'' then c
      else c\<lparr>variables := (variables c)(name \<mapsto> v)\<rparr>)"

definition DeleteVariable :: "Context \<Rightarrow> string \<Rightarrow> Context" where
  "DeleteVariable c name = c\<lparr>variables := (variables c)(name := None)\<rparr>"

definition ClearVariables :: "Context \<Rightarrow> Context" where
  "ClearVariables c = c\<lparr>variables := Map.empty\<rparr>"

definition SetPrevious :: "Context \<Rightarrow> Value \<Rightarrow> Context" where
  "SetPrevious c v = (if \<not> IsEmpty v \<and> \<not> IsError v then c\<lparr>previous := v\<rparr> else c)"

definition HasPrevious :: "Context \<Rightarrow> bool" where
  "HasPrevious c = (\<not> IsEmpty (previous c) \<and> \<not> IsError (previous c))"

definition AddLineResult :: "Context \<Rightarrow> LineResult \<Rightarrow> Context" where
  "AddLineResult c lr = c\<lparr>lines := lines c @ [lr]\<rparr>"

text \<open>
  \<^verbatim>\<open>MarkLastConsumed\<close> walks the lines from the last to the first; \<open>markLoop\<close> takes them
  in that order (reversed) and marks the first valid one.
\<close>

fun markLoop :: "LineResult list \<Rightarrow> LineResult list" where
  "markLoop [] = []"
| "markLoop (lr # rest) =
     (if \<not> IsEmpty (LValue lr) \<and> \<not> IsError (LValue lr) then lr\<lparr>IsConsumed := True\<rparr> # rest
      else lr # markLoop rest)"

definition MarkLastConsumed :: "Context \<Rightarrow> Context" where
  "MarkLastConsumed c = c\<lparr>lines := rev (markLoop (rev (lines c)))\<rparr>"

definition ClearLines :: "Context \<Rightarrow> Context" where
  "ClearLines c = c\<lparr>lines := []\<rparr>"

definition Clear :: "Context \<Rightarrow> Context" where
  "Clear c = c\<lparr>variables := Map.empty, previous := Empty, lines := []\<rparr>"

definition Context_Convert :: "Env \<Rightarrow> Context \<Rightarrow> real \<Rightarrow> string \<Rightarrow> string \<Rightarrow> real option" where
  "Context_Convert env c amount from to =
     (case rateCache c of
        None \<Rightarrow> None
      | Some rc \<Rightarrow> Convert (rangeRank env) rc amount from to)"

definition Context_ConvertValue :: "Env \<Rightarrow> Context \<Rightarrow> Value \<Rightarrow> string \<Rightarrow> Value \<times> bool" where
  "Context_ConvertValue env c v target =
     (if Kind v = ValueWithUnit \<and> VUnit v \<noteq> None then
        (case ParseUnit env target of
           Some targetUnit \<Rightarrow>
             (case ConvertTo (the (VUnit v)) (Num v) targetUnit of
                Some converted \<Rightarrow> (UnitValue converted (Some targetUnit), True)
              | None \<Rightarrow> (v, False))
         | None \<Rightarrow> (v, False))
      else case rateCache c of
             None \<Rightarrow> (v, False)
           | Some rc \<Rightarrow> RateCache_ConvertValue env rc v target)"

subsection \<open>types: error values with a formatted message\<close>

fun indexOf :: "char \<Rightarrow> string \<Rightarrow> nat option" where
  "indexOf c [] = None"
| "indexOf c (x # xs) =
     (if x = c then Some 0 else case indexOf c xs of None \<Rightarrow> None | Some i \<Rightarrow> Some (Suc i))"

text \<open>
  One round of the loop of \<^verbatim>\<open>Errorf\<close>: the first \<^verbatim>\<open>%\<close> and the byte after it give way
  to the argument (the evaluator passes strings only).
\<close>

definition errorfStep :: "string \<Rightarrow> string \<Rightarrow> string" where
  "errorfStep arg msg =
     (case indexOf CHR ''%'' msg of
        None \<Rightarrow> msg
      | Some idx \<Rightarrow> take idx msg @ arg @ drop (idx + 2) msg)"

definition Errorf :: "string \<Rightarrow> string list \<Rightarrow> Value" where
  "Errorf format args = Error (fold errorfStep args format)"

subsection \<open>eval: binary operations\<close>

definition applyPercentageOp :: "BinaryOp \<Rightarrow> Value \<Rightarrow> Value \<Rightarrow> Value" where
  "applyPercentageOp op left right =
     (let baseValue = AsFloat left; percentage = Num right;
          result = (if op = OpAdd then baseValue * (1 + percentage)
                    else baseValue * (1 - percentage))
      in WithAmount left result)"

definition coerceResult :: "Env \<Rightarrow> Context \<Rightarrow> real \<Rightarrow> Value \<Rightarrow> Value \<Rightarrow> BinaryOp \<Rightarrow> Value" where
  "coerceResult env c result left right op =
     (if (op = OpMul \<or> op = OpDiv) \<and> IsNumber left \<and> \<not> IsNumber right
        then WithAmount right result
      else if (op = OpMul \<or> op = OpDiv) \<and> IsNumber right \<and> \<not> IsNumber left
        then WithAmount left result
      else if (op = OpMul \<or> op = OpDiv) \<and> \<not> IsNumber left \<and> \<not> IsNumber right
        then Number result
      else if (op = OpAdd \<or> op = OpSub) \<and> Kind left = Kind right
        then WithAmount left result
      else if (op = OpAdd \<or> op = OpSub) \<and> IsNumber left
        then WithAmount right result
      else if (op = OpAdd \<or> op = OpSub) \<and> IsNumber right
        then WithAmount left result
      else if (op = OpAdd \<or> op = OpSub) \<and> IsCurrency left \<and> IsCurrency right
              \<and> Curr left \<noteq> None \<and> Curr right \<noteq> None
              \<and> Context_Convert env c (Num right) (curCode (the (Curr right)))
                    (curCode (the (Curr left))) \<noteq> None
        then (let converted = the (Context_Convert env c (Num right)
                     (curCode (the (Curr right))) (curCode (the (Curr left))))
              in if op = OpAdd then WithAmount left (Num left + converted)
                 else WithAmount left (Num left - converted))
      else if (op = OpAdd \<or> op = OpSub) \<and> IsUnit left \<and> IsUnit right
        then (if VUnit left \<noteq> None \<and> VUnit right \<noteq> None
                \<and> ConvertTo (the (VUnit right)) (Num right) (the (VUnit left)) \<noteq> None
              then (let converted = the (ConvertTo (the (VUnit right)) (Num right)
                                           (the (VUnit left)))
                    in if op = OpAdd then WithAmount left (Num left + converted)
                       else WithAmount left (Num left - converted))
              else Error ''incompatible units'')
      else Number result)"

definition applyBinaryOp :: "Env \<Rightarrow> Context \<Rightarrow> BinaryOp \<Rightarrow> Value \<Rightarrow> Value \<Rightarrow> Value" where
  "applyBinaryOp env c op left right =
     (if IsPercentage right \<and> (op = OpAdd \<or> op = OpSub) then applyPercentageOp op left right
      else
        let leftNum0 = AsFloat left; rightNum0 = AsFloat right;
            rightNum = (if IsPercentage right \<and> (op = OpMul \<or> op = OpDiv) then Num right
                        else rightNum0);
            leftNum = (if IsPercentage left \<and> (op = OpMul \<or> op = OpDiv) then Num left
                       else leftNum0)
        in case op of
             OpAdd \<Rightarrow> coerceResult env c (leftNum + rightNum) left right op
           | OpSub \<Rightarrow> coerceResult env c (leftNum - rightNum) left right op
           | OpMul \<Rightarrow> coerceResult env c (leftNum * rightNum) left right op
           | OpDiv \<Rightarrow>
               (if rightNum = 0 then Error ''division by zero''
                else coerceResult env c (leftNum / rightNum) left right op)
           | OpPow \<Rightarrow> coerceResult env c (mathPow env leftNum rightNum) left right op
           | OpMod \<Rightarrow>
               (if rightNum = 0 then Error ''modulo by zero''
                else coerceResult env c (mathMod env leftNum rightNum) left right op))"

subsection \<open>eval: built-in functions\<close>

fun sumLoop :: "Value list \<Rightarrow> real \<Rightarrow> Value + real" where
  "sumLoop [] tot = Inr tot"
| "sumLoop (arg # rest) tot =
     (if IsError arg then Inl arg else sumLoop rest (tot + AsFloat arg))"

definition fnSum :: "Value list \<Rightarrow> Value" where
  "fnSum args =
     (case args of
        [] \<Rightarrow> Number 0
      | resultType # _ \<Rightarrow>
          (case sumLoop args 0 of
             Inl e \<Rightarrow> e
           | Inr tot \<Rightarrow> WithAmount resultType tot))"

definition fnAvg :: "Value list \<Rightarrow> Value" where
  "fnAvg args =
     (if args = [] then Number 0
      else let s = fnSum args in
        if IsError s then s else WithAmount s (AsFloat s / real (length args)))"

fun minLoop :: "Value list \<Rightarrow> Value \<Rightarrow> real \<Rightarrow> Value" where
  "minLoop [] minVal minNum = WithAmount minVal minNum"
| "minLoop (arg # rest) minVal minNum =
     (if IsError arg then arg
      else if AsFloat arg < minNum then minLoop rest arg (AsFloat arg)
      else minLoop rest minVal minNum)"

definition fnMin :: "Value list \<Rightarrow> Value" where
  "fnMin args =
     (case args of
        [] \<Rightarrow> Error ''min requires at least one argument''
      | first # rest \<Rightarrow> minLoop rest first (AsFloat first))"

fun maxLoop :: "Value list \<Rightarrow> Value \<Rightarrow> real \<Rightarrow> Value" where
  "maxLoop [] maxVal maxNum = WithAmount maxVal maxNum"
| "maxLoop (arg # rest) maxVal maxNum =
     (if IsError arg then arg
      else if AsFloat arg > maxNum then maxLoop rest arg (AsFloat arg)
      else maxLoop rest maxVal maxNum)"

definition fnMax :: "Value list \<Rightarrow> Value" where
  "fnMax args =
     (case args of
        [] \<Rightarrow> Error ''max requires at least one argument''
      | first # rest \<Rightarrow> maxLoop rest first (AsFloat first))"

definition fnUnary :: "Value list \<Rightarrow> (real \<Rightarrow> real option) \<Rightarrow> Value" where
  "fnUnary args fn =
     (case args of
        [arg] \<Rightarrow>
          (if IsError arg then arg
           else case fn (AsFloat arg) of
                  None \<Rightarrow> Error ''invalid result''
                | Some result \<Rightarrow> Number result)
      | _ \<Rightarrow> Error ''function requires exactly one argument'')"

text \<open>
  \<^verbatim>\<open>fnPow\<close> rejects a NaN or infinite power; the model has none, so the check never
  fires here.
\<close>

definition fnPow :: "Env \<Rightarrow> Value list \<Rightarrow> Value" where
  "fnPow env args =
     (case args of
        [b, e] \<Rightarrow> Number (mathPow env (AsFloat b) (AsFloat e))
      | _ \<Rightarrow> Error ''pow requires exactly two arguments'')"

definition callFunction :: "Env \<Rightarrow> string \<Rightarrow> Value list \<Rightarrow> Value" where
  "callFunction env name args =
     (if name = ''sum'' then fnSum args
      else if name = ''avg'' \<or> name = ''average'' \<or> name = ''mean'' then fnAvg args
      else if name = ''min'' then fnMin args
      else if name = ''max'' then fnMax args
      else if name = ''count'' then Number (real (length args))
      else if name = ''abs'' then fnUnary args (mathUnary env ''Abs'')
      else if name = ''sqrt'' then fnUnary args (mathUnary env ''Sqrt'')
      else if name = ''round'' then fnUnary args (mathUnary env ''Round'')
      else if name = ''floor'' then fnUnary args (mathUnary env ''Floor'')
      else if name = ''ceil'' then fnUnary args (mathUnary env ''Ceil'')
      else if name = ''log'' \<or> name = ''log10'' then fnUnary args (mathUnary env ''Log10'')
      else if name = ''ln'' then fnUnary args (mathUnary env ''Log'')
      else if name = ''exp'' then fnUnary args (mathUnary env ''Exp'')
      else if name = ''sin'' then fnUnary args (mathUnary env ''Sin'')
      else if name = ''cos'' then fnUnary args (mathUnary env ''Cos'')
      else if name = ''tan'' then fnUnary args (mathUnary env ''Tan'')
      else if name = ''asin'' then fnUnary args (mathUnary env ''Asin'')
      else if name = ''acos'' then fnUnary args (mathUnary env ''Acos'')
      else if name = ''atan'' then fnUnary args (mathUnary env ''Atan'')
      else if name = ''pow'' then fnPow env args
      else Errorf ''unknown function: %s'' [name])"

subsection \<open>eval: expressions, statements, lines\<close>

definition evalIdentifier :: "Context \<Rightarrow> string \<Rightarrow> Value" where
  "evalIdentifier c name =
     (case GetVariable c name of
        (v, True) \<Rightarrow> v
      | (_, False) \<Rightarrow>
          (if strict c then Errorf ''undefined variable: %s'' [name] else Number 0))"

definition convertValue :: "Env \<Rightarrow> Context \<Rightarrow> Value \<Rightarrow> string \<Rightarrow> Value" where
  "convertValue env c v target =
     (let viaRates =
        (case Context_ConvertValue env c v target of
           (converted, True) \<Rightarrow> converted
         | (_, False) \<Rightarrow>
             (if ParseCurrency env target \<noteq> None \<or> ParseCrypto env target \<noteq> None
                then Errorf ''no rate available for conversion to %s'' [target]
              else if ParseUnit env target \<noteq> None
                then Errorf ''cannot convert to %s (incompatible types)'' [target]
              else Errorf ''unknown target: %s'' [target]))
      in if IsUnit v \<and> VUnit v \<noteq> None then
           (case ParseUnit env target of
              Some targetUnit \<Rightarrow>
                (case ConvertTo (the (VUnit v)) (Num v) targetUnit of
                   Some converted \<Rightarrow> UnitValue converted (Some targetUnit)
                 | None \<Rightarrow> Errorf ''cannot convert %s to %s'' [unitCode (the (VUnit v)), target])
            | None \<Rightarrow> viaRates)
         else viaRates)"

fun evalExpr :: "Env \<Rightarrow> Context \<Rightarrow> Expr \<Rightarrow> Value"
  and evalArgs :: "Env \<Rightarrow> Context \<Rightarrow> Expr list \<Rightarrow> Value + Value list" where
  "evalExpr env c (NumberLit v raw) = Number v"
| "evalExpr env c (PercentLit v raw) = Percentage v"
| "evalExpr env c (CurrencyLit amount cur raw) = CurrencyValue amount cur"
| "evalExpr env c (UnitLit amount u raw) = UnitValue amount u"
| "evalExpr env c (MetalLit amount m raw) = MetalValue amount m"
| "evalExpr env c (CryptoLit amount cr raw) = CryptoValue amount cr"
| "evalExpr env c (Identifier name) = evalIdentifier c name"
| "evalExpr env c (BinaryExpr l op r) =
     (let left = evalExpr env c l in
      if IsError left then left
      else let right = evalExpr env c r in
        if IsError right then right else applyBinaryOp env c op left right)"
| "evalExpr env c (UnaryExpr op e) =
     (let v = evalExpr env c e in
      if IsError v then v
      else case op of OpNeg \<Rightarrow> Negate v | OpPos \<Rightarrow> v)"
| "evalExpr env c (PercentOfExpr p e) =
     (let percent = evalExpr env c p in
      if IsError percent then percent
      else let v = evalExpr env c e in
        if IsError v then v
        else let pct = (if IsPercentage percent then Num percent else AsFloat percent / 100)
             in WithAmount v (AsFloat v * pct))"
| "evalExpr env c (ConversionExpr e target) =
     (let v = evalExpr env c e in
      if IsError v then v else convertValue env c v target)"
| "evalExpr env c (CallExpr name args) =
     (case evalArgs env c args of
        Inl err \<Rightarrow> err
      | Inr vals \<Rightarrow> callFunction env (ToLower name) vals)"
| "evalExpr env c (GroupExpr e) = evalExpr env c e"
| "evalExpr env c (ContinuationExpr op e) =
     (if \<not> HasPrevious c then evalExpr env c e
      else let prev = previous c; right = evalExpr env c e in
        if IsError right then right else applyBinaryOp env c op prev right)"
| "evalExpr env c (ConversionContinuation target) =
     (if \<not> HasPrevious c then Error ''no previous value to convert''
      else convertValue env c (previous c) target)"
| "evalExpr env c (CondExpr a b d) = Error ''unknown expression type''"
| "evalExpr env c (RangeExpr a b d) = Error ''unknown expression type''"
| "evalArgs env c [] = Inr []"
| "evalArgs env c (arg # rest) =
     (let v = evalExpr env c arg in
      if IsError v then Inl v
      else case evalArgs env c rest of
             Inl err \<Rightarrow> Inl err
           | Inr vals \<Rightarrow> Inr (v # vals))"

text \<open>
  \<^verbatim>\<open>evalStmt\<close> with \<^verbatim>\<open>evalAssign\<close>: the value, and the context after the assignment has
  stored it.
\<close>

fun evalStmt :: "Env \<Rightarrow> Context \<Rightarrow> Stmt \<Rightarrow> Value \<times> Context" where
  "evalStmt env c EmptyStmt = (Empty, c)"
| "evalStmt env c (CommentStmt t) = (Empty, c)"
| "evalStmt env c (ExprStmt e) = (evalExpr env c e, c)"
| "evalStmt env c (AssignStmt name e) =
     (let v = evalExpr env c e in
      if \<not> IsError v then (v, SetVariable c name v) else (v, c))"

fun isContinuationStmt :: "Stmt \<Rightarrow> bool" where
  "isContinuationStmt (ExprStmt (ContinuationExpr op e)) = True"
| "isContinuationStmt (ExprStmt (ConversionContinuation t)) = True"
| "isContinuationStmt s = False"

fun assignedName :: "Stmt \<Rightarrow> string" where
  "assignedName (AssignStmt name e) = name"
| "assignedName s = []"

definition EvalLine :: "Env \<Rightarrow> Context \<Rightarrow> Line \<Rightarrow> Value \<times> Context" where
  "EvalLine env c line =
     (case Stmt line of
        None \<Rightarrow> (Empty, c)
      | Some stmt \<Rightarrow>
          (let (result, c1) = evalStmt env c stmt;
               cont = isContinuationStmt stmt;
               c2 = (if cont then MarkLastConsumed c1 else c1);
               lr = \<lparr>Input = Raw line, LValue = result, IsConsumed = False,
                     IsContinuation = cont, AssignedVar = assignedName stmt\<rparr>;
               c3 = AddLineResult c2 lr;
               c4 = SetPrevious c3 result
           in (result, c4)))"

subsection \<open>Sample registry entries\<close>

text \<open>
  Two entries of \<^verbatim>\<open>curatedCurrencies\<close>, and an environment whose registries hold just
  these two; they serve to run the model on concrete inputs.
\<close>


definition USD :: Currency where
  "USD = \<lparr>curCode = ''USD'', curSymbol = ''$'', curName = ''US Dollar'',
     curAliases = [''dollar'', ''dollars'', ''usd'', ''bucks'', ''buck''],
     curSymbolAfter = False\<rparr>"

definition EUR :: Currency where
  "EUR = \<lparr>curCode = ''EUR'', curSymbol = [CHR 0xE2, CHR 0x82, CHR 0xAC], curName = ''Euro'',
     curAliases = [''euro'', ''euros'', ''eur''], curSymbolAfter = False\<rparr>"


definition sampleLookup :: "string \<Rightarrow> Currency option" where
  "sampleLookup s =
     (if s = curSymbol USD then Some USD
      else if s = curSymbol EUR then Some EUR
      else if ToUpper s = ''USD'' then Some USD
      else if ToUpper s = ''EUR'' then Some EUR
      else if ToLower s \<in> set (curAliases USD) then Some USD
      else if ToLower s \<in> set (curAliases EUR) then Some EUR
      else None)"

text \<open>A stand-in for \<^verbatim>\<open>strconv.ParseFloat\<close> that reads strings of decimal digits.\<close>

fun digitsValue :: "string \<Rightarrow> nat \<Rightarrow> nat option" where
  "digitsValue [] acc = Some acc"
| "digitsValue (c # cs) acc =
     (let d = (of_char c :: nat) in
      if 48 \<le> d \<and> d \<le> 57 then digitsValue cs (10 * acc + (d - 48)) else None)"

definition sampleParseFloat :: "string \<Rightarrow> real option" where
  "sampleParseFloat s = (if s = [] then None else map_option real (digitsValue s 0))"

definition sampleEnv :: Env where
  "sampleEnv = \<lparr>ParseCurrency = sampleLookup,
     ParseCrypto = (\<lambda>s. None), ParseMetal = (\<lambda>s. None), ParseUnit = (\<lambda>s. None),
     CurrencyFromCode = sampleLookup,
     LookupCurrencyBySymbol =
       (\<lambda>s. if s = curSymbol USD then Some USD else if s = curSymbol EUR then Some EUR
            else None),
     LookupCrypto = (\<lambda>s. None),
     IsCurrencySymbolRune = (\<lambda>r. r = 0x24 \<or> r = 0x20AC),
     IsCryptoSymbolRune = (\<lambda>r. False),
     unicodeIsLetter = (\<lambda>r. False),
     mathPow = (\<lambda>x y. x powr y), mathMod = (\<lambda>x y. x - y * of_int (floor (x / y))),
     mathUnary = (\<lambda>name x. None),
     strconvParseFloat = sampleParseFloat,
     rangeRank = (\<lambda>k p. 0), appendCap = (\<lambda>n. 2 * n + 1)\<rparr>"

subsection \<open>The reserved variable names\<close>

text \<open>
  \<open>specialFree c\<close>: no key of the variables map reads \<^verbatim>\<open>_\<close>, \<^verbatim>\<open>ans\<close> or \<^verbatim>\<open>total\<close> in
  lower case.
\<close>

definition specialFree :: "Context \<Rightarrow> bool" where
  "specialFree c = (\<forall>k \<in> dom (variables c). ToLower k \<notin> {''_'', ''ans'', ''total''})"

subsection \<open>token: token types and tokens\<close>

datatype TokenType =
    EOF | ILLEGAL
  | NUMBER | PERCENT | IDENTIFIER
  | PLUS | MINUS | STAR | SLASH | CARET | POWER | LPAREN | RPAREN | EQUALS | COMMA
  | IN | OF
  | DOLLAR | EURO | POUND | YEN | BITCOIN | CURRENCY
  | COMMENT | WHITESPACE | NEWLINE

record Token =
  Type :: TokenType
  Literal :: string
  Pos :: int

definition newToken :: "TokenType \<Rightarrow> string \<Rightarrow> int \<Rightarrow> Token" where
  "newToken typ literal p = \<lparr>Type = typ, Literal = literal, Pos = p\<rparr>"

text \<open>\<^verbatim>\<open>LookupIdentifier\<close> over the \<^verbatim>\<open>Keywords\<close> map.\<close>

definition LookupIdentifier :: "string \<Rightarrow> TokenType" where
  "LookupIdentifier ident =
     (if ident = ''in'' then IN else if ident = ''to'' then IN
      else if ident = ''of'' then OF else IDENTIFIER)"


subsection \<open>lexer: runes\<close>

text \<open>
  A rune is a natural number. \<open>decodeRune\<close> is the lexer's own decoder;
  \<open>encodeRune\<close> is Go's conversion \<^verbatim>\<open>string(r)\<close>, which \<^verbatim>\<open>WriteRune\<close> appends.
\<close>

definition ReplacementChar :: nat where
  "ReplacementChar = 0xFFFD"

definition byteAt :: "string \<Rightarrow> nat \<Rightarrow> nat" where
  "byteAt s i = of_char (s ! i)"

fun decodeCont :: "string \<Rightarrow> nat \<Rightarrow> nat option" where
  "decodeCont [] r = Some r"
| "decodeCont (c # cs) r =
     (if (of_char c :: nat) div 64 \<noteq> 2 then None
      else decodeCont cs (r * 64 + (of_char c :: nat) mod 64))"

text \<open>The size and the payload bits announced by the first byte; size 0 where none is.\<close>

definition runeHeader :: "nat \<Rightarrow> nat \<times> nat" where
  "runeHeader b =
     (if b div 32 = 6 then (2, b mod 32)
      else if b div 16 = 14 then (3, b mod 16)
      else if b div 8 = 30 then (4, b mod 8)
      else (0, 0))"

definition decodeRune :: "string \<Rightarrow> nat \<times> nat" where
  "decodeRune s =
     (case s of
        [] \<Rightarrow> (0, 0)
      | c # cs \<Rightarrow>
          (let b = (of_char c :: nat) in
           if b < 0x80 then (b, 1)
           else
             let (size, r) = runeHeader b
             in if size = 0 then (ReplacementChar, 1)
                else if length s < size then (ReplacementChar, 1)
                else case decodeCont (take (size - 1) cs) r of
                       None \<Rightarrow> (ReplacementChar, 1)
                     | Some r' \<Rightarrow> (r', size)))"

definition encodeRune :: "nat \<Rightarrow> string" where
  "encodeRune r =
     (if r < 0x80 then [char_of r]
      else if r < 0x800 then [char_of (0xC0 + r div 64), char_of (0x80 + r mod 64)]
      else if (0xD800 \<le> r \<and> r \<le> 0xDFFF) \<or> r > 0x10FFFF then [CHR 0xEF, CHR 0xBF, CHR 0xBD]
      else if r < 0x10000 then
        [char_of (0xE0 + r div 4096), char_of (0x80 + (r div 64) mod 64),
         char_of (0x80 + r mod 64)]
      else
        [char_of (0xF0 + r div 262144), char_of (0x80 + (r div 4096) mod 64),
         char_of (0x80 + (r div 64) mod 64), char_of (0x80 + r mod 64)])"

definition isDigit :: "nat \<Rightarrow> bool" where
  "isDigit c = (48 \<le> c \<and> c \<le> 57)"

text \<open>
  \<^verbatim>\<open>isLetter\<close>. On ASCII, \<^verbatim>\<open>unicode.IsLetter\<close> holds for the letters a-z and A-Z only,
  which the first two tests cover; the environment's table is consulted beyond ASCII.
\<close>

definition isLetter :: "Env \<Rightarrow> nat \<Rightarrow> bool" where
  "isLetter env c =
     ((97 \<le> c \<and> c \<le> 122) \<or> (65 \<le> c \<and> c \<le> 90) \<or> c = 95
      \<or> (c \<ge> 0x80 \<and> unicodeIsLetter env c))"

text \<open>\<^verbatim>\<open>LookupCurrencySymbol\<close> over the \<^verbatim>\<open>CurrencySymbols\<close> map.\<close>

definition LookupCurrencySymbol :: "nat \<Rightarrow> TokenType" where
  "LookupCurrencySymbol r =
     (if r = 0x24 then DOLLAR
      else if r = 0x20AC then EURO
      else if r = 0xA3 then POUND
      else if r = 0xA5 then YEN
      else if r = 0x20BF then BITCOIN
      else if r \<in> {0x20B9, 0x20A9, 0x20BD, 0x20AA, 0x20B4, 0x20AE, 0x20B3, 0xD0, 0x141,
                   0x39E, 0x25CE} then CURRENCY
      else ILLEGAL)"

subsection \<open>lexer: state and character reading\<close>

text \<open>
  The fields \<^verbatim>\<open>pos\<close>, \<^verbatim>\<open>line\<close> and \<^verbatim>\<open>col\<close> of the Go struct are \<open>lpos\<close>, \<open>lineNo\<close> and
  \<open>colNo\<close> here.
\<close>

record Lexer =
  input :: string
  lpos :: nat
  readPos :: nat
  ch :: nat
  lineNo :: nat
  colNo :: nat

definition readChar :: "Lexer \<Rightarrow> Lexer" where
  "readChar l =
     (let (c, rp) =
        (if readPos l \<ge> length (input l) then (0, readPos l)
         else
           let b = byteAt (input l) (readPos l) in
           if b \<ge> 0x80 then
             (let (r, size) = decodeRune (drop (readPos l) (input l))
              in (r, readPos l + size - 1))
           else (b, readPos l));
          l1 = l\<lparr>ch := c, lpos := rp, readPos := rp + 1, colNo := colNo l + 1\<rparr>
      in if c = 10 then l1\<lparr>lineNo := lineNo l1 + 1, colNo := 0\<rparr> else l1)"

definition NewLexer :: "string \<Rightarrow> Lexer" where
  "NewLexer s = readChar \<lparr>input = s, lpos = 0, readPos = 0, ch = 0, lineNo = 1, colNo = 0\<rparr>"

definition peekChar :: "Lexer \<Rightarrow> nat" where
  "peekChar l =
     (if readPos l \<ge> length (input l) then 0
      else
        let b = byteAt (input l) (readPos l) in
        if b \<ge> 0x80 then fst (decodeRune (drop (readPos l) (input l))) else b)"

text \<open>
  Every loop of the lexer reads on while the current rune passes a test that the end of
  input (rune 0) fails, so this measure decreases with each round.
\<close>

definition lexMeasure :: "Lexer \<Rightarrow> nat" where
  "lexMeasure l = (length (input l) - readPos l) + (if ch l = 0 then 0 else 1)"

lemma decodeRune_size: "s \<noteq> [] \<Longrightarrow> 1 \<le> snd (decodeRune s) \<and> snd (decodeRune s) \<le> length s"
proof (cases s)
  case Nil
  then show "s \<noteq> [] \<Longrightarrow> ?thesis" by simp
next
  case (Cons c cs)
  obtain size r where h: "runeHeader (of_char c) = (size, r)" by (cases "runeHeader (of_char c)")
  show ?thesis
    by (simp add: Cons decodeRune_def Let_def h split: option.splits)
qed

lemma input_readChar [simp]: "input (readChar l) = input l"
  by (simp add: readChar_def Let_def split: prod.splits)

lemma readPos_readChar:
  "readPos l < length (input l) \<Longrightarrow>
     readPos l < readPos (readChar l) \<and> readPos (readChar l) \<le> length (input l)"
proof -
  assume lt: "readPos l < length (input l)"
  then have ne: "drop (readPos l) (input l) \<noteq> []" by simp
  from decodeRune_size [OF ne]
  have "1 \<le> snd (decodeRune (drop (readPos l) (input l)))"
    and "snd (decodeRune (drop (readPos l) (input l))) \<le> length (input l) - readPos l"
    by simp_all
  then show ?thesis using lt
    by (auto simp: readChar_def Let_def split: prod.splits)
qed

lemma readChar_eof:
  "readPos l \<ge> length (input l) \<Longrightarrow>
     ch (readChar l) = 0 \<and> readPos (readChar l) = readPos l + 1"
  by (simp add: readChar_def Let_def)

lemma lexMeasure_readChar: "ch l \<noteq> 0 \<Longrightarrow> lexMeasure (readChar l) < lexMeasure l"
proof (cases "readPos l < length (input l)")
  case True
  assume "ch l \<noteq> 0"
  moreover have "length (input l) - readPos (readChar l) < length (input l) - readPos l"
    using readPos_readChar [OF True] True by linarith
  ultimately show ?thesis
    by (simp add: lexMeasure_def)
next
  case False
  assume "ch l \<noteq> 0"
  with False readChar_eof [of l] show ?thesis
    by (simp add: lexMeasure_def)
qed

function skipWhitespace :: "Lexer \<Rightarrow> Lexer" where
  "skipWhitespace l =
     (if ch l = 32 \<or> ch l = 9 \<or> ch l = 13 then skipWhitespace (readChar l) else l)"
  by pat_completeness auto
termination
  by (relation "measure lexMeasure") (auto intro: lexMeasure_readChar)

declare skipWhitespace.simps [simp del]

text \<open>\<^verbatim>\<open>for isDigit(l.ch) { sb.WriteRune(l.ch); l.readChar() }\<close>\<close>

function readDigits :: "Lexer \<Rightarrow> string \<Rightarrow> string \<times> Lexer" where
  "readDigits l sb =
     (if isDigit (ch l) then readDigits (readChar l) (sb @ encodeRune (ch l)) else (sb, l))"
  by pat_completeness auto
termination
  by (relation "measure (\<lambda>(l, sb). lexMeasure l)")
     (auto simp: isDigit_def intro: lexMeasure_readChar)

declare readDigits.simps [simp del]

text \<open>The integer part of \<^verbatim>\<open>readNumber\<close>: digits, and commas that a digit follows.\<close>

function readIntegerPart :: "Lexer \<Rightarrow> string \<Rightarrow> bool \<Rightarrow> string \<times> bool \<times> Lexer" where
  "readIntegerPart l sb hasDigits =
     (if isDigit (ch l) \<or> ch l = 44 then
        (if ch l = 44 then
           (if \<not> isDigit (peekChar l) then (sb, hasDigits, l)
            else readIntegerPart (readChar l) sb hasDigits)
         else readIntegerPart (readChar l) (sb @ encodeRune (ch l)) True)
      else (sb, hasDigits, l))"
  by pat_completeness auto
termination
  by (relation "measure (\<lambda>(l, sb, h). lexMeasure l)")
     (auto simp: isDigit_def intro: lexMeasure_readChar)

declare readIntegerPart.simps [simp del]

definition readNumber :: "Lexer \<Rightarrow> nat \<Rightarrow> Token \<times> Lexer" where
  "readNumber l0 startPos =
     (let (sb1, l1) =
            (if ch l0 = 45 then (encodeRune (ch l0), readChar l0) else ([], l0));
          (sb2, hasDigits, l2) = readIntegerPart l1 sb1 False;
          (sb3, l3) =
            (if ch l2 = 46 \<and> isDigit (peekChar l2)
               then readDigits (readChar l2) (sb2 @ encodeRune (ch l2))
             else if ch l2 = 46 \<and> \<not> hasDigits
               then readDigits (readChar l2) (sb2 @ ''0'' @ encodeRune (ch l2))
             else (sb2, l2));
          (sb4, l4) =
            (if ch l3 = 101 \<or> ch l3 = 69 then
               (let sbE = sb3 @ encodeRune (ch l3); lE = readChar l3;
                    (sbS, lS) =
                      (if ch lE = 43 \<or> ch lE = 45 then (sbE @ encodeRune (ch lE), readChar lE)
                       else (sbE, lE))
                in readDigits lS sbS)
             else (sb3, l3))
      in if ch l4 = 37 then (newToken PERCENT (sb4 @ ''%'') (int startPos), readChar l4)
         else (newToken NUMBER sb4 (int startPos), l4))"

function readIdentChars :: "Env \<Rightarrow> Lexer \<Rightarrow> string \<Rightarrow> string \<times> Lexer" where
  "readIdentChars env l sb =
     (if isLetter env (ch l) \<or> isDigit (ch l) \<or> ch l = 95
        then readIdentChars env (readChar l) (sb @ encodeRune (ch l))
      else (sb, l))"
  by pat_completeness auto
termination
  by (relation "measure (\<lambda>(env, l, sb). lexMeasure l)")
     (auto simp: isDigit_def isLetter_def intro: lexMeasure_readChar)

declare readIdentChars.simps [simp del]

function readWordChars :: "Env \<Rightarrow> Lexer \<Rightarrow> string \<Rightarrow> string \<times> Lexer" where
  "readWordChars env l sb =
     (if isLetter env (ch l) \<or> ch l = 95
        then readWordChars env (readChar l) (sb @ encodeRune (ch l))
      else (sb, l))"
  by pat_completeness auto
termination
  by (relation "measure (\<lambda>(env, l, sb). lexMeasure l)")
     (auto simp: isLetter_def intro: lexMeasure_readChar)

declare readWordChars.simps [simp del]

definition multiWordPrefixes :: "(string \<times> string list) list" where
  "multiWordPrefixes =
     [(''turkish'', [''lira'']),
      (''hong'', [''kong'', ''dollar'']),
      (''new'', [''zealand'', ''dollar'']),
      (''south'', [''african'', ''rand'', ''korean'', ''won'']),
      (''saudi'', [''riyal'']),
      (''swiss'', [''franc'', ''francs'']),
      (''british'', [''pound'', ''pounds'']),
      (''us'', [''dollar'', ''dollars'']),
      (''mexican'', [''peso'']),
      (''brazilian'', [''real'']),
      (''indian'', [''rupee'', ''rupees'']),
      (''square'', [''meter'', ''meters'', ''foot'', ''feet'', ''mile'', ''miles'',
                    ''kilometer'', ''kilometers'']),
      (''cubic'', [''meter'', ''meters'']),
      (''fluid'', [''ounce'', ''ounces'']),
      (''troy'', [''ounce'', ''ounces'']),
      (''nautical'', [''mile'', ''miles''])]"

text \<open>
  The loop over the expected words in \<^verbatim>\<open>tryReadMultiWordIdentifier\<close>; it gives the words
  read so far and the lexer where the loop stops.
\<close>

function (sequential) readExpectedWords :: "Env \<Rightarrow> string list \<Rightarrow> Lexer \<Rightarrow> string list \<Rightarrow> string list \<times> Lexer" where
  "readExpectedWords env [] l ws = (ws, l)"
| "readExpectedWords env (expected # rest) l0 ws =
     (let l = skipWhitespace l0 in
      if \<not> isLetter env (ch l) then (ws, l)
      else
        let wordStart = lpos l;
            (word, l1) = readWordChars env l []
        in if ToLower word = expected then readExpectedWords env rest l1 (ws @ [word])
           else (ws, l1\<lparr>lpos := wordStart, readPos := wordStart + 1,
                      ch := (if wordStart < length (input l1) then byteAt (input l1) wordStart
                             else 0)\<rparr>))"
  by pat_completeness auto
termination
  by (relation "measure (\<lambda>(env, es, l, ws). length es)") auto

fun joinWords :: "string list \<Rightarrow> string" where
  "joinWords [] = []"
| "joinWords [w] = w"
| "joinWords (w # ws) = w @ '' '' @ joinWords ws"

definition tryReadMultiWordIdentifier :: "Env \<Rightarrow> Lexer \<Rightarrow> string \<Rightarrow> string \<times> Lexer" where
  "tryReadMultiWordIdentifier env l first =
     (case map_of multiWordPrefixes (ToLower first) of
        None \<Rightarrow> ([], l)
      | Some expectedWords \<Rightarrow>
          (let (ws, l1) = readExpectedWords env expectedWords l [first] in
           if length ws = 1
             then ([], l1\<lparr>lpos := lpos l, readPos := readPos l, ch := ch l, colNo := colNo l\<rparr>)
           else (joinWords ws, l1)))"

definition readIdentifier :: "Env \<Rightarrow> Lexer \<Rightarrow> nat \<Rightarrow> Token \<times> Lexer" where
  "readIdentifier env l startPos =
     (let (literal, l1) = readIdentChars env l [];
          tokType = LookupIdentifier (ToLower literal)
      in if tokType \<noteq> IDENTIFIER then (newToken tokType literal (int startPos), l1)
         else
           let (multiWord, l2) = tryReadMultiWordIdentifier env l1 literal in
           if multiWord \<noteq> [] then (newToken IDENTIFIER multiWord (int startPos), l2)
           else (newToken IDENTIFIER literal (int startPos), l2))"

function readCommentChars :: "Lexer \<Rightarrow> string \<Rightarrow> string \<times> Lexer" where
  "readCommentChars l sb =
     (if ch l \<noteq> 10 \<and> ch l \<noteq> 0 then readCommentChars (readChar l) (sb @ encodeRune (ch l))
      else (sb, l))"
  by pat_completeness auto
termination
  by (relation "measure (\<lambda>(l, sb). lexMeasure l)") (auto intro: lexMeasure_readChar)

declare readCommentChars.simps [simp del]

definition readComment :: "Lexer \<Rightarrow> nat \<Rightarrow> Token \<times> Lexer" where
  "readComment l startPos =
     (let (sb, l1) =
        (if ch l = 35 then (encodeRune (ch l), readChar l)
         else if ch l = 47 then
           (let sb1 = encodeRune (ch l); la = readChar l in
            if ch la = 47 then (sb1 @ encodeRune (ch la), readChar la) else (sb1, la))
         else ([], l));
          (sb2, l2) = readCommentChars l1 sb
      in (newToken COMMENT sb2 (int startPos), l2))"

definition readCurrencySymbol :: "Lexer \<Rightarrow> nat \<Rightarrow> Token \<times> Lexer" where
  "readCurrencySymbol l startPos =
     (let symbol = encodeRune (ch l);
          tokType = LookupCurrencySymbol (of_char (hd symbol))
      in (newToken tokType symbol (int startPos), readChar l))"

fun lookBack :: "string \<Rightarrow> bool" where
  "lookBack [] = True"
| "lookBack (c # cs) =
     (if c = CHR '' '' \<or> c = CHR 0x09 then lookBack cs
      else c \<in> {CHR ''+'', CHR ''-'', CHR ''*'', CHR ''/'', CHR ''^'', CHR ''('', CHR ''='',
                CHR '',''})"

text \<open>
  \<^verbatim>\<open>isStartOfExpression\<close> looks at the bytes at the indices \<^verbatim>\<open>pos - 2\<close> down to 0, that is
  at the first \<open>lpos l - 1\<close> bytes from the last to the first.
\<close>

definition isStartOfExpression :: "Lexer \<Rightarrow> bool" where
  "isStartOfExpression l =
     (if lpos l \<le> 1 then True else lookBack (rev (take (lpos l - 1) (input l))))"

definition single :: "TokenType \<Rightarrow> string \<Rightarrow> Lexer \<Rightarrow> nat \<Rightarrow> Token \<times> Lexer" where
  "single typ literal l startPos = (newToken typ literal (int startPos), readChar l)"

definition NextToken :: "Env \<Rightarrow> Lexer \<Rightarrow> Token \<times> Lexer" where
  "NextToken env l0 =
     (let l = skipWhitespace l0; startPos = lpos l; c = ch l in
      if c = 0 then (newToken EOF [] (int startPos), l)
      else if c = 35 \<or> (c = 47 \<and> peekChar l = 47) then readComment l startPos
      else if IsCurrencySymbolRune env c \<or> IsCryptoSymbolRune env c
        then readCurrencySymbol l startPos
      else if isDigit c \<or> (c = 46 \<and> isDigit (peekChar l)) then readNumber l startPos
      else if c = 43 then single PLUS ''+'' l startPos
      else if c = 45 then
        (if isDigit (peekChar l) \<and> isStartOfExpression l then readNumber l startPos
         else single MINUS ''-'' l startPos)
      else if c = 42 then
        (if peekChar l = 42 then (newToken POWER ''**'' (int startPos), readChar (readChar l))
         else single STAR ''*'' l startPos)
      else if c = 47 then single SLASH ''/'' l startPos
      else if c = 94 then single CARET ''^'' l startPos
      else if c = 40 then single LPAREN ''('' l startPos
      else if c = 41 then single RPAREN '')'' l startPos
      else if c = 61 then single EQUALS ''='' l startPos
      else if c = 44 then single COMMA '','' l startPos
      else if c = 37 then single PERCENT ''%'' l startPos
      else if c = 10 then single NEWLINE [CHR 0x0A] l startPos
      else if isLetter env c \<or> c = 95 then readIdentifier env l startPos
      else (newToken ILLEGAL (encodeRune c) (int startPos), readChar l))"

text \<open>
  The tokens that \<^verbatim>\<open>Tokenize\<close> appends in its first \<open>n\<close> rounds; the loop ends with the
  EOF token.
\<close>

fun tokensUpTo :: "nat \<Rightarrow> Env \<Rightarrow> Lexer \<Rightarrow> Token list" where
  "tokensUpTo 0 env l = []"
| "tokensUpTo (Suc n) env l =
     (let (tok, l1) = NextToken env l in
      if Type tok = EOF then [tok] else tok # tokensUpTo n env l1)"

subsection \<open>parser: state and token navigation\<close>

record ParseErr =
  errMessage :: string
  errPos :: int

record Parser =
  tokens :: "Token list"
  pos :: nat
  errors :: "ParseErr list"

definition NewFromTokens :: "Token list \<Rightarrow> Parser" where
  "NewFromTokens toks = \<lparr>tokens = toks, pos = 0, errors = []\<rparr>"

definition current :: "Parser \<Rightarrow> Token" where
  "current p = (if pos p \<ge> length (tokens p) then newToken EOF [] (- 1) else tokens p ! pos p)"

definition peek :: "Parser \<Rightarrow> Token" where
  "peek p =
     (if pos p + 1 \<ge> length (tokens p) then newToken EOF [] (- 1) else tokens p ! (pos p + 1))"

definition advance :: "Parser \<Rightarrow> Token \<times> Parser" where
  "advance p = (current p, if pos p < length (tokens p) then p\<lparr>pos := pos p + 1\<rparr> else p)"

definition check :: "Parser \<Rightarrow> TokenType \<Rightarrow> bool" where
  "check p t = (Type (current p) = t)"

definition checkAny :: "Parser \<Rightarrow> TokenType list \<Rightarrow> bool" where
  "checkAny p ts = (Type (current p) \<in> set ts)"

definition addError :: "Parser \<Rightarrow> string \<Rightarrow> Parser" where
  "addError p msg = p\<lparr>errors := errors p @ [\<lparr>errMessage = msg, errPos = Pos (current p)\<rparr>]\<rparr>"

text \<open>\<^verbatim>\<open>match\<close> and \<^verbatim>\<open>expect\<close> return whether the token matched, and the parser after.\<close>

definition match :: "Parser \<Rightarrow> TokenType \<Rightarrow> bool \<times> Parser" where
  "match p t = (if check p t then (True, snd (advance p)) else (False, p))"

definition expect :: "Parser \<Rightarrow> TokenType \<Rightarrow> string \<Rightarrow> bool \<times> Parser" where
  "expect p t msg = (if check p t then (True, snd (advance p)) else (False, addError p msg))"

definition isBinaryOp :: "Parser \<Rightarrow> bool" where
  "isBinaryOp p = checkAny p [PLUS, MINUS, STAR, SLASH, CARET, POWER]"

definition currentBinaryOp :: "Parser \<Rightarrow> BinaryOp" where
  "currentBinaryOp p =
     (case Type (current p) of
        PLUS \<Rightarrow> OpAdd | MINUS \<Rightarrow> OpSub | STAR \<Rightarrow> OpMul | SLASH \<Rightarrow> OpDiv
      | CARET \<Rightarrow> OpPow | POWER \<Rightarrow> OpPow | _ \<Rightarrow> OpAdd)"

definition parseBinaryOp :: "Parser \<Rightarrow> BinaryOp \<times> Parser" where
  "parseBinaryOp p = (currentBinaryOp p, snd (advance p))"

subsection \<open>parser: literals\<close>

text \<open>\<^verbatim>\<open>parseFloat\<close>: the thousands separators go, \<^verbatim>\<open>strconv.ParseFloat\<close> does the rest.\<close>

definition parseFloat :: "Env \<Rightarrow> string \<Rightarrow> real option" where
  "parseFloat env s = strconvParseFloat env (filter (\<lambda>ch. ch \<noteq> CHR '','') s)"

definition parseNumber :: "Env \<Rightarrow> Parser \<Rightarrow> Expr \<times> Parser" where
  "parseNumber env p =
     (let (tok, p1) = advance p in
      case parseFloat env (Literal tok) of
        None \<Rightarrow> (NumberLit 0 (Literal tok), addError p1 (''invalid number: '' @ Literal tok))
      | Some v \<Rightarrow>
          (if check p1 IDENTIFIER then
             (let suffix = Literal (current p1); raw = Literal tok @ '' '' @ suffix in
              case ParseCurrency env suffix of
                Some cur \<Rightarrow> (CurrencyLit v (Some cur) raw, snd (advance p1))
              | None \<Rightarrow>
                 (case ParseCrypto env suffix of
                    Some cr \<Rightarrow> (CryptoLit v (Some cr) raw, snd (advance p1))
                  | None \<Rightarrow>
                     (case ParseMetal env suffix of
                        Some m \<Rightarrow> (MetalLit v (Some m) raw, snd (advance p1))
                      | None \<Rightarrow>
                         (case ParseUnit env suffix of
                            Some u \<Rightarrow> (UnitLit v (Some u) raw, snd (advance p1))
                          | None \<Rightarrow> (NumberLit v (Literal tok), p1)))))
           else (NumberLit v (Literal tok), p1)))"

definition trimPercentSuffix :: "string \<Rightarrow> string" where
  "trimPercentSuffix s = (if s \<noteq> [] \<and> last s = CHR ''%'' then butlast s else s)"

definition parsePercent :: "Env \<Rightarrow> Parser \<Rightarrow> Expr \<times> Parser" where
  "parsePercent env p =
     (let (tok, p1) = advance p in
      case parseFloat env (trimPercentSuffix (Literal tok)) of
        None \<Rightarrow> (PercentLit 0 (Literal tok), addError p1 (''invalid percentage: '' @ Literal tok))
      | Some v \<Rightarrow> (PercentLit (v / 100) (Literal tok), p1))"

definition parseCurrencyWithSymbol :: "Env \<Rightarrow> Parser \<Rightarrow> Expr \<times> Parser" where
  "parseCurrencyWithSymbol env p =
     (let (symbolTok, p1) = advance p;
          symbol = Literal symbolTok;
          cur = LookupCurrencyBySymbol env symbol;
          crypto = (if cur = None then LookupCrypto env symbol else None)
      in if \<not> check p1 NUMBER then
           (let p2 = addError p1 ''expected number after currency symbol'' in
            if cur \<noteq> None then (CurrencyLit 0 cur symbol, p2)
            else if crypto \<noteq> None then (CryptoLit 0 crypto symbol, p2)
            else (NumberLit 0 symbol, p2))
         else
           (let (numTok, p2) = advance p1;
                (amount, p3) =
                  (case parseFloat env (Literal numTok) of
                     None \<Rightarrow> (0, addError p2 (''invalid number: '' @ Literal numTok))
                   | Some a \<Rightarrow> (a, p2));
                raw = symbol @ Literal numTok
            in if cur \<noteq> None then (CurrencyLit amount cur raw, p3)
               else if crypto \<noteq> None then (CryptoLit amount crypto raw, p3)
               else (NumberLit amount raw, p3)))"

text \<open>
  The tail of \<^verbatim>\<open>parseBinaryExpr\<close>, after its operator loop: a conversion suffix wraps
  what this call has parsed.
\<close>

definition conversionSuffix :: "Parser \<Rightarrow> Expr \<Rightarrow> Expr \<times> Parser" where
  "conversionSuffix p left =
     (if check p IN then
        (let p1 = snd (advance p) in
         if check p1 IDENTIFIER then
           (let (tok, p2) = advance p1 in (ConversionExpr left (Literal tok), p2))
         else (left, p1))
      else (left, p))"

subsection \<open>parser: expressions\<close>

text \<open>
  The recursive descent. The routines call each other without a structural measure, so
  the model bounds the depth of the calls: \<open>routines n\<close> are the routines that may nest
  calls \<open>n\<close> deep, and each routine at depth \<open>n + 1\<close> is its Go body with the calls it
  makes going to \<open>routines n\<close> (the argument \<open>r\<close> below). The outer \<open>None\<close> of a result
  means that the bound was reached, the inner one is Go's \<^verbatim>\<open>nil\<close> expression.
  \<open>binaryLoop\<close> is the \<^verbatim>\<open>for\<close> loop of \<^verbatim>\<open>parseBinaryExpr\<close>, \<open>argsLoop\<close> that of
  \<^verbatim>\<open>parseFunctionCall\<close>.
\<close>

type_synonym exprResult = "(Expr option \<times> Parser) option"

record Routines =
  rBinaryExpr :: "Parser \<Rightarrow> int \<Rightarrow> exprResult"
  rBinaryLoop :: "Parser \<Rightarrow> int \<Rightarrow> Expr \<Rightarrow> exprResult"
  rUnaryExpr :: "Parser \<Rightarrow> exprResult"
  rPostfixExpr :: "Parser \<Rightarrow> exprResult"
  rPrimaryExpr :: "Parser \<Rightarrow> exprResult"
  rIdentifierOrValue :: "Parser \<Rightarrow> exprResult"
  rFunctionCall :: "Parser \<Rightarrow> string \<Rightarrow> exprResult"
  rArgsLoop :: "Parser \<Rightarrow> Expr list \<Rightarrow> (Expr list \<times> Parser) option"
  rGroupExpr :: "Parser \<Rightarrow> exprResult"

definition parseBinaryExprBody :: "Routines \<Rightarrow> Parser \<Rightarrow> int \<Rightarrow> exprResult" where
  "parseBinaryExprBody r p minPrec =
     (case rUnaryExpr r p of
        None \<Rightarrow> None
      | Some (None, p1) \<Rightarrow> Some (None, p1)
      | Some (Some left, p1) \<Rightarrow> rBinaryLoop r p1 minPrec left)"

definition binaryLoopBody :: "Routines \<Rightarrow> Parser \<Rightarrow> int \<Rightarrow> Expr \<Rightarrow> exprResult" where
  "binaryLoopBody r p minPrec left =
     (if \<not> isBinaryOp p then
        (let (e, p') = conversionSuffix p left in Some (Some e, p'))
      else
        let op = currentBinaryOp p; prec = Precedence op in
        if prec < minPrec then
          (let (e, p') = conversionSuffix p left in Some (Some e, p'))
        else
          let p1 = snd (advance p);
              rightPrec = (if op = OpPow then prec else prec + 1)
          in case rBinaryExpr r p1 rightPrec of
               None \<Rightarrow> None
             | Some (None, p2) \<Rightarrow>
                 Some (Some left, addError p2 ''expected expression after operator'')
             | Some (Some right, p2) \<Rightarrow>
                 rBinaryLoop r p2 minPrec (BinaryExpr left op right))"

definition parseUnaryExprBody :: "Routines \<Rightarrow> Parser \<Rightarrow> exprResult" where
  "parseUnaryExprBody r p =
     (if checkAny p [MINUS, PLUS] then
        (let (tok, p1) = advance p in
         case rUnaryExpr r p1 of
           None \<Rightarrow> None
         | Some (None, p2) \<Rightarrow> Some (None, p2)
         | Some (Some e, p2) \<Rightarrow>
             Some (Some (UnaryExpr (if Type tok = MINUS then OpNeg else OpPos) e), p2))
      else rPostfixExpr r p)"

definition isPercentLit :: "Expr \<Rightarrow> bool" where
  "isPercentLit e = (case e of PercentLit v raw \<Rightarrow> True | _ \<Rightarrow> False)"

definition parsePostfixExprBody :: "Routines \<Rightarrow> Parser \<Rightarrow> exprResult" where
  "parsePostfixExprBody r p =
     (case rPrimaryExpr r p of
        None \<Rightarrow> None
      | Some (None, p1) \<Rightarrow> Some (None, p1)
      | Some (Some e, p1) \<Rightarrow>
          (if check p1 OF \<and> isPercentLit e then
             (let p2 = snd (advance p1) in
              case rUnaryExpr r p2 of
                None \<Rightarrow> None
              | Some (None, p3) \<Rightarrow> Some (Some e, addError p3 ''expected expression after 'of' '')
              | Some (Some v, p3) \<Rightarrow> Some (Some (PercentOfExpr e v), p3))
           else Some (Some e, p1)))"

definition parsePrimaryExprBody :: "Routines \<Rightarrow> Env \<Rightarrow> Parser \<Rightarrow> exprResult" where
  "parsePrimaryExprBody r env p =
     (let t = Type (current p) in
      if t = NUMBER then (let (e, p1) = parseNumber env p in Some (Some e, p1))
      else if t = PERCENT then (let (e, p1) = parsePercent env p in Some (Some e, p1))
      else if t \<in> {DOLLAR, EURO, POUND, YEN, BITCOIN, CURRENCY} then
        (let (e, p1) = parseCurrencyWithSymbol env p in Some (Some e, p1))
      else if t = IDENTIFIER then rIdentifierOrValue r p
      else if t = LPAREN then rGroupExpr r p
      else if t \<in> {EOF, NEWLINE, COMMENT} then Some (None, p)
      else if t \<noteq> RPAREN \<and> t \<noteq> COMMA then
        Some (None, addError p (''unexpected token: '' @ Literal (current p)))
      else Some (None, p))"

definition parseIdentifierOrValueBody :: "Routines \<Rightarrow> Parser \<Rightarrow> exprResult" where
  "parseIdentifierOrValueBody r p =
     (let (tok, p1) = advance p; name = Literal tok in
      if check p1 LPAREN then rFunctionCall r p1 name
      else let lower = ToLower name in
        if lower = ''_'' \<or> lower = ''ans'' then Some (Some (Identifier ''_''), p1)
        else Some (Some (Identifier name), p1))"

definition parseFunctionCallBody :: "Routines \<Rightarrow> Parser \<Rightarrow> string \<Rightarrow> exprResult" where
  "parseFunctionCallBody r p name =
     (let p1 = snd (advance p) in
      if \<not> check p1 RPAREN then
        (case rArgsLoop r p1 [] of
           None \<Rightarrow> None
         | Some (args, p2) \<Rightarrow>
             Some (Some (CallExpr name args),
               snd (expect p2 RPAREN ''expected ')' after function arguments'')))
      else Some (Some (CallExpr name []),
             snd (expect p1 RPAREN ''expected ')' after function arguments'')))"

definition argsLoopBody :: "Routines \<Rightarrow> Parser \<Rightarrow> Expr list \<Rightarrow> (Expr list \<times> Parser) option" where
  "argsLoopBody r p args =
     (case rBinaryExpr r p 0 of
        None \<Rightarrow> None
      | Some (arg, p1) \<Rightarrow>
          (let args' = (case arg of None \<Rightarrow> args | Some a \<Rightarrow> args @ [a]);
               (matched, p2) = match p1 COMMA
           in if matched then rArgsLoop r p2 args' else Some (args', p2)))"

definition parseGroupExprBody :: "Routines \<Rightarrow> Parser \<Rightarrow> exprResult" where
  "parseGroupExprBody r p =
     (let p1 = snd (advance p) in
      case rBinaryExpr r p1 0 of
        None \<Rightarrow> None
      | Some (e, p2) \<Rightarrow>
          (let (expr, p3) =
             (case e of
                None \<Rightarrow> (NumberLit 0 [], addError p2 ''expected expression inside parentheses'')
              | Some x \<Rightarrow> (x, p2))
           in Some (Some (GroupExpr expr), snd (expect p3 RPAREN ''expected ')' after expression''))))"

primrec routines :: "nat \<Rightarrow> Env \<Rightarrow> Routines" where
  "routines 0 env =
     \<lparr>rBinaryExpr = (\<lambda>p minPrec. None), rBinaryLoop = (\<lambda>p minPrec left. None),
      rUnaryExpr = (\<lambda>p. None), rPostfixExpr = (\<lambda>p. None), rPrimaryExpr = (\<lambda>p. None),
      rIdentifierOrValue = (\<lambda>p. None), rFunctionCall = (\<lambda>p name. None),
      rArgsLoop = (\<lambda>p args. None), rGroupExpr = (\<lambda>p. None)\<rparr>"
| "routines (Suc n) env =
     \<lparr>rBinaryExpr = parseBinaryExprBody (routines n env),
      rBinaryLoop = binaryLoopBody (routines n env),
      rUnaryExpr = parseUnaryExprBody (routines n env),
      rPostfixExpr = parsePostfixExprBody (routines n env),
      rPrimaryExpr = parsePrimaryExprBody (routines n env) env,
      rIdentifierOrValue = parseIdentifierOrValueBody (routines n env),
      rFunctionCall = parseFunctionCallBody (routines n env),
      rArgsLoop = argsLoopBody (routines n env),
      rGroupExpr = parseGroupExprBody (routines n env)\<rparr>"

definition parseBinaryExpr :: "nat \<Rightarrow> Env \<Rightarrow> Parser \<Rightarrow> int \<Rightarrow> exprResult" where
  "parseBinaryExpr n env = rBinaryExpr (routines n env)"

definition binaryLoop :: "nat \<Rightarrow> Env \<Rightarrow> Parser \<Rightarrow> int \<Rightarrow> Expr \<Rightarrow> exprResult" where
  "binaryLoop n env = rBinaryLoop (routines n env)"

definition parseUnaryExpr :: "nat \<Rightarrow> Env \<Rightarrow> Parser \<Rightarrow> exprResult" where
  "parseUnaryExpr n env = rUnaryExpr (routines n env)"

definition parsePostfixExpr :: "nat \<Rightarrow> Env \<Rightarrow> Parser \<Rightarrow> exprResult" where
  "parsePostfixExpr n env = rPostfixExpr (routines n env)"

definition parsePrimaryExpr :: "nat \<Rightarrow> Env \<Rightarrow> Parser \<Rightarrow> exprResult" where
  "parsePrimaryExpr n env = rPrimaryExpr (routines n env)"

definition parseIdentifierOrValue :: "nat \<Rightarrow> Env \<Rightarrow> Parser \<Rightarrow> exprResult" where
  "parseIdentifierOrValue n env = rIdentifierOrValue (routines n env)"

definition parseFunctionCall :: "nat \<Rightarrow> Env \<Rightarrow> Parser \<Rightarrow> string \<Rightarrow> exprResult" where
  "parseFunctionCall n env = rFunctionCall (routines n env)"

definition argsLoop :: "nat \<Rightarrow> Env \<Rightarrow> Parser \<Rightarrow> Expr list \<Rightarrow> (Expr list \<times> Parser) option" where
  "argsLoop n env = rArgsLoop (routines n env)"

definition parseGroupExpr :: "nat \<Rightarrow> Env \<Rightarrow> Parser \<Rightarrow> exprResult" where
  "parseGroupExpr n env = rGroupExpr (routines n env)"

lemmas routine_defs =
  parseBinaryExpr_def binaryLoop_def parseUnaryExpr_def parsePostfixExpr_def
  parsePrimaryExpr_def parseIdentifierOrValue_def parseFunctionCall_def argsLoop_def
  parseGroupExpr_def

text \<open>The routines as they call each other, one level of depth per call.\<close>

lemma parse_depth_0:
  "parseBinaryExpr 0 env p minPrec = None"
  "binaryLoop 0 env p minPrec left = None"
  "parseUnaryExpr 0 env p = None"
  "parsePostfixExpr 0 env p = None"
  "parsePrimaryExpr 0 env p = None"
  "parseIdentifierOrValue 0 env p = None"
  "parseFunctionCall 0 env p name = None"
  "argsLoop 0 env p args = None"
  "parseGroupExpr 0 env p = None"
  by (simp_all add: routine_defs)

lemma parseBinaryExpr_Suc:
  "parseBinaryExpr (Suc n) env p minPrec =
     (case parseUnaryExpr n env p of
        None \<Rightarrow> None
      | Some (None, p1) \<Rightarrow> Some (None, p1)
      | Some (Some left, p1) \<Rightarrow> binaryLoop n env p1 minPrec left)"
  unfolding routine_defs by (simp add: parseBinaryExprBody_def)

lemma binaryLoop_Suc:
  "binaryLoop (Suc n) env p minPrec left =
     (if \<not> isBinaryOp p then
        (let (e, p') = conversionSuffix p left in Some (Some e, p'))
      else
        let op = currentBinaryOp p; prec = Precedence op in
        if prec < minPrec then
          (let (e, p') = conversionSuffix p left in Some (Some e, p'))
        else
          let p1 = snd (advance p);
              rightPrec = (if op = OpPow then prec else prec + 1)
          in case parseBinaryExpr n env p1 rightPrec of
               None \<Rightarrow> None
             | Some (None, p2) \<Rightarrow>
                 Some (Some left, addError p2 ''expected expression after operator'')
             | Some (Some right, p2) \<Rightarrow>
                 binaryLoop n env p2 minPrec (BinaryExpr left op right))"
  unfolding routine_defs by (simp add: binaryLoopBody_def)

lemma parseUnaryExpr_Suc:
  "parseUnaryExpr (Suc n) env p =
     (if checkAny p [MINUS, PLUS] then
        (let (tok, p1) = advance p in
         case parseUnaryExpr n env p1 of
           None \<Rightarrow> None
         | Some (None, p2) \<Rightarrow> Some (None, p2)
         | Some (Some e, p2) \<Rightarrow>
             Some (Some (UnaryExpr (if Type tok = MINUS then OpNeg else OpPos) e), p2))
      else parsePostfixExpr n env p)"
  unfolding routine_defs by (simp add: parseUnaryExprBody_def)

lemma parsePostfixExpr_Suc:
  "parsePostfixExpr (Suc n) env p =
     (case parsePrimaryExpr n env p of
        None \<Rightarrow> None
      | Some (None, p1) \<Rightarrow> Some (None, p1)
      | Some (Some e, p1) \<Rightarrow>
          (if check p1 OF \<and> isPercentLit e then
             (let p2 = snd (advance p1) in
              case parseUnaryExpr n env p2 of
                None \<Rightarrow> None
              | Some (None, p3) \<Rightarrow> Some (Some e, addError p3 ''expected expression after 'of' '')
              | Some (Some v, p3) \<Rightarrow> Some (Some (PercentOfExpr e v), p3))
           else Some (Some e, p1)))"
  unfolding routine_defs by (simp add: parsePostfixExprBody_def)

lemma parsePrimaryExpr_Suc:
  "parsePrimaryExpr (Suc n) env p =
     (let t = Type (current p) in
      if t = NUMBER then (let (e, p1) = parseNumber env p in Some (Some e, p1))
      else if t = PERCENT then (let (e, p1) = parsePercent env p in Some (Some e, p1))
      else if t \<in> {DOLLAR, EURO, POUND, YEN, BITCOIN, CURRENCY} then
        (let (e, p1) = parseCurrencyWithSymbol env p in Some (Some e, p1))
      else if t = IDENTIFIER then parseIdentifierOrValue n env p
      else if t = LPAREN then parseGroupExpr n env p
      else if t \<in> {EOF, NEWLINE, COMMENT} then Some (None, p)
      else if t \<noteq> RPAREN \<and> t \<noteq> COMMA then
        Some (None, addError p (''unexpected token: '' @ Literal (current p)))
      else Some (None, p))"
  unfolding routine_defs by (simp add: parsePrimaryExprBody_def)

lemma parseIdentifierOrValue_Suc:
  "parseIdentifierOrValue (Suc n) env p =
     (let (tok, p1) = advance p; name = Literal tok in
      if check p1 LPAREN then parseFunctionCall n env p1 name
      else let lower = ToLower name in
        if lower = ''_'' \<or> lower = ''ans'' then Some (Some (Identifier ''_''), p1)
        else Some (Some (Identifier name), p1))"
  unfolding routine_defs by (simp add: parseIdentifierOrValueBody_def)

lemma parseFunctionCall_Suc:
  "parseFunctionCall (Suc n) env p name =
     (let p1 = snd (advance p) in
      if \<not> check p1 RPAREN then
        (case argsLoop n env p1 [] of
           None \<Rightarrow> None
         | Some (args, p2) \<Rightarrow>
             Some (Some (CallExpr name args),
               snd (expect p2 RPAREN ''expected ')' after function arguments'')))
      else Some (Some (CallExpr name []),
             snd (expect p1 RPAREN ''expected ')' after function arguments'')))"
  unfolding routine_defs by (simp add: parseFunctionCallBody_def)

lemma argsLoop_Suc:
  "argsLoop (Suc n) env p args =
     (case parseBinaryExpr n env p 0 of
        None \<Rightarrow> None
      | Some (arg, p1) \<Rightarrow>
          (let args' = (case arg of None \<Rightarrow> args | Some a \<Rightarrow> args @ [a]);
               (matched, p2) = match p1 COMMA
           in if matched then argsLoop n env p2 args' else Some (args', p2)))"
  unfolding routine_defs by (simp add: argsLoopBody_def)

lemma parseGroupExpr_Suc:
  "parseGroupExpr (Suc n) env p =
     (let p1 = snd (advance p) in
      case parseBinaryExpr n env p1 0 of
        None \<Rightarrow> None
      | Some (e, p2) \<Rightarrow>
          (let (expr, p3) =
             (case e of
                None \<Rightarrow> (NumberLit 0 [], addError p2 ''expected expression inside parentheses'')
              | Some x \<Rightarrow> (x, p2))
           in Some (Some (GroupExpr expr), snd (expect p3 RPAREN ''expected ')' after expression''))))"
  unfolding routine_defs by (simp add: parseGroupExprBody_def)

lemmas parse_depth_Suc =
  parseBinaryExpr_Suc binaryLoop_Suc parseUnaryExpr_Suc parsePostfixExpr_Suc
  parsePrimaryExpr_Suc parseIdentifierOrValue_Suc parseFunctionCall_Suc argsLoop_Suc
  parseGroupExpr_Suc

definition parseExpression :: "nat \<Rightarrow> Env \<Rightarrow> Parser \<Rightarrow> (Expr option \<times> Parser) option" where
  "parseExpression n env p = parseBinaryExpr n env p 0"

subsection \<open>parser: statements and lines\<close>

definition parseAssignment :: "nat \<Rightarrow> Env \<Rightarrow> Parser \<Rightarrow> (Stmt \<times> Parser) option" where
  "parseAssignment n env p =
     (let (nameTok, p1) = advance p; p2 = snd (advance p1) in
      case parseExpression n env p2 of
        None \<Rightarrow> None
      | Some (None, p3) \<Rightarrow>
          Some (AssignStmt (Literal nameTok) (NumberLit 0 []),
            addError p3 ''expected expression after '=' '')
      | Some (Some e, p3) \<Rightarrow> Some (AssignStmt (Literal nameTok) e, p3))"

definition parseContinuation :: "nat \<Rightarrow> Env \<Rightarrow> Parser \<Rightarrow> (Stmt \<times> Parser) option" where
  "parseContinuation n env p =
     (let (op, p1) = parseBinaryOp p in
      case parseExpression n env p1 of
        None \<Rightarrow> None
      | Some (None, p2) \<Rightarrow> Some (EmptyStmt, addError p2 ''expected expression after operator'')
      | Some (Some e, p2) \<Rightarrow> Some (ExprStmt (ContinuationExpr op e), p2))"

definition parseConversionContinuation :: "Parser \<Rightarrow> Stmt \<times> Parser" where
  "parseConversionContinuation p =
     (let p1 = snd (advance p) in
      if \<not> check p1 IDENTIFIER then
        (EmptyStmt, addError p1 ''expected unit or currency after 'in'/'to' '')
      else let (tok, p2) = advance p1 in (ExprStmt (ConversionContinuation (Literal tok)), p2))"

definition parseStatement :: "nat \<Rightarrow> Env \<Rightarrow> Parser \<Rightarrow> (Stmt \<times> Parser) option" where
  "parseStatement n env p =
     (if check p IDENTIFIER \<and> Type (peek p) = EQUALS then parseAssignment n env p
      else if checkAny p [PLUS, MINUS, STAR, SLASH, CARET, POWER] then parseContinuation n env p
      else if check p IN then Some (parseConversionContinuation p)
      else case parseExpression n env p of
             None \<Rightarrow> None
           | Some (None, p1) \<Rightarrow> Some (EmptyStmt, p1)
           | Some (Some e, p1) \<Rightarrow> Some (ExprStmt e, p1))"

text \<open>\<^verbatim>\<open>for p.match(token.NEWLINE) {}\<close>\<close>

function skipNewlines :: "Parser \<Rightarrow> Parser" where
  "skipNewlines p = (if check p NEWLINE then skipNewlines (snd (advance p)) else p)"
  by pat_completeness auto
termination
proof (relation "measure (\<lambda>p. length (tokens p) - pos p)", goal_cases)
  case 1
  then show ?case by simp
next
  case (2 p)
  then have "pos p < length (tokens p)"
    by (auto simp: check_def current_def newToken_def split: if_splits)
  then show ?case by (simp add: advance_def)
qed

declare skipNewlines.simps [simp del]

definition Parser_ParseLine :: "nat \<Rightarrow> Env \<Rightarrow> Parser \<Rightarrow> (Line \<times> Parser) option" where
  "Parser_ParseLine n env p0 =
     (let p = skipNewlines p0 in
      if check p EOF then Some (\<lparr>Stmt = Some EmptyStmt, Comment = [], Raw = []\<rparr>, p)
      else if check p COMMENT then
        (let (comment, p1) = advance p in
         Some (\<lparr>Stmt = Some (CommentStmt (Literal comment)), Comment = Literal comment,
                 Raw = []\<rparr>, p1))
      else case parseStatement n env p of
             None \<Rightarrow> None
           | Some (stmt, p1) \<Rightarrow>
               (if check p1 COMMENT then
                  (let (comment, p2) = advance p1 in
                   Some (\<lparr>Stmt = Some stmt, Comment = Literal comment, Raw = []\<rparr>, p2))
                else Some (\<lparr>Stmt = Some stmt, Comment = [], Raw = []\<rparr>, p1)))"

subsection \<open>From the input string to the parsed line\<close>

text \<open>
  \<^verbatim>\<open>Tokenize\<close>, with a bound on the number of rounds of its loop: \<open>None\<close> when the EOF
  token has not come within the bound.
\<close>

definition Tokenize :: "nat \<Rightarrow> Env \<Rightarrow> string \<Rightarrow> Token list option" where
  "Tokenize n env s =
     (let ts = tokensUpTo n env (NewLexer s) in
      if ts \<noteq> [] \<and> Type (last ts) = EOF then Some ts else None)"

text \<open>
  The package-level \<^verbatim>\<open>ParseLine\<close>: a new parser over the tokens of the input, one line
  parsed, the line and the errors returned. The bound \<open>n\<close> limits both the number of
  tokens and the depth of the descent; \<open>None\<close> when it is reached.
\<close>

definition ParseLine :: "nat \<Rightarrow> Env \<Rightarrow> string \<Rightarrow> (Line \<times> ParseErr list) option" where
  "ParseLine n env s =
     (case Tokenize n env s of
        None \<Rightarrow> None
      | Some toks \<Rightarrow>
          (case Parser_ParseLine n env (NewFromTokens toks) of
             None \<Rightarrow> None
           | Some (parsed, p) \<Rightarrow> Some (parsed, errors p)))"

subsection \<open>Contexts as shared objects\<close>

text \<open>
  A \<^verbatim>\<open>*Context\<close> is a pointer, its variables are a Go map and its lines a slice over a
  backing array: all three are objects that several owners may share. The store keeps
  them by reference, so that what \<^verbatim>\<open>Clone\<close> copies and what it shares is explicit. A
  slice is \<^verbatim>\<open>nil\<close> or a reference to its array with its length; its capacity is the length
  of the array. References are handed out in increasing order from \<open>nextRef\<close>.
\<close>

datatype Slice = NilSlice | Slice nat nat

record CtxObj =
  variablesRef :: nat
  rateCacheRef :: "nat option"
  previousVal :: Value
  linesSlice :: Slice
  precisionVal :: int
  strictVal :: bool

record Store =
  mapObjs :: "nat \<Rightarrow> (string \<rightharpoonup> Value)"
  arrObjs :: "nat \<Rightarrow> LineResult list"
  ctxObjs :: "nat \<Rightarrow> CtxObj"
  cacheObjs :: "nat \<Rightarrow> rateTable"
  nextRef :: nat

definition sliceElems :: "Store \<Rightarrow> Slice \<Rightarrow> LineResult list" where
  "sliceElems st s = (case s of NilSlice \<Rightarrow> [] | Slice r n \<Rightarrow> take n (arrObjs st r))"

text \<open>The session state that the context at \<open>a\<close> holds in the store.\<close>

definition load :: "Store \<Rightarrow> nat \<Rightarrow> Context" where
  "load st a =
     (let obj = ctxObjs st a in
      \<lparr>variables = mapObjs st (variablesRef obj),
       rateCache = map_option (cacheObjs st) (rateCacheRef obj),
       previous = previousVal obj,
       lines = sliceElems st (linesSlice obj),
       precision = precisionVal obj,
       strict = strictVal obj\<rparr>)"

text \<open>\<^verbatim>\<open>c.variables[name] = value\<close> writes into the map object.\<close>

definition St_SetVariable :: "Store \<Rightarrow> nat \<Rightarrow> string \<Rightarrow> Value \<Rightarrow> Store" where
  "St_SetVariable st a name v =
     (let lower = ToLower name in
      if lower = ''_'' \<or> lower = ''ans'' \<or> lower = ''total'' then st
      else
        let m = variablesRef (ctxObjs st a) in
        st\<lparr>mapObjs := (mapObjs st)(m := (mapObjs st m)(name \<mapsto> v))\<rparr>)"

definition St_SetPrevious :: "Store \<Rightarrow> nat \<Rightarrow> Value \<Rightarrow> Store" where
  "St_SetPrevious st a v =
     (if \<not> IsEmpty v \<and> \<not> IsError v
        then st\<lparr>ctxObjs := (ctxObjs st)(a := (ctxObjs st a)\<lparr>previousVal := v\<rparr>)\<rparr>
      else st)"

definition zeroLineResult :: LineResult where
  "zeroLineResult = \<lparr>Input = [], LValue = zeroValue, IsConsumed = False,
     IsContinuation = False, AssignedVar = []\<rparr>"

text \<open>
  \<^verbatim>\<open>append(s, x)\<close>: within the capacity the element is written into the array in place;
  otherwise a new array takes the elements and the new one.
\<close>

definition St_append :: "Env \<Rightarrow> Store \<Rightarrow> Slice \<Rightarrow> LineResult \<Rightarrow> Store \<times> Slice" where
  "St_append env st s x =
     (let n = (case s of NilSlice \<Rightarrow> 0 | Slice r k \<Rightarrow> k);
          fits = (case s of NilSlice \<Rightarrow> False | Slice r k \<Rightarrow> k < length (arrObjs st r))
      in if fits then
           (case s of
              Slice r k \<Rightarrow> (st\<lparr>arrObjs := (arrObjs st)(r := (arrObjs st r)[k := x])\<rparr>, Slice r (k + 1))
            | NilSlice \<Rightarrow> (st, s))
         else
           let r' = nextRef st;
               cap = max (n + 1) (appendCap env n);
               arr = sliceElems st s @ x # replicate (cap - (n + 1)) zeroLineResult
           in (st\<lparr>arrObjs := (arrObjs st)(r' := arr), nextRef := r' + 1\<rparr>, Slice r' (n + 1)))"

definition St_AddLineResult :: "Env \<Rightarrow> Store \<Rightarrow> nat \<Rightarrow> LineResult \<Rightarrow> Store" where
  "St_AddLineResult env st a lr =
     (let (st1, s) = St_append env st (linesSlice (ctxObjs st a)) lr
      in st1\<lparr>ctxObjs := (ctxObjs st1)(a := (ctxObjs st1 a)\<lparr>linesSlice := s\<rparr>)\<rparr>)"

text \<open>\<^verbatim>\<open>c.lines[i].IsConsumed = true\<close> writes into the backing array.\<close>

definition St_MarkLastConsumed :: "Store \<Rightarrow> nat \<Rightarrow> Store" where
  "St_MarkLastConsumed st a =
     (case linesSlice (ctxObjs st a) of
        NilSlice \<Rightarrow> st
      | Slice r n \<Rightarrow>
          st\<lparr>arrObjs := (arrObjs st)
                (r := rev (markLoop (rev (take n (arrObjs st r)))) @ drop n (arrObjs st r))\<rparr>)"

text \<open>
  \<^verbatim>\<open>Clone\<close>: a new map with the entries copied, a new array of exactly the length of the
  lines with the elements copied, and a new context that refers to both and shares the
  rate cache.
\<close>

definition St_Clone :: "Store \<Rightarrow> nat \<Rightarrow> Store \<times> nat" where
  "St_Clone st a =
     (let obj = ctxObjs st a;
          m = nextRef st; r = nextRef st + 1; a' = nextRef st + 2;
          elems = sliceElems st (linesSlice obj)
      in (st\<lparr>mapObjs := (mapObjs st)(m := mapObjs st (variablesRef obj)),
              arrObjs := (arrObjs st)(r := elems),
              ctxObjs := (ctxObjs st)
                (a' := obj\<lparr>variablesRef := m, linesSlice := Slice r (length elems)\<rparr>),
              nextRef := nextRef st + 3\<rparr>, a'))"

definition St_SetRateCache :: "Store \<Rightarrow> nat \<Rightarrow> nat \<Rightarrow> Store" where
  "St_SetRateCache st a rc =
     st\<lparr>ctxObjs := (ctxObjs st)(a := (ctxObjs st a)\<lparr>rateCacheRef := Some rc\<rparr>)\<rparr>"

text \<open>
  The evaluator on the context at \<open>a\<close>. Evaluating an expression only reads the context,
  so it runs on the state loaded from the store; the writes of \<^verbatim>\<open>evalAssign\<close> and
  \<^verbatim>\<open>EvalLine\<close> go to the store.
\<close>

fun St_evalStmt :: "Env \<Rightarrow> Store \<Rightarrow> nat \<Rightarrow> Stmt \<Rightarrow> Value \<times> Store" where
  "St_evalStmt env st a EmptyStmt = (Empty, st)"
| "St_evalStmt env st a (CommentStmt t) = (Empty, st)"
| "St_evalStmt env st a (ExprStmt e) = (evalExpr env (load st a) e, st)"
| "St_evalStmt env st a (AssignStmt name e) =
     (let v = evalExpr env (load st a) e in
      if \<not> IsError v then (v, St_SetVariable st a name v) else (v, st))"

definition St_EvalLine :: "Env \<Rightarrow> Store \<Rightarrow> nat \<Rightarrow> Line \<Rightarrow> Value \<times> Store" where
  "St_EvalLine env st a pline =
     (case Stmt pline of
        None \<Rightarrow> (Empty, st)
      | Some stmt \<Rightarrow>
          (let (result, st1) = St_evalStmt env st a stmt;
               cont = isContinuationStmt stmt;
               st2 = (if cont then St_MarkLastConsumed st1 a else st1);
               lr = \<lparr>Input = Raw pline, LValue = result, IsConsumed = False,
                     IsContinuation = cont, AssignedVar = assignedName stmt\<rparr>;
               st3 = St_AddLineResult env st2 a lr;
               st4 = St_SetPrevious st3 a result
           in (result, st4)))"

subsection \<open>engine\<close>

record Engine =
  evaluatorCtx :: nat
  engineRateCache :: nat

definition isSpaceChar :: "char \<Rightarrow> bool" where
  "isSpaceChar c = (c \<in> {CHR '' '', CHR 0x09, CHR 0x0A, CHR 0x0B, CHR 0x0C, CHR 0x0D})"

definition TrimSpace :: "string \<Rightarrow> string" where
  "TrimSpace s = rev (dropWhile isSpaceChar (rev (dropWhile isSpaceChar s)))"

definition HasPrefix :: "string \<Rightarrow> string \<Rightarrow> bool" where
  "HasPrefix s pre = (take (length pre) s = pre)"

text \<open>
  \<^verbatim>\<open>Engine.New\<close> on a store: a rate cache with the given table, a context with an empty
  variables map and no lines that refers to it, and the engine over both.
\<close>

definition Engine_New :: "Store \<Rightarrow> rateTable \<Rightarrow> Store \<times> Engine" where
  "Engine_New st rc =
     (let c = nextRef st; m = nextRef st + 1; a = nextRef st + 2 in
      (st\<lparr>cacheObjs := (cacheObjs st)(c := rc),
           mapObjs := (mapObjs st)(m := Map.empty),
           ctxObjs := (ctxObjs st)
             (a := \<lparr>variablesRef = m, rateCacheRef = Some c, previousVal = Empty,
                    linesSlice = NilSlice, precisionVal = 2, strictVal = False\<rparr>),
           nextRef := nextRef st + 3\<rparr>,
       \<lparr>evaluatorCtx = a, engineRateCache = c\<rparr>))"

text \<open>
  \<^verbatim>\<open>Eval\<close> and \<^verbatim>\<open>EvalPreview\<close>: the value (\<open>None\<close> when the parser's bound \<open>n\<close> was
  reached) and the store after the call.
\<close>

definition Engine_Eval :: "nat \<Rightarrow> Env \<Rightarrow> Store \<Rightarrow> Engine \<Rightarrow> string \<Rightarrow> Value option \<times> Store" where
  "Engine_Eval n env st e src =
     (let trimmed = TrimSpace src in
      if trimmed = [] then (Some Empty, st)
      else if HasPrefix trimmed ''#'' \<or> HasPrefix trimmed ''//'' then (Some Empty, st)
      else case ParseLine n env src of
             None \<Rightarrow> (None, st)
           | Some (parsed, errs) \<Rightarrow>
               (case errs of
                  err # _ \<Rightarrow> (Some (Error (errMessage err)), st)
                | [] \<Rightarrow>
                    (let (v, st1) = St_EvalLine env st (evaluatorCtx e) (parsed\<lparr>Raw := src\<rparr>)
                     in (Some v, st1))))"

definition Engine_EvalPreview :: "nat \<Rightarrow> Env \<Rightarrow> Store \<Rightarrow> Engine \<Rightarrow> string \<Rightarrow> Value option \<times> Store" where
  "Engine_EvalPreview n env st e src =
     (let (st1, c) = St_Clone st (evaluatorCtx e);
          st2 = St_SetRateCache st1 c (engineRateCache e);
          trimmed = TrimSpace src
      in if trimmed = [] then (Some Empty, st2)
         else case ParseLine n env src of
                None \<Rightarrow> (None, st2)
              | Some (parsed, errs) \<Rightarrow>
                  (case errs of
                     err # _ \<Rightarrow> (Some (Error (errMessage err)), st2)
                   | [] \<Rightarrow>
                       (let (v, st3) = St_EvalLine env st2 c (parsed\<lparr>Raw := src\<rparr>)
                        in (Some v, st3))))"

text \<open>
  What the two calls compute from the session state alone: \<open>Session_Eval\<close> gives the
  value and the state after, \<open>Session_EvalPreview\<close> the value.
\<close>

definition Session_Eval :: "nat \<Rightarrow> Env \<Rightarrow> Context \<Rightarrow> string \<Rightarrow> Value option \<times> Context" where
  "Session_Eval n env c src =
     (let trimmed = TrimSpace src in
      if trimmed = [] then (Some Empty, c)
      else if HasPrefix trimmed ''#'' \<or> HasPrefix trimmed ''//'' then (Some Empty, c)
      else case ParseLine n env src of
             None \<Rightarrow> (None, c)
           | Some (parsed, errs) \<Rightarrow>
               (case errs of
                  err # _ \<Rightarrow> (Some (Error (errMessage err)), c)
                | [] \<Rightarrow>
                    (let (v, c1) = EvalLine env c (parsed\<lparr>Raw := src\<rparr>) in (Some v, c1))))"

definition Session_EvalPreview :: "nat \<Rightarrow> Env \<Rightarrow> Context \<Rightarrow> string \<Rightarrow> Value option" where
  "Session_EvalPreview n env c src =
     (let trimmed = TrimSpace src in
      if trimmed = [] then Some Empty
      else case ParseLine n env src of
             None \<Rightarrow> None
           | Some (parsed, errs) \<Rightarrow>
               (case errs of
                  err # _ \<Rightarrow> Some (Error (errMessage err))
                | [] \<Rightarrow> Some (fst (EvalLine env c (parsed\<lparr>Raw := src\<rparr>)))))"

text \<open>
  A well-formed engine: its context and the map and the array of that context are
  allocated, and the length of the lines is within the array.
\<close>

definition sliceOK :: "Store \<Rightarrow> nat \<Rightarrow> bool" where
  "sliceOK st a =
     (case linesSlice (ctxObjs st a) of
        NilSlice \<Rightarrow> True
      | Slice r k \<Rightarrow> k \<le> length (arrObjs st r))"

definition sliceRefs :: "Slice \<Rightarrow> nat set" where
  "sliceRefs s = (case s of NilSlice \<Rightarrow> {} | Slice r k \<Rightarrow> {r})"

definition wfEngine :: "Store \<Rightarrow> Engine \<Rightarrow> bool" where
  "wfEngine st e =
     (let a = evaluatorCtx e; obj = ctxObjs st a in
      a < nextRef st \<and> variablesRef obj < nextRef st \<and> sliceOK st a
      \<and> (\<forall>r \<in> sliceRefs (linesSlice obj). r < nextRef st))"

text \<open>
  \<open>frame C M A st st'\<close>: from \<open>st\<close> to \<open>st'\<close> no context outside \<open>C\<close>, no map outside \<open>M\<close>,
  no array outside \<open>A\<close> and no rate cache has changed.
\<close>

definition frame :: "nat set \<Rightarrow> nat set \<Rightarrow> nat set \<Rightarrow> Store \<Rightarrow> Store \<Rightarrow> bool" where
  "frame C M A st st' =
     ((\<forall>x. x \<notin> C \<longrightarrow> ctxObjs st' x = ctxObjs st x)
      \<and> (\<forall>x. x \<notin> M \<longrightarrow> mapObjs st' x = mapObjs st x)
      \<and> (\<forall>x. x \<notin> A \<longrightarrow> arrObjs st' x = arrObjs st x)
      \<and> cacheObjs st' = cacheObjs st
      \<and> nextRef st \<le> nextRef st')"

text \<open>A store with nothing allocated.\<close>

definition emptyStore :: Store where
  "emptyStore =
     \<lparr>mapObjs = (\<lambda>r. Map.empty), arrObjs = (\<lambda>r. []),
      ctxObjs = (\<lambda>r. \<lparr>variablesRef = 0, rateCacheRef = None, previousVal = Empty,
                       linesSlice = NilSlice, precisionVal = 0, strictVal = False\<rparr>),
      cacheObjs = (\<lambda>r. []), nextRef = 0\<rparr>"

subsection \<open>Facts about the aggregation functions and the coercion\<close>

lemma sumLoop_total:
  "\<forall>a \<in> set args. \<not> IsError a \<Longrightarrow> sumLoop args t = Inr (t + sum_list (map Num args))"
  by (induction args arbitrary: t) (simp_all add: AsFloat_def add.assoc)

lemma fnSum_first:
  assumes "args \<noteq> []" "\<forall>a \<in> set args. \<not> IsError a"
  shows "fnSum args = WithAmount (hd args) (sum_list (map Num args))"
proof -
  obtain a rest where args: "args = a # rest" using assms(1) by (cases args) auto
  have "sumLoop args 0 = Inr (sum_list (map Num args))"
    using sumLoop_total [OF assms(2), of 0] by simp
  then show ?thesis by (simp add: fnSum_def args)
qed

lemma fnAvg_first:
  assumes "args \<noteq> []" "\<forall>a \<in> set args. \<not> IsError a"
  shows "fnAvg args = WithAmount (hd args) (sum_list (map Num args) / real (length args))"
proof -
  have "\<not> IsError (hd args)" using assms by (cases args) auto
  then show ?thesis
    using assms(1) by (simp add: fnAvg_def fnSum_first [OF assms] WithAmount_def IsError_def
        AsFloat_def Let_def)
qed

lemma minLoop_least:
  assumes "\<forall>a \<in> set rest. \<not> IsError a" "minNum = Num minVal"
  shows "minLoop rest minVal minNum \<in> set (minVal # rest)
       \<and> (\<forall>a \<in> set (minVal # rest). Num (minLoop rest minVal minNum) \<le> Num a)"
  using assms
proof (induction rest arbitrary: minVal minNum)
  case Nil
  then show ?case by (simp add: WithAmount_def)
next
  case (Cons arg rest)
  have noerr: "\<forall>a \<in> set rest. \<not> IsError a" using Cons.prems(1) by simp
  show ?case
  proof (cases "Num arg < Num minVal")
    case True
    have run: "minLoop (arg # rest) minVal minNum = minLoop rest arg (Num arg)"
      using True Cons.prems by (simp add: AsFloat_def)
    from Cons.IH [OF noerr refl, of arg]
    have "minLoop rest arg (Num arg) \<in> set (arg # rest)"
      and le: "\<forall>a \<in> set (arg # rest). Num (minLoop rest arg (Num arg)) \<le> Num a" by auto
    moreover from le have "Num (minLoop rest arg (Num arg)) \<le> Num arg" by simp
    with True have "Num (minLoop rest arg (Num arg)) \<le> Num minVal" by simp
    ultimately show ?thesis unfolding run by auto
  next
    case False
    have run: "minLoop (arg # rest) minVal minNum = minLoop rest minVal (Num minVal)"
      using False Cons.prems by (simp add: AsFloat_def)
    from Cons.IH [OF noerr refl, of minVal]
    have "minLoop rest minVal (Num minVal) \<in> set (minVal # rest)"
      and le: "\<forall>a \<in> set (minVal # rest). Num (minLoop rest minVal (Num minVal)) \<le> Num a"
      by auto
    moreover from le have "Num (minLoop rest minVal (Num minVal)) \<le> Num minVal" by simp
    with False have "Num (minLoop rest minVal (Num minVal)) \<le> Num arg" by simp
    ultimately show ?thesis unfolding run by auto
  qed
qed

lemma maxLoop_greatest:
  assumes "\<forall>a \<in> set rest. \<not> IsError a" "maxNum = Num maxVal"
  shows "maxLoop rest maxVal maxNum \<in> set (maxVal # rest)
       \<and> (\<forall>a \<in> set (maxVal # rest). Num a \<le> Num (maxLoop rest maxVal maxNum))"
  using assms
proof (induction rest arbitrary: maxVal maxNum)
  case Nil
  then show ?case by (simp add: WithAmount_def)
next
  case (Cons arg rest)
  have noerr: "\<forall>a \<in> set rest. \<not> IsError a" using Cons.prems(1) by simp
  show ?case
  proof (cases "Num arg > Num maxVal")
    case True
    have run: "maxLoop (arg # rest) maxVal maxNum = maxLoop rest arg (Num arg)"
      using True Cons.prems by (simp add: AsFloat_def)
    from Cons.IH [OF noerr refl, of arg]
    have "maxLoop rest arg (Num arg) \<in> set (arg # rest)"
      and le: "\<forall>a \<in> set (arg # rest). Num a \<le> Num (maxLoop rest arg (Num arg))" by auto
    moreover from le have "Num arg \<le> Num (maxLoop rest arg (Num arg))" by simp
    with True have "Num maxVal \<le> Num (maxLoop rest arg (Num arg))" by simp
    ultimately show ?thesis unfolding run by auto
  next
    case False
    have run: "maxLoop (arg # rest) maxVal maxNum = maxLoop rest maxVal (Num maxVal)"
      using False Cons.prems by (simp add: AsFloat_def)
    from Cons.IH [OF noerr refl, of maxVal]
    have "maxLoop rest maxVal (Num maxVal) \<in> set (maxVal # rest)"
      and le: "\<forall>a \<in> set (maxVal # rest). Num a \<le> Num (maxLoop rest maxVal (Num maxVal))"
      by auto
    moreover from le have "Num maxVal \<le> Num (maxLoop rest maxVal (Num maxVal))" by simp
    with False have "Num arg \<le> Num (maxLoop rest maxVal (Num maxVal))" by simp
    ultimately show ?thesis unfolding run by auto
  qed
qed

lemma fnMin_least:
  assumes "args \<noteq> []" "\<forall>a \<in> set args. \<not> IsError a"
  shows "fnMin args \<in> set args \<and> (\<forall>a \<in> set args. Num (fnMin args) \<le> Num a)"
proof -
  obtain a rest where args: "args = a # rest" using assms(1) by (cases args) auto
  have "\<forall>x \<in> set rest. \<not> IsError x" using assms(2) args by simp
  from minLoop_least [OF this, of "Num a" a] show ?thesis
    by (simp add: fnMin_def args AsFloat_def)
qed

lemma fnMax_greatest:
  assumes "args \<noteq> []" "\<forall>a \<in> set args. \<not> IsError a"
  shows "fnMax args \<in> set args \<and> (\<forall>a \<in> set args. Num a \<le> Num (fnMax args))"
proof -
  obtain a rest where args: "args = a # rest" using assms(1) by (cases args) auto
  have "\<forall>x \<in> set rest. \<not> IsError x" using assms(2) args by simp
  from maxLoop_greatest [OF this, of "Num a" a] show ?thesis
    by (simp add: fnMax_def args AsFloat_def)
qed

text \<open>
  Ties: the loops replace the value they hold only for a strictly smaller (greater)
  amount, so the result is the earliest argument with the least (greatest) amount.
\<close>

lemma minLoop_earliest:
  assumes "\<forall>a \<in> set rest. \<not> IsError a"
  shows "\<exists>pre post. minVal # rest = pre @ minLoop rest minVal (Num minVal) # post
           \<and> (\<forall>a \<in> set pre. Num (minLoop rest minVal (Num minVal)) < Num a)
           \<and> (\<forall>a \<in> set post. Num (minLoop rest minVal (Num minVal)) \<le> Num a)"
  using assms
proof (induction rest arbitrary: minVal)
  case Nil
  have eq: "minLoop [] minVal (Num minVal) = minVal" by (simp add: WithAmount_def)
  show ?case
    unfolding eq by (rule exI [of _ "[]"], rule exI [of _ "[]"]) simp
next
  case (Cons arg rest)
  have noerr: "\<forall>a \<in> set rest. \<not> IsError a" and ok: "\<not> IsError arg"
    using Cons.prems by simp_all
  show ?case
  proof (cases "Num arg < Num minVal")
    case True
    define R where "R = minLoop rest arg (Num arg)"
    have run: "minLoop (arg # rest) minVal (Num minVal) = R"
      using True ok by (simp add: AsFloat_def R_def)
    from Cons.IH [OF noerr, of arg] obtain pre post
      where sp: "arg # rest = pre @ R # post"
        and lt: "\<forall>a \<in> set pre. Num R < Num a" and le: "\<forall>a \<in> set post. Num R \<le> Num a"
      unfolding R_def by blast
    have "arg \<in> set (pre @ R # post)" using sp by (metis list.set_intros(1))
    then have "Num R \<le> Num arg" using lt le by auto
    with True have "Num R < Num minVal" by simp
    with lt have "\<forall>a \<in> set (minVal # pre). Num R < Num a" by simp
    moreover have "minVal # arg # rest = (minVal # pre) @ R # post" using sp by simp
    ultimately show ?thesis unfolding run using le by blast
  next
    case False
    define R where "R = minLoop rest minVal (Num minVal)"
    have run: "minLoop (arg # rest) minVal (Num minVal) = R"
      using False ok by (simp add: AsFloat_def R_def)
    from Cons.IH [OF noerr, of minVal] obtain pre post
      where sp: "minVal # rest = pre @ R # post"
        and lt: "\<forall>a \<in> set pre. Num R < Num a" and le: "\<forall>a \<in> set post. Num R \<le> Num a"
      unfolding R_def by blast
    show ?thesis
    proof (cases pre)
      case Nil
      then have "R = minVal" "post = rest" using sp by simp_all
      then have "minVal # arg # rest = [] @ R # (arg # post)"
        and "\<forall>a \<in> set (arg # post). Num R \<le> Num a"
        using False le by simp_all
      then show ?thesis unfolding run by (metis empty_iff list.set(1))
    next
      case (Cons x pre2)
      then have x: "x = minVal" and r: "rest = pre2 @ R # post" using sp by simp_all
      have "Num R < Num minVal" using lt Cons x by simp
      with False have "Num R < Num arg" by simp
      with lt Cons x have "\<forall>a \<in> set (minVal # arg # pre2). Num R < Num a" by simp
      moreover have "minVal # arg # rest = (minVal # arg # pre2) @ R # post" using r by simp
      ultimately show ?thesis unfolding run using le by blast
    qed
  qed
qed

lemma maxLoop_earliest:
  assumes "\<forall>a \<in> set rest. \<not> IsError a"
  shows "\<exists>pre post. maxVal # rest = pre @ maxLoop rest maxVal (Num maxVal) # post
           \<and> (\<forall>a \<in> set pre. Num a < Num (maxLoop rest maxVal (Num maxVal)))
           \<and> (\<forall>a \<in> set post. Num a \<le> Num (maxLoop rest maxVal (Num maxVal)))"
  using assms
proof (induction rest arbitrary: maxVal)
  case Nil
  have eq: "maxLoop [] maxVal (Num maxVal) = maxVal" by (simp add: WithAmount_def)
  show ?case
    unfolding eq by (rule exI [of _ "[]"], rule exI [of _ "[]"]) simp
next
  case (Cons arg rest)
  have noerr: "\<forall>a \<in> set rest. \<not> IsError a" and ok: "\<not> IsError arg"
    using Cons.prems by simp_all
  show ?case
  proof (cases "Num arg > Num maxVal")
    case True
    define R where "R = maxLoop rest arg (Num arg)"
    have run: "maxLoop (arg # rest) maxVal (Num maxVal) = R"
      using True ok by (simp add: AsFloat_def R_def)
    from Cons.IH [OF noerr, of arg] obtain pre post
      where sp: "arg # rest = pre @ R # post"
        and lt: "\<forall>a \<in> set pre. Num a < Num R" and le: "\<forall>a \<in> set post. Num a \<le> Num R"
      unfolding R_def by blast
    have "arg \<in> set (pre @ R # post)" using sp by (metis list.set_intros(1))
    then have "Num arg \<le> Num R" using lt le by auto
    with True have "Num maxVal < Num R" by simp
    with lt have "\<forall>a \<in> set (maxVal # pre). Num a < Num R" by simp
    moreover have "maxVal # arg # rest = (maxVal # pre) @ R # post" using sp by simp
    ultimately show ?thesis unfolding run using le by blast
  next
    case False
    define R where "R = maxLoop rest maxVal (Num maxVal)"
    have run: "maxLoop (arg # rest) maxVal (Num maxVal) = R"
      using False ok by (simp add: AsFloat_def R_def)
    from Cons.IH [OF noerr, of maxVal] obtain pre post
      where sp: "maxVal # rest = pre @ R # post"
        and lt: "\<forall>a \<in> set pre. Num a < Num R" and le: "\<forall>a \<in> set post. Num a \<le> Num R"
      unfolding R_def by blast
    show ?thesis
    proof (cases pre)
      case Nil
      then have "R = maxVal" "post = rest" using sp by simp_all
      then have "maxVal # arg # rest = [] @ R # (arg # post)"
        and "\<forall>a \<in> set (arg # post). Num a \<le> Num R"
        using False le by simp_all
      then show ?thesis unfolding run by (metis empty_iff list.set(1))
    next
      case (Cons x pre2)
      then have x: "x = maxVal" and r: "rest = pre2 @ R # post" using sp by simp_all
      have "Num maxVal < Num R" using lt Cons x by simp
      with False have "Num arg < Num R" by simp
      with lt Cons x have "\<forall>a \<in> set (maxVal # arg # pre2). Num a < Num R" by simp
      moreover have "maxVal # arg # rest = (maxVal # arg # pre2) @ R # post" using r by simp
      ultimately show ?thesis unfolding run using le by blast
    qed
  qed
qed

text \<open>The same fact by position: the result is \<open>args ! i\<close> for the first fitting \<open>i\<close>.\<close>

lemma split_position:
  assumes "args = pre @ x # post"
  shows "length pre < length args \<and> args ! length pre = x
       \<and> (\<forall>j < length pre. args ! j \<in> set pre)
       \<and> (\<forall>j < length args. args ! j \<in> set pre \<or> args ! j = x \<or> args ! j \<in> set post)"
proof -
  have "\<forall>j < length args. args ! j \<in> set args" by simp
  then show ?thesis
    using assms by (auto simp: nth_append)
qed

lemma fnMin_earliest:
  assumes "args \<noteq> []" "\<forall>a \<in> set args. \<not> IsError a"
  shows "\<exists>i < length args. fnMin args = args ! i
           \<and> (\<forall>j < length args. Num (args ! i) \<le> Num (args ! j))
           \<and> (\<forall>j < i. Num (args ! i) < Num (args ! j))"
proof -
  obtain a rest where args: "args = a # rest" using assms(1) by (cases args) auto
  have noerr: "\<forall>x \<in> set rest. \<not> IsError x" using assms(2) args by simp
  have fn: "fnMin args = minLoop rest a (Num a)"
    by (simp add: fnMin_def args AsFloat_def)
  from minLoop_earliest [OF noerr, of a, unfolded fn [symmetric] args [symmetric]] obtain pre post
    where sp: "args = pre @ fnMin args # post"
      and lt: "\<forall>x \<in> set pre. Num (fnMin args) < Num x"
      and le: "\<forall>x \<in> set post. Num (fnMin args) \<le> Num x"
    by blast
  note pos = split_position [OF sp]
  have "\<forall>j < length args. Num (fnMin args) \<le> Num (args ! j)"
    using pos lt le by (metis less_imp_le order_refl)
  moreover have "\<forall>j < length pre. Num (fnMin args) < Num (args ! j)"
    using pos lt by blast
  ultimately show ?thesis
    using pos by (intro exI [of _ "length pre"]) simp
qed

lemma fnMax_earliest:
  assumes "args \<noteq> []" "\<forall>a \<in> set args. \<not> IsError a"
  shows "\<exists>i < length args. fnMax args = args ! i
           \<and> (\<forall>j < length args. Num (args ! j) \<le> Num (args ! i))
           \<and> (\<forall>j < i. Num (args ! j) < Num (args ! i))"
proof -
  obtain a rest where args: "args = a # rest" using assms(1) by (cases args) auto
  have noerr: "\<forall>x \<in> set rest. \<not> IsError x" using assms(2) args by simp
  have fn: "fnMax args = maxLoop rest a (Num a)"
    by (simp add: fnMax_def args AsFloat_def)
  from maxLoop_earliest [OF noerr, of a, unfolded fn [symmetric] args [symmetric]] obtain pre post
    where sp: "args = pre @ fnMax args # post"
      and lt: "\<forall>x \<in> set pre. Num x < Num (fnMax args)"
      and le: "\<forall>x \<in> set post. Num x \<le> Num (fnMax args)"
    by blast
  note pos = split_position [OF sp]
  have "\<forall>j < length args. Num (args ! j) \<le> Num (fnMax args)"
    using pos lt le by (metis less_imp_le order_refl)
  moreover have "\<forall>j < length pre. Num (args ! j) < Num (fnMax args)"
    using pos lt by blast
  ultimately show ?thesis
    using pos by (intro exI [of _ "length pre"]) simp
qed

lemma coerceResult_same_kind:
  "op = OpAdd \<or> op = OpSub \<Longrightarrow> Kind left = Kind right \<Longrightarrow>
     coerceResult env c result left right op = WithAmount left result"
  by (auto simp: coerceResult_def)


subsection \<open>Facts about the variables map\<close>

lemma SetVariable_special:
  "ToLower name \<in> {''_'', ''ans'', ''total''} \<Longrightarrow> SetVariable c name v = c"
  by (auto simp: SetVariable_def Let_def)

lemma specialFree_SetVariable: "specialFree c \<Longrightarrow> specialFree (SetVariable c name v)"
  by (auto simp: specialFree_def SetVariable_def Let_def)

lemma specialFree_variables:
  "variables c' = variables c \<Longrightarrow> specialFree c \<Longrightarrow> specialFree c'"
  by (simp add: specialFree_def)

lemma variables_SetPrevious [simp]: "variables (SetPrevious c v) = variables c"
  by (simp add: SetPrevious_def)

lemma variables_AddLineResult [simp]: "variables (AddLineResult c lr) = variables c"
  by (simp add: AddLineResult_def)

lemma variables_MarkLastConsumed [simp]: "variables (MarkLastConsumed c) = variables c"
  by (simp add: MarkLastConsumed_def)

lemma specialFree_evalStmt: "specialFree c \<Longrightarrow> specialFree (snd (evalStmt env c stmt))"
  by (cases stmt) (simp_all add: Let_def specialFree_SetVariable)

lemma variables_EvalLine:
  "variables (snd (EvalLine env c line))
     = (case Stmt line of None \<Rightarrow> variables c
        | Some stmt \<Rightarrow> variables (snd (evalStmt env c stmt)))"
  by (simp add: EvalLine_def Let_def split: option.splits prod.splits)

lemma specialFree_EvalLine: "specialFree c \<Longrightarrow> specialFree (snd (EvalLine env c line))"
proof (cases "Stmt line")
  case None
  then show "specialFree c \<Longrightarrow> ?thesis" by (simp add: EvalLine_def)
next
  case (Some stmt)
  assume "specialFree c"
  then have "specialFree (snd (evalStmt env c stmt))" by (rule specialFree_evalStmt)
  moreover have "variables (snd (EvalLine env c line)) = variables (snd (evalStmt env c stmt))"
    by (simp add: variables_EvalLine Some)
  ultimately show ?thesis by (rule specialFree_variables [rotated])
qed

lemma GetVariable_special:
  "ToLower name \<in> {''_'', ''ans'', ''total''} \<Longrightarrow>
     GetVariable c name =
       (if ToLower name = ''total'' then (calculateTotal c, True)
        else if IsEmpty (previous c) then (Empty, False) else (previous c, True))"
  by (auto simp: GetVariable_def Let_def)

subsection \<open>Facts about the store\<close>

lemma frame_refl: "frame C M A st st"
  by (simp add: frame_def)

lemma frame_trans:
  "frame C M A st st1 \<Longrightarrow> frame C' M' A' st1 st2 \<Longrightarrow> frame (C \<union> C') (M \<union> M') (A \<union> A') st st2"
  by (simp add: frame_def)

lemma frame_mono:
  "frame C M A st st' \<Longrightarrow> C \<subseteq> C' \<Longrightarrow> M \<subseteq> M' \<Longrightarrow> A \<subseteq> A' \<Longrightarrow> frame C' M' A' st st'"
  by (auto simp: frame_def)

lemma length_markLoop [simp]: "length (markLoop xs) = length xs"
  by (induction xs) simp_all

text \<open>Each write to the store: what it leaves alone, and what the context holds after.\<close>

lemma SetVariable_frame:
  "frame {} {variablesRef (ctxObjs st a)} {} st (St_SetVariable st a name v)"
  by (simp add: frame_def St_SetVariable_def Let_def)

lemma SetVariable_ctx [simp]:
  "ctxObjs (St_SetVariable st a name v) = ctxObjs st"
  "arrObjs (St_SetVariable st a name v) = arrObjs st"
  "nextRef (St_SetVariable st a name v) = nextRef st"
  by (simp_all add: St_SetVariable_def Let_def)

lemma SetVariable_load:
  "load (St_SetVariable st a name v) a = SetVariable (load st a) name v"
  by (simp add: load_def St_SetVariable_def SetVariable_def Let_def sliceElems_def
      split: Slice.splits)

lemma MarkLastConsumed_frame:
  "frame {} {} (sliceRefs (linesSlice (ctxObjs st a))) st (St_MarkLastConsumed st a)"
  by (simp add: frame_def St_MarkLastConsumed_def sliceRefs_def split: Slice.splits)

lemma MarkLastConsumed_ctx [simp]:
  "ctxObjs (St_MarkLastConsumed st a) = ctxObjs st"
  "nextRef (St_MarkLastConsumed st a) = nextRef st"
  by (simp_all add: St_MarkLastConsumed_def split: Slice.splits)

lemma MarkLastConsumed_sliceOK: "sliceOK st a \<Longrightarrow> sliceOK (St_MarkLastConsumed st a) a"
  by (auto simp: sliceOK_def St_MarkLastConsumed_def split: Slice.splits)

lemma MarkLastConsumed_load:
  "sliceOK st a \<Longrightarrow> load (St_MarkLastConsumed st a) a = MarkLastConsumed (load st a)"
  by (auto simp: sliceOK_def load_def St_MarkLastConsumed_def MarkLastConsumed_def Let_def
      sliceElems_def split: Slice.splits)

lemma SetPrevious_frame: "frame {a} {} {} st (St_SetPrevious st a v)"
  by (simp add: frame_def St_SetPrevious_def)

lemma SetPrevious_nextRef [simp]: "nextRef (St_SetPrevious st a v) = nextRef st"
  by (simp add: St_SetPrevious_def)

lemma SetPrevious_sliceOK: "sliceOK st a \<Longrightarrow> sliceOK (St_SetPrevious st a v) a"
  by (simp add: sliceOK_def St_SetPrevious_def split: Slice.splits)

lemma SetPrevious_load: "load (St_SetPrevious st a v) a = SetPrevious (load st a) v"
  by (simp add: load_def St_SetPrevious_def SetPrevious_def Let_def sliceElems_def
      split: Slice.splits)

lemma AddLineResult_frame:
  "frame {a} {} (sliceRefs (linesSlice (ctxObjs st a)) \<union> {x. nextRef st \<le> x}) st
     (St_AddLineResult env st a lr)"
  by (auto simp: frame_def St_AddLineResult_def St_append_def Let_def sliceRefs_def
      split: Slice.splits)

lemma AddLineResult_sliceOK: "sliceOK st a \<Longrightarrow> sliceOK (St_AddLineResult env st a lr) a"
  by (auto simp: sliceOK_def St_AddLineResult_def St_append_def Let_def sliceElems_def
      split: Slice.splits)

lemma AddLineResult_load:
  "sliceOK st a \<Longrightarrow> load (St_AddLineResult env st a lr) a = AddLineResult (load st a) lr"
  by (auto simp: sliceOK_def load_def St_AddLineResult_def St_append_def AddLineResult_def
      Let_def sliceElems_def take_Suc_conv_app_nth split: Slice.splits)


lemma evalStmt_store [simp]:
  "ctxObjs (snd (St_evalStmt env st a stmt)) = ctxObjs st"
  "arrObjs (snd (St_evalStmt env st a stmt)) = arrObjs st"
  "nextRef (snd (St_evalStmt env st a stmt)) = nextRef st"
  by (cases stmt; simp add: Let_def)+

lemma evalStmt_frame:
  "frame {} {variablesRef (ctxObjs st a)} {} st (snd (St_evalStmt env st a stmt))"
  by (cases stmt) (simp_all add: Let_def frame_refl SetVariable_frame)

lemma evalStmt_sliceOK: "sliceOK st a \<Longrightarrow> sliceOK (snd (St_evalStmt env st a stmt)) a"
  by (simp add: sliceOK_def split: Slice.splits)

lemma evalStmt_refine:
  "fst (St_evalStmt env st a stmt) = fst (evalStmt env (load st a) stmt)
   \<and> load (snd (St_evalStmt env st a stmt)) a = snd (evalStmt env (load st a) stmt)"
  by (cases stmt) (simp_all add: Let_def SetVariable_load)

text \<open>
  The store-level \<open>St_EvalLine\<close> does to the context at \<open>a\<close> what \<open>EvalLine\<close> does to the
  state it holds.
\<close>

lemma EvalLine_refine:
  assumes ok: "sliceOK st a"
  shows "fst (St_EvalLine env st a pline) = fst (EvalLine env (load st a) pline)
       \<and> load (snd (St_EvalLine env st a pline)) a = snd (EvalLine env (load st a) pline)
       \<and> sliceOK (snd (St_EvalLine env st a pline)) a"
proof (cases "Stmt pline")
  case None
  then show ?thesis using ok by (simp add: St_EvalLine_def EvalLine_def)
next
  case (Some stmt)
  obtain result st1 where es: "St_evalStmt env st a stmt = (result, st1)"
    by (cases "St_evalStmt env st a stmt")
  obtain result' c1 where ep: "evalStmt env (load st a) stmt = (result', c1)"
    by (cases "evalStmt env (load st a) stmt")
  from evalStmt_refine [of env st a stmt] es ep
  have r: "result' = result" and l1: "load st1 a = c1" by simp_all
  have ok1: "sliceOK st1 a" using evalStmt_sliceOK [OF ok, of env stmt] es by simp
  define st2 where "st2 = (if isContinuationStmt stmt then St_MarkLastConsumed st1 a else st1)"
  define c2 where "c2 = (if isContinuationStmt stmt then MarkLastConsumed c1 else c1)"
  have ok2: "sliceOK st2 a" using ok1 by (simp add: st2_def MarkLastConsumed_sliceOK)
  have l2: "load st2 a = c2"
    using ok1 l1 by (simp add: st2_def c2_def MarkLastConsumed_load)
  define lr where "lr = \<lparr>Input = Raw pline, LValue = result, IsConsumed = False,
    IsContinuation = isContinuationStmt stmt, AssignedVar = assignedName stmt\<rparr>"
  define st3 where "st3 = St_AddLineResult env st2 a lr"
  have ok3: "sliceOK st3 a" using ok2 by (simp add: st3_def AddLineResult_sliceOK)
  have l3: "load st3 a = AddLineResult c2 lr"
    using ok2 l2 by (simp add: st3_def AddLineResult_load)
  have ok4: "sliceOK (St_SetPrevious st3 a result) a" using ok3 by (rule SetPrevious_sliceOK)
  have l4: "load (St_SetPrevious st3 a result) a = SetPrevious (AddLineResult c2 lr) result"
    using l3 by (simp add: SetPrevious_load)
  have lhs: "St_EvalLine env st a pline = (result, St_SetPrevious st3 a result)"
    by (simp add: St_EvalLine_def Some es Let_def st2_def st3_def lr_def)
  have rhs: "EvalLine env (load st a) pline = (result, SetPrevious (AddLineResult c2 lr) result)"
    by (simp add: EvalLine_def Some ep r Let_def c2_def lr_def)
  show ?thesis by (simp add: lhs rhs ok4 l4)
qed

lemma EvalLine_frame:
  "frame {a} {variablesRef (ctxObjs st a)}
     (sliceRefs (linesSlice (ctxObjs st a)) \<union> {x. nextRef st \<le> x}) st
     (snd (St_EvalLine env st a pline))"
proof (cases "Stmt pline")
  case None
  then show ?thesis by (simp add: St_EvalLine_def frame_refl)
next
  case (Some stmt)
  let ?A = "sliceRefs (linesSlice (ctxObjs st a)) \<union> {x. nextRef st \<le> x}"
  let ?M = "{variablesRef (ctxObjs st a)}"
  obtain result st1 where es: "St_evalStmt env st a stmt = (result, st1)"
    by (cases "St_evalStmt env st a stmt")
  have same1: "ctxObjs st1 = ctxObjs st" "nextRef st1 = nextRef st"
    using evalStmt_store [of env st a stmt] es by simp_all
  have f1: "frame {} ?M {} st st1" using evalStmt_frame [of st a env stmt] es by simp
  define st2 where "st2 = (if isContinuationStmt stmt then St_MarkLastConsumed st1 a else st1)"
  have same2: "ctxObjs st2 = ctxObjs st" "nextRef st2 = nextRef st"
    using same1 by (simp_all add: st2_def)
  have f2: "frame {} {} (sliceRefs (linesSlice (ctxObjs st a))) st1 st2"
    using MarkLastConsumed_frame [of st1 a] same1 by (simp add: st2_def frame_refl)
  define lr where "lr = \<lparr>Input = Raw pline, LValue = result, IsConsumed = False,
    IsContinuation = isContinuationStmt stmt, AssignedVar = assignedName stmt\<rparr>"
  define st3 where "st3 = St_AddLineResult env st2 a lr"
  have f3: "frame {a} {} ?A st2 st3"
    using AddLineResult_frame [of a st2 env lr] same2 by (simp add: st3_def)
  have f4: "frame {a} {} {} st3 (St_SetPrevious st3 a result)" by (rule SetPrevious_frame)
  note f12 = frame_trans [OF f1 f2]
  note f123 = frame_trans [OF f12 f3]
  note f1234 = frame_trans [OF f123 f4]
  have "frame {a} ?M ?A st (St_SetPrevious st3 a result)"
    by (rule frame_mono [OF f1234]) auto
  moreover have "St_EvalLine env st a pline = (result, St_SetPrevious st3 a result)"
    by (simp add: St_EvalLine_def Some es Let_def st2_def st3_def lr_def)
  ultimately show ?thesis by simp
qed

text \<open>\<open>Clone\<close> builds its copy from fresh objects only.\<close>

lemma take_min_length [simp]: "take (min (length xs) n) xs = take n xs"
  by (simp add: min_def)

lemma Clone_facts:
  assumes "St_Clone st a = (st1, c)"
  shows "c = nextRef st + 2" and "nextRef st1 = nextRef st + 3"
    and "frame {nextRef st + 2} {nextRef st} {nextRef st + 1} st st1"
    and "variablesRef (ctxObjs st1 c) = nextRef st"
    and "linesSlice (ctxObjs st1 c) = Slice (nextRef st + 1) (length (lines (load st a)))"
    and "load st1 c = load st a" and "sliceOK st1 c"
  using assms
  by (auto simp: St_Clone_def Let_def frame_def load_def sliceElems_def sliceOK_def
      split: Slice.splits)

lemma SetRateCache_facts:
  "frame {c} {} {} st (St_SetRateCache st c rc)"
  "nextRef (St_SetRateCache st c rc) = nextRef st"
  "variablesRef (ctxObjs (St_SetRateCache st c rc) c) = variablesRef (ctxObjs st c)"
  "linesSlice (ctxObjs (St_SetRateCache st c rc) c) = linesSlice (ctxObjs st c)"
  "load (St_SetRateCache st c rc) c = (load st c)\<lparr>rateCache := Some (cacheObjs st rc)\<rparr>"
  "sliceOK st c \<Longrightarrow> sliceOK (St_SetRateCache st c rc) c"
  by (simp_all add: St_SetRateCache_def frame_def load_def sliceElems_def sliceOK_def Let_def
      split: Slice.splits)


lemma EvalPreview_frame:
  "frame {x. nextRef st \<le> x} {x. nextRef st \<le> x} {x. nextRef st \<le> x} st
     (snd (Engine_EvalPreview n env st e src))"
proof -
  let ?F = "{x. nextRef st \<le> x}"
  obtain st1 c where cl: "St_Clone st (evaluatorCtx e) = (st1, c)"
    by (cases "St_Clone st (evaluatorCtx e)")
  note cf = Clone_facts [OF cl]
  define st2 where "st2 = St_SetRateCache st1 c (engineRateCache e)"
  have f1: "frame ?F ?F ?F st st1" by (rule frame_mono [OF cf(3)]) auto
  have f2: "frame ?F ?F ?F st1 st2"
    unfolding st2_def by (rule frame_mono [OF SetRateCache_facts(1)]) (auto simp: cf(1))
  have f12: "frame ?F ?F ?F st st2" using frame_trans [OF f1 f2] by simp
  have sub1: "{c} \<subseteq> ?F" by (simp add: cf(1))
  have "variablesRef (ctxObjs st2 c) = nextRef st"
    using cf(4) by (simp add: st2_def SetRateCache_facts(3))
  then have sub2: "{variablesRef (ctxObjs st2 c)} \<subseteq> ?F" by simp
  have "linesSlice (ctxObjs st2 c) = Slice (nextRef st + 1) (length (lines (load st (evaluatorCtx e))))"
    using cf(5) by (simp add: st2_def SetRateCache_facts(4))
  moreover have "nextRef st2 = nextRef st + 3"
    using cf(2) by (simp add: st2_def SetRateCache_facts(2))
  ultimately have sub3: "sliceRefs (linesSlice (ctxObjs st2 c)) \<union> {x. nextRef st2 \<le> x} \<subseteq> ?F"
    by (auto simp: sliceRefs_def)
  have f3: "frame ?F ?F ?F st2 (snd (St_EvalLine env st2 c pline))" for pline
    by (rule frame_mono [OF EvalLine_frame sub1 sub2 sub3])
  have f123: "frame ?F ?F ?F st (snd (St_EvalLine env st2 c pline))" for pline
    using frame_trans [OF f12 f3 [of pline]] by simp
  show ?thesis
    using f12 f123
    by (simp add: Engine_EvalPreview_def cl Let_def st2_def [symmetric] split_beta
        split: option.splits list.splits)
qed

lemma EvalPreview_value:
  "fst (Engine_EvalPreview n env st e src)
     = Session_EvalPreview n env
         ((load st (evaluatorCtx e))\<lparr>rateCache := Some (cacheObjs st (engineRateCache e))\<rparr>) src"
proof -
  obtain st1 c where cl: "St_Clone st (evaluatorCtx e) = (st1, c)"
    by (cases "St_Clone st (evaluatorCtx e)")
  note cf = Clone_facts [OF cl]
  define st2 where "st2 = St_SetRateCache st1 c (engineRateCache e)"
  have ok2: "sliceOK st2 c" unfolding st2_def using cf(7) by (rule SetRateCache_facts(6))
  have "cacheObjs st1 = cacheObjs st" using cf(3) by (simp add: frame_def)
  then have l2: "load st2 c
      = (load st (evaluatorCtx e))\<lparr>rateCache := Some (cacheObjs st (engineRateCache e))\<rparr>"
    by (simp add: st2_def SetRateCache_facts(5) cf(6))
  have v: "fst (St_EvalLine env st2 c pline) = fst (EvalLine env (load st2 c) pline)" for pline
    using EvalLine_refine [OF ok2] by simp
  show ?thesis
    by (simp add: Engine_EvalPreview_def Session_EvalPreview_def cl Let_def
        st2_def [symmetric] v l2 split_beta split: option.splits list.splits)
qed

lemma Eval_refine:
  assumes "sliceOK st (evaluatorCtx e)"
  shows "fst (Engine_Eval n env st e src) = fst (Session_Eval n env (load st (evaluatorCtx e)) src)
       \<and> load (snd (Engine_Eval n env st e src)) (evaluatorCtx e)
           = snd (Session_Eval n env (load st (evaluatorCtx e)) src)"
proof -
  have r: "fst (St_EvalLine env st (evaluatorCtx e) pline)
        = fst (EvalLine env (load st (evaluatorCtx e)) pline)
      \<and> load (snd (St_EvalLine env st (evaluatorCtx e) pline)) (evaluatorCtx e)
        = snd (EvalLine env (load st (evaluatorCtx e)) pline)" for pline
    using EvalLine_refine [OF assms] by simp
  show ?thesis
    by (simp add: Engine_Eval_def Session_Eval_def Let_def r split_beta
        split: option.splits list.splits)
qed

text \<open>What lies under the references of a well-formed engine decides its state.\<close>

lemma frame_fresh_load:
  assumes fr: "frame {x. nextRef st \<le> x} {x. nextRef st \<le> x} {x. nextRef st \<le> x} st st'"
    and wf: "wfEngine st e"
  shows "load st' (evaluatorCtx e) = load st (evaluatorCtx e)" and "wfEngine st' e"
proof -
  let ?a = "evaluatorCtx e"
  have a: "?a < nextRef st" and m: "variablesRef (ctxObjs st ?a) < nextRef st"
    and ok: "sliceOK st ?a"
    and refs: "\<forall>r \<in> sliceRefs (linesSlice (ctxObjs st ?a)). r < nextRef st"
    using wf by (simp_all add: wfEngine_def Let_def)
  have ctx: "ctxObjs st' ?a = ctxObjs st ?a" using fr a by (simp add: frame_def)
  have mp: "mapObjs st' (variablesRef (ctxObjs st ?a)) = mapObjs st (variablesRef (ctxObjs st ?a))"
    using fr m by (simp add: frame_def)
  have arr: "arrObjs st' r = arrObjs st r" if "r \<in> sliceRefs (linesSlice (ctxObjs st ?a))" for r
    using fr refs that by (auto simp: frame_def)
  have caches: "cacheObjs st' = cacheObjs st" using fr by (simp add: frame_def)
  have nx: "nextRef st \<le> nextRef st'" using fr by (simp add: frame_def)
  have elems: "sliceElems st' (linesSlice (ctxObjs st ?a)) = sliceElems st (linesSlice (ctxObjs st ?a))"
    using arr by (simp add: sliceElems_def sliceRefs_def split: Slice.splits)
  show "load st' ?a = load st ?a"
    by (simp add: load_def Let_def ctx mp caches elems)
  have ok': "sliceOK st' ?a"
    using ok arr by (simp add: sliceOK_def ctx sliceRefs_def split: Slice.splits)
  show "wfEngine st' e"
    using a m refs nx ok' by (auto simp: wfEngine_def Let_def ctx)
qed

lemma ParseLine_assign_sample:
  "ParseLine 12 sampleEnv ''x = 7''
     = Some (\<lparr>Stmt = Some (AssignStmt ''x'' (NumberLit 7 ''7'')), Comment = [], Raw = []\<rparr>, [])"
proof -
  let ?toks = "[newToken IDENTIFIER ''x'' 0, newToken EQUALS ''='' 2, newToken NUMBER ''7'' 4,
     newToken EOF [] 5]"
  have lex: "tokensUpTo 12 sampleEnv (NewLexer ''x = 7'') = ?toks"
    by code_simp
  have toks: "Tokenize 12 sampleEnv ''x = 7'' = Some ?toks"
    by (simp add: Tokenize_def lex newToken_def)
  have start: "skipNewlines (NewFromTokens ?toks) = NewFromTokens ?toks"
    by (simp add: skipNewlines.simps check_def current_def NewFromTokens_def newToken_def)
  have num: "parseFloat sampleEnv ''7'' = Some 7"
    by (simp add: parseFloat_def sampleEnv_def sampleParseFloat_def)
  have expr: "parseExpression 12 sampleEnv \<lparr>tokens = ?toks, pos = 2, errors = []\<rparr>
      = Some (Some (NumberLit 7 ''7''), \<lparr>tokens = ?toks, pos = 3, errors = []\<rparr>)"
    by (simp add: parseExpression_def parse_depth_Suc parse_depth_0 current_def advance_def
        check_def checkAny_def isBinaryOp_def currentBinaryOp_def conversionSuffix_def
        parseNumber_def num newToken_def Let_def split_beta eval_nat_numeral)
  have adv: "snd (advance (snd (advance (NewFromTokens ?toks))))
      = \<lparr>tokens = ?toks, pos = 2, errors = []\<rparr>"
    "Literal (fst (advance (NewFromTokens ?toks))) = ''x''"
    by (simp_all add: advance_def current_def NewFromTokens_def newToken_def)
  have assign: "parseAssignment 12 sampleEnv (NewFromTokens ?toks)
      = Some (AssignStmt ''x'' (NumberLit 7 ''7''), \<lparr>tokens = ?toks, pos = 3, errors = []\<rparr>)"
    by (simp add: parseAssignment_def split_beta Let_def adv expr)
  have chk: "\<not> check (NewFromTokens ?toks) EOF" "\<not> check (NewFromTokens ?toks) COMMENT"
    "check (NewFromTokens ?toks) IDENTIFIER" "Type (peek (NewFromTokens ?toks)) = EQUALS"
    "\<not> check \<lparr>tokens = ?toks, pos = 3, errors = []\<rparr> COMMENT"
    by (simp_all add: check_def current_def peek_def NewFromTokens_def newToken_def)
  have stmt: "parseStatement 12 sampleEnv (NewFromTokens ?toks)
      = Some (AssignStmt ''x'' (NumberLit 7 ''7''), \<lparr>tokens = ?toks, pos = 3, errors = []\<rparr>)"
    by (simp add: parseStatement_def chk assign)
  have pl: "Parser_ParseLine 12 sampleEnv (NewFromTokens ?toks)
      = Some (\<lparr>Stmt = Some (AssignStmt ''x'' (NumberLit 7 ''7'')), Comment = [], Raw = []\<rparr>,
              \<lparr>tokens = ?toks, pos = 3, errors = []\<rparr>)"
    by (simp add: Parser_ParseLine_def start chk stmt)
  show ?thesis
    by (simp add: ParseLine_def toks pl)
qed

subsection \<open>Facts about the lexer on ASCII input\<close>

text \<open>
  On ASCII input every rune is one byte, so the lexer's current position is the offset of
  the current character, and the position to read next is one more.
\<close>

definition aligned :: "Lexer \<Rightarrow> bool" where
  "aligned l \<longleftrightarrow>
     (\<forall>c \<in> set (input l). (of_char c :: nat) < 128)
     \<and> readPos l = lpos l + 1 \<and> lpos l \<le> length (input l)
     \<and> ch l = (if lpos l < length (input l) then of_char (input l ! lpos l) else 0)"

text \<open>The input text from the position of one lexer state up to that of a later one.\<close>

definition between :: "Lexer \<Rightarrow> Lexer \<Rightarrow> string" where
  "between l l' = take (lpos l' - lpos l) (drop (lpos l) (input l))"

definition reaches :: "Lexer \<Rightarrow> Lexer \<Rightarrow> bool" where
  "reaches l l' \<longleftrightarrow> aligned l' \<and> input l' = input l \<and> lpos l \<le> lpos l'"











lemma between_refl [simp]: "between l l = []"
  by (simp add: between_def)



lemma length_between: "reaches l l' \<Longrightarrow> length (between l l') = lpos l' - lpos l"
  by (auto simp: between_def reaches_def aligned_def)


lemma reaches_aligned: "reaches l l' \<Longrightarrow> aligned l'"
  by (simp add: reaches_def)











































section \<open>The claims\<close>

text \<open>
  C1 (as the code behaves). Adding two Currency values of different currencies never
  reaches the conversion: \<open>coerceResult\<close> returns at its same-kind test, so \<open>$10 + \<euro>5\<close>
  is \<open>$15\<close> whether the cache has no EUR/USD rate (the claim asks for an Error) or has
  the rate 1.1 (the claim asks for the converted sum).
\<close>

theorem C1_currency_sum_without_conversion:
  "Context_Convert env (NewContext []) 5 ''EUR'' ''USD'' = None
   \<and> applyBinaryOp env (NewContext []) OpAdd
        (CurrencyValue 10 (Some USD)) (CurrencyValue 5 (Some EUR))
      = CurrencyValue 15 (Some USD)
   \<and> Context_Convert env (NewContext (SetRate [] ''EUR'' ''USD'' 1.1)) 5 ''EUR'' ''USD''
      = Some 5.5
   \<and> applyBinaryOp env (NewContext (SetRate [] ''EUR'' ''USD'' 1.1)) OpAdd
        (CurrencyValue 10 (Some USD)) (CurrencyValue 5 (Some EUR))
      = CurrencyValue 15 (Some USD)"
proof -
  have up: "ToUpper ''EUR'' = ''EUR''" "ToUpper ''USD'' = ''USD''"
    by (simp_all add: ToUpper_def toUpperChar_def)
  have none: "Context_Convert env (NewContext []) 5 ''EUR'' ''USD'' = None"
    by (simp add: Context_Convert_def NewContext_def Convert_def GetRate_def up findRateBFS_def
        rangeOrder_def)
  have some: "Context_Convert env (NewContext (SetRate [] ''EUR'' ''USD'' 1.1)) 5 ''EUR'' ''USD''
      = Some 5.5"
    by (simp add: Context_Convert_def NewContext_def Convert_def GetRate_def up SetRate_def)
  have sum: "applyBinaryOp env c OpAdd (CurrencyValue 10 (Some USD)) (CurrencyValue 5 (Some EUR))
      = CurrencyValue 15 (Some USD)" for c
    by (simp add: applyBinaryOp_def IsPercentage_def coerceResult_same_kind
        AsFloat_def WithAmount_def CurrencyValue_def zeroValue_def)
  show ?thesis using none some sum by simp
qed

text \<open>
  C2. For a non-error left operand and a Percentage right operand, \<open>+\<close> and \<open>-\<close> yield the
  left operand with its amount replaced by \<open>base * (1 + pct)\<close>, respectively
  \<open>base * (1 - pct)\<close>: kind and type descriptor are those of the left operand.
\<close>

theorem C2_percentage_of_base:
  assumes "IsPercentage right" and "op = OpAdd \<or> op = OpSub" and "\<not> IsError left"
  shows "applyBinaryOp env c op left right
       = left\<lparr>Num := Num left * (if op = OpAdd then 1 + Num right else 1 - Num right)\<rparr>"
  using assms by (auto simp: applyBinaryOp_def applyPercentageOp_def WithAmount_def AsFloat_def)

theorem C2_percentage_of_base_witness:
  "IsPercentage (Percentage 0.15) \<and> \<not> IsError (CurrencyValue 100 (Some USD))
   \<and> applyBinaryOp sampleEnv (NewContext []) OpAdd (CurrencyValue 100 (Some USD))
        (Percentage 0.15) = CurrencyValue 115 (Some USD)
   \<and> applyBinaryOp sampleEnv (NewContext []) OpSub (CurrencyValue 100 (Some USD))
        (Percentage 0.10) = CurrencyValue 90 (Some USD)"
proof -
  have p: "IsPercentage (Percentage 0.15)" "IsPercentage (Percentage 0.10)"
    by (simp_all add: IsPercentage_def Percentage_def)
  have l: "\<not> IsError (CurrencyValue 100 (Some USD))"
    by (simp add: IsError_def CurrencyValue_def)
  show ?thesis
    using p l
      C2_percentage_of_base [OF p(1) _ l, of OpAdd sampleEnv "NewContext []"]
      C2_percentage_of_base [OF p(2) _ l, of OpSub sampleEnv "NewContext []"]
    by (simp add: CurrencyValue_def Percentage_def zeroValue_def)
qed

text \<open>
  C3. For codes written in ASCII: in the table that \<open>SetRate(A,B,r1)\<close> and
  \<open>SetRate(B,C,r2)\<close> build from the empty one, for three codes that differ after
  upper-casing and non-zero rates, \<open>GetRate(A,C)\<close> is \<open>r1 * r2\<close>, in whatever order the
  runtime visits the table. And for any table: when no chain of stored pairs leads from
  one code to the other, \<open>GetRate\<close> reports not-found.
\<close>

theorem C3_multi_hop:
  "(asciiCode A \<and> asciiCode B \<and> asciiCode C
      \<and> ToUpper A \<noteq> ToUpper B \<and> ToUpper B \<noteq> ToUpper C \<and> ToUpper A \<noteq> ToUpper C
      \<and> r1 \<noteq> 0 \<and> r2 \<noteq> 0
      \<longrightarrow> GetRate ord (SetRate (SetRate [] A B r1) B C r2) A C = Some (r1 * r2))
   \<and> (asciiCode from \<and> asciiCode to \<and> (ToUpper from, ToUpper to) \<notin> (fst ` set rates)\<^sup>*
      \<longrightarrow> GetRate ord rates from to = None)"
  using GetRate_two_hops [of A B C r1 r2 ord] GetRate_unreachable [of "from" to rates ord]
  by blast

theorem C3_multi_hop_witness:
  "asciiCode ''USD'' \<and> asciiCode ''EUR'' \<and> asciiCode ''GBP'' \<and> asciiCode ''JPY''
   \<and> GetRate (\<lambda>k p. 0) (SetRate (SetRate [] ''USD'' ''EUR'' 2) ''EUR'' ''GBP'' 3) ''USD'' ''GBP''
     = Some 6
   \<and> (ToUpper ''USD'', ToUpper ''JPY'') \<notin> (fst ` set (SetRate [] ''USD'' ''EUR'' 2))\<^sup>*
   \<and> GetRate (\<lambda>k p. 0) (SetRate [] ''USD'' ''EUR'' 2) ''USD'' ''JPY'' = None"
proof -
  have asc: "asciiCode ''USD''" "asciiCode ''EUR''" "asciiCode ''GBP''" "asciiCode ''JPY''"
    by (simp_all add: asciiCode_def)
  have up: "ToUpper ''USD'' = ''USD''" "ToUpper ''EUR'' = ''EUR''" "ToUpper ''GBP'' = ''GBP''"
    "ToUpper ''JPY'' = ''JPY''"
    by (simp_all add: ToUpper_def toUpperChar_def)
  have keys: "fst ` set (SetRate [] ''USD'' ''EUR'' 2)
      = {(''USD'', ''EUR''), (''EUR'', ''USD'')}"
    by (simp add: SetRate_def up Let_def)
  have unreach: "(ToUpper ''USD'', ToUpper ''JPY'')
      \<notin> (fst ` set (SetRate [] ''USD'' ''EUR'' 2))\<^sup>*"
  proof
    assume "(ToUpper ''USD'', ToUpper ''JPY'') \<in> (fst ` set (SetRate [] ''USD'' ''EUR'' 2))\<^sup>*"
    then have "(''USD'', ''JPY'') \<in> {(''USD'', ''EUR''), (''EUR'', ''USD'')}\<^sup>*"
      by (simp only: keys up)
    then show False
      by (cases rule: rtranclE) auto
  qed
  have two: "GetRate (\<lambda>k p. 0) (SetRate (SetRate [] ''USD'' ''EUR'' 2) ''EUR'' ''GBP'' 3)
      ''USD'' ''GBP'' = Some (2 * 3)"
    using C3_multi_hop [of "''USD''" "''EUR''" "''GBP''" 2 3 "\<lambda>k p. 0"] asc by (simp add: up)
  have none: "GetRate (\<lambda>k p. 0) (SetRate [] ''USD'' ''EUR'' 2) ''USD'' ''JPY'' = None"
    using C3_multi_hop [of _ _ _ _ _ _ "''USD''" "''JPY''" "SetRate [] ''USD'' ''EUR'' 2"]
      unreach asc by blast
  show ?thesis using asc two unreach none by simp
qed

text \<open>
  C4 (as the code behaves). The table loaded by \<open>New()\<close> does store an identity pair:
  \<open>loadDefaults\<close> writes \<open>(USD, USD) = 1.0\<close>.
\<close>

theorem C4_identity_stored_counterexample:
  "map_of (loadDefaults []) (''USD'', ''USD'') = Some 1"
  by (rule loadDefaults_USD_USD)

text \<open>
  C4 (amended). For codes written in ASCII, \<open>SetRate(A,B,r)\<close> with \<open>r \<noteq> 0\<close> leaves
  \<open>(B,A) = 1/r\<close> in the table, and \<open>(A,B) = r\<close> when the two codes differ after
  upper-casing. \<open>GetRate(A,A)\<close> is 1.0 for every code and every table. No identity pair
  is stored, but for one: \<open>SetRate\<close> for two different codes adds none, and the only one
  that \<open>loadDefaults\<close> adds is \<open>(USD, USD)\<close>.
\<close>

theorem C4_rate_table:
  "(asciiCode A \<and> asciiCode B \<and> rate \<noteq> 0
        \<longrightarrow> map_of (SetRate rates A B rate) (ToUpper B, ToUpper A) = Some (1 / rate))
   \<and> (asciiCode A \<and> asciiCode B \<and> ToUpper A \<noteq> ToUpper B
        \<longrightarrow> map_of (SetRate rates A B rate) (ToUpper A, ToUpper B) = Some rate)
   \<and> GetRate ord rates A A = Some 1
   \<and> (asciiCode A \<and> asciiCode B \<and> ToUpper A \<noteq> ToUpper B
        \<longrightarrow> (\<forall>c. (c, c) \<in> fst ` set (SetRate rates A B rate) \<longrightarrow> (c, c) \<in> fst ` set rates))
   \<and> (\<forall>c. (c, c) \<in> fst ` set (loadDefaults rates)
        \<longrightarrow> c = ''USD'' \<or> (c, c) \<in> fst ` set rates)"
proof -
  have "\<forall>c. (c, c) \<in> fst ` set (SetRate rates A B rate) \<longrightarrow> (c, c) \<in> fst ` set rates"
    if ne: "ToUpper A \<noteq> ToUpper B"
  proof (intro allI impI)
    fix c assume "(c, c) \<in> fst ` set (SetRate rates A B rate)"
    with keys_SetRate [of rates A B rate]
    have "(c, c) = (ToUpper A, ToUpper B) \<or> (c, c) = (ToUpper B, ToUpper A)
        \<or> (c, c) \<in> fst ` set rates" by blast
    with ne show "(c, c) \<in> fst ` set rates" by auto
  qed
  moreover have "\<forall>c. (c, c) \<in> fst ` set (loadDefaults rates)
      \<longrightarrow> c = ''USD'' \<or> (c, c) \<in> fst ` set rates"
    using identity_loadDefaults [of _ rates] by blast
  ultimately show ?thesis
    using map_of_SetRate_inverse [of rate rates A B] map_of_SetRate_direct [of A B rates rate]
      GetRate_same [of ord rates A] by blast
qed

theorem C4_rate_table_witness:
  "asciiCode ''usd'' \<and> asciiCode ''EUR'' \<and> (2::real) \<noteq> 0 \<and> ToUpper ''usd'' \<noteq> ToUpper ''EUR''
   \<and> map_of (SetRate [] ''usd'' ''EUR'' 2) (''EUR'', ''USD'') = Some (1 / 2)
   \<and> map_of (SetRate [] ''usd'' ''EUR'' 2) (''USD'', ''EUR'') = Some 2
   \<and> GetRate (\<lambda>k p. 0) [] ''usd'' ''usd'' = Some 1
   \<and> (\<forall>c. (c, c) \<notin> fst ` set (SetRate [] ''usd'' ''EUR'' 2))
   \<and> (''EUR'', ''EUR'') \<notin> fst ` set (loadDefaults [])"
proof -
  have asc: "asciiCode ''usd''" "asciiCode ''EUR''"
    by (simp_all add: asciiCode_def)
  have up: "ToUpper ''usd'' = ''USD''" "ToUpper ''EUR'' = ''EUR''"
    by code_simp+
  have ne: "ToUpper ''usd'' \<noteq> ToUpper ''EUR''" by (simp add: up)
  note c4 = C4_rate_table [of "''usd''" "''EUR''" 2 "[]" "\<lambda>k p. 0"]
  have "(''EUR'', ''EUR'') \<notin> fst ` set (loadDefaults [])"
    using c4 by auto
  then show ?thesis
    using asc ne c4 by (simp add: up)
qed

text \<open>
  C5 (as the code behaves). The line \<^verbatim>\<open>a + b in EUR\<close> parses, without an error, to the
  sum of \<open>a\<close> and the conversion of \<open>b\<close>: the recursive call of \<open>parseBinaryExpr\<close> for the
  right operand meets the \<^verbatim>\<open>in\<close> token first and wraps \<open>b\<close> alone. The claim asks for a
  ConversionExpr around the whole BinaryExpr.
\<close>

theorem C5_conversion_wraps_right_operand:
  "ParseLine 12 sampleEnv ''a + b in EUR''
     = Some (\<lparr>Stmt = Some (ExprStmt (BinaryExpr (Identifier ''a'') OpAdd
                 (ConversionExpr (Identifier ''b'') ''EUR''))),
              Comment = [], Raw = []\<rparr>, [])"
proof -
  let ?toks = "[newToken IDENTIFIER ''a'' 0, newToken PLUS ''+'' 2, newToken IDENTIFIER ''b'' 4,
     newToken IN ''in'' 6, newToken IDENTIFIER ''EUR'' 9, newToken EOF [] 12]"
  have lex: "tokensUpTo 12 sampleEnv (NewLexer ''a + b in EUR'') = ?toks"
    by code_simp
  have toks: "Tokenize 12 sampleEnv ''a + b in EUR'' = Some ?toks"
    by (simp add: Tokenize_def lex newToken_def)
  have low: "ToLower ''a'' = ''a''" "ToLower ''b'' = ''b''" by code_simp+
  have start: "skipNewlines (NewFromTokens ?toks) = NewFromTokens ?toks"
    by (simp add: skipNewlines.simps check_def current_def NewFromTokens_def newToken_def)
  have expr: "parseExpression 12 sampleEnv (NewFromTokens ?toks)
      = Some (Some (BinaryExpr (Identifier ''a'') OpAdd (ConversionExpr (Identifier ''b'') ''EUR'')),
              \<lparr>tokens = ?toks, pos = 5, errors = []\<rparr>)"
    by (simp add: parseExpression_def parse_depth_Suc parse_depth_0 current_def advance_def
        check_def checkAny_def isBinaryOp_def currentBinaryOp_def conversionSuffix_def
        newToken_def NewFromTokens_def Let_def split_beta low eval_nat_numeral)
  have stmt: "parseStatement 12 sampleEnv (NewFromTokens ?toks)
      = Some (ExprStmt (BinaryExpr (Identifier ''a'') OpAdd
                (ConversionExpr (Identifier ''b'') ''EUR'')),
              \<lparr>tokens = ?toks, pos = 5, errors = []\<rparr>)"
    unfolding parseStatement_def expr
    by (simp add: check_def checkAny_def current_def peek_def NewFromTokens_def newToken_def)
  have chk: "\<not> check (NewFromTokens ?toks) EOF" "\<not> check (NewFromTokens ?toks) COMMENT"
    "\<not> check \<lparr>tokens = ?toks, pos = 5, errors = []\<rparr> COMMENT"
    by (simp_all add: check_def current_def NewFromTokens_def newToken_def)
  have pl: "Parser_ParseLine 12 sampleEnv (NewFromTokens ?toks)
      = Some (\<lparr>Stmt = Some (ExprStmt (BinaryExpr (Identifier ''a'') OpAdd
                  (ConversionExpr (Identifier ''b'') ''EUR''))),
               Comment = [], Raw = []\<rparr>,
              \<lparr>tokens = ?toks, pos = 5, errors = []\<rparr>)"
    by (simp add: Parser_ParseLine_def start chk stmt)
  show ?thesis
    by (simp add: ParseLine_def toks pl)
qed

text \<open>
  C6. In a well-formed store (the engine's context, its variable map and the line records
  of its history are allocated, and the history slice lies inside its backing array),
  \<open>EvalPreview\<close> changes no object that was allocated before the call and no rate
  cache: the session's context reads the same variables, previous result and line history
  afterwards, the store stays well-formed, and a following \<open>Eval\<close> or
  \<open>EvalPreview\<close> returns the same value (and \<open>Eval\<close> leaves the same session state)
  as it would without the preview. The clone that the preview works on is made of fresh
  objects only.
\<close>

theorem C6_preview_leaves_session:
  assumes "wfEngine st e"
  shows "(\<forall>x < nextRef st.
            ctxObjs (snd (Engine_EvalPreview n env st e src)) x = ctxObjs st x
            \<and> mapObjs (snd (Engine_EvalPreview n env st e src)) x = mapObjs st x
            \<and> arrObjs (snd (Engine_EvalPreview n env st e src)) x = arrObjs st x)
       \<and> cacheObjs (snd (Engine_EvalPreview n env st e src)) = cacheObjs st
       \<and> load (snd (Engine_EvalPreview n env st e src)) (evaluatorCtx e)
           = load st (evaluatorCtx e)
       \<and> wfEngine (snd (Engine_EvalPreview n env st e src)) e
       \<and> fst (Engine_Eval k env (snd (Engine_EvalPreview n env st e src)) e src')
           = fst (Engine_Eval k env st e src')
       \<and> load (snd (Engine_Eval k env (snd (Engine_EvalPreview n env st e src)) e src'))
             (evaluatorCtx e)
           = load (snd (Engine_Eval k env st e src')) (evaluatorCtx e)
       \<and> fst (Engine_EvalPreview k env (snd (Engine_EvalPreview n env st e src)) e src')
           = fst (Engine_EvalPreview k env st e src')"
proof -
  define st' where "st' = snd (Engine_EvalPreview n env st e src)"
  have fr: "frame {x. nextRef st \<le> x} {x. nextRef st \<le> x} {x. nextRef st \<le> x} st st'"
    unfolding st'_def by (rule EvalPreview_frame)
  have old: "\<forall>x < nextRef st. ctxObjs st' x = ctxObjs st x \<and> mapObjs st' x = mapObjs st x
      \<and> arrObjs st' x = arrObjs st x"
    using fr by (simp add: frame_def)
  have caches: "cacheObjs st' = cacheObjs st" using fr by (simp add: frame_def)
  have ld: "load st' (evaluatorCtx e) = load st (evaluatorCtx e)" and wf': "wfEngine st' e"
    using frame_fresh_load [OF fr assms] by simp_all
  have ok: "sliceOK st (evaluatorCtx e)" "sliceOK st' (evaluatorCtx e)"
    using assms wf' by (simp_all add: wfEngine_def Let_def)
  have ev: "fst (Engine_Eval k env st' e src') = fst (Engine_Eval k env st e src')"
    and ev_state: "load (snd (Engine_Eval k env st' e src')) (evaluatorCtx e)
      = load (snd (Engine_Eval k env st e src')) (evaluatorCtx e)"
    using Eval_refine [OF ok(1), of k env src'] Eval_refine [OF ok(2), of k env src'] ld
    by simp_all
  have pv: "fst (Engine_EvalPreview k env st' e src') = fst (Engine_EvalPreview k env st e src')"
    by (simp add: EvalPreview_value ld caches)
  show ?thesis
    using old caches ld wf' ev ev_state pv unfolding st'_def by blast
qed

theorem C6_preview_leaves_session_witness:
  "wfEngine (fst (Engine_New emptyStore [])) (snd (Engine_New emptyStore []))
   \<and> fst (Engine_EvalPreview 12 sampleEnv (fst (Engine_New emptyStore []))
            (snd (Engine_New emptyStore [])) ''x = 7'') = Some (Number 7)
   \<and> variables (load (snd (Engine_EvalPreview 12 sampleEnv (fst (Engine_New emptyStore []))
                            (snd (Engine_New emptyStore [])) ''x = 7''))
                  (evaluatorCtx (snd (Engine_New emptyStore [])))) ''x'' = None
   \<and> fst (Engine_Eval 12 sampleEnv
            (snd (Engine_EvalPreview 12 sampleEnv (fst (Engine_New emptyStore []))
                   (snd (Engine_New emptyStore [])) ''x = 7''))
            (snd (Engine_New emptyStore [])) ''x'')
       = fst (Engine_Eval 12 sampleEnv (fst (Engine_New emptyStore []))
                (snd (Engine_New emptyStore [])) ''x'')"
proof -
  define st where "st = fst (Engine_New emptyStore [])"
  define e where "e = snd (Engine_New emptyStore [])"
  have wf: "wfEngine st e"
    by (simp add: st_def e_def wfEngine_def Engine_New_def emptyStore_def Let_def sliceOK_def
        sliceRefs_def)
  have vars: "variables (load st (evaluatorCtx e)) ''x'' = None"
    by (simp add: st_def e_def load_def Engine_New_def emptyStore_def Let_def)
  have trim: "TrimSpace ''x = 7'' \<noteq> []" by code_simp
  have val: "fst (Engine_EvalPreview 12 sampleEnv st e ''x = 7'') = Some (Number 7)"
    by (simp add: EvalPreview_value Session_EvalPreview_def trim ParseLine_assign_sample
        EvalLine_def Let_def split_beta IsError_def Number_def)
  note c6 = C6_preview_leaves_session [OF wf, of 12 sampleEnv "''x = 7''" 12 "''x''"]
  show ?thesis
    using wf val vars c6 unfolding st_def e_def by simp
qed

text \<open>
  C7. For non-error operands, division and modulo with a right operand whose numeric
  value is zero yield an Error value, whatever the kinds of the operands.
\<close>

theorem C7_division_by_zero:
  assumes "op = OpDiv \<or> op = OpMod" and "AsFloat right = 0"
    and "\<not> IsError left" and "\<not> IsError right"
  shows "applyBinaryOp env c op left right
       = Error (if op = OpDiv then ''division by zero'' else ''modulo by zero'')
       \<and> IsError (applyBinaryOp env c op left right)"
  using assms
  by (auto simp: applyBinaryOp_def AsFloat_def Let_def IsError_def Error_def zeroValue_def)

theorem C7_division_by_zero_witness:
  "AsFloat (Percentage 0) = 0 \<and> \<not> IsError (CurrencyValue 7 (Some USD))
   \<and> \<not> IsError (Percentage 0)
   \<and> applyBinaryOp sampleEnv (NewContext []) OpDiv (CurrencyValue 7 (Some USD)) (Percentage 0)
      = Error ''division by zero''
   \<and> applyBinaryOp sampleEnv (NewContext []) OpMod (CurrencyValue 7 (Some USD)) (Percentage 0)
      = Error ''modulo by zero''"
proof -
  have z: "AsFloat (Percentage 0) = 0" by (simp add: AsFloat_def Percentage_def)
  have l: "\<not> IsError (CurrencyValue 7 (Some USD))" by (simp add: IsError_def CurrencyValue_def)
  have r: "\<not> IsError (Percentage 0)" by (simp add: IsError_def Percentage_def)
  show ?thesis
    using z l r
      C7_division_by_zero [OF _ z l r, of OpDiv sampleEnv "NewContext []"]
      C7_division_by_zero [OF _ z l r, of OpMod sampleEnv "NewContext []"]
    by simp
qed

text \<open>
  C8 (as the code behaves). \<open>min\<close> of a Number and a smaller Currency value is the
  Currency value: the kind of the result is not that of the first argument.
\<close>

theorem C8_min_counterexample:
  "Kind (fnMin [Number 5, CurrencyValue 3 (Some USD)]) \<noteq> Kind (Number 5)"
  by (simp add: fnMin_def Number_def CurrencyValue_def zeroValue_def AsFloat_def IsError_def
      WithAmount_def)

text \<open>
  C8 (amended). For a non-empty list of non-error arguments, \<open>sum\<close> and \<open>avg\<close> return the
  first argument with its amount replaced by the sum, respectively the mean, of the
  amounts; \<open>min\<close> and \<open>max\<close> return one of the arguments as it is: the earliest argument
  whose amount is least, respectively greatest. So \<open>min\<close> and \<open>max\<close> keep the kind and type
  descriptor of the first argument exactly when no later argument is strictly smaller,
  respectively greater.
\<close>

theorem C8_aggregations:
  assumes "args \<noteq> []" and "\<forall>a \<in> set args. \<not> IsError a"
  shows "fnSum args = WithAmount (hd args) (sum_list (map Num args))
       \<and> fnAvg args = WithAmount (hd args) (sum_list (map Num args) / real (length args))
       \<and> (\<exists>i < length args. fnMin args = args ! i
             \<and> (\<forall>j < length args. Num (args ! i) \<le> Num (args ! j))
             \<and> (\<forall>j < i. Num (args ! i) < Num (args ! j)))
       \<and> (\<exists>i < length args. fnMax args = args ! i
             \<and> (\<forall>j < length args. Num (args ! j) \<le> Num (args ! i))
             \<and> (\<forall>j < i. Num (args ! j) < Num (args ! i)))"
  using fnSum_first [OF assms] fnAvg_first [OF assms] fnMin_earliest [OF assms]
    fnMax_earliest [OF assms] by simp

theorem C8_aggregations_witness:
  "[Number 3, CurrencyValue 3 (Some USD), Number 7] \<noteq> []
   \<and> \<not> IsError (Number 3) \<and> \<not> IsError (CurrencyValue 3 (Some USD)) \<and> \<not> IsError (Number 7)
   \<and> fnSum [Number 3, CurrencyValue 3 (Some USD), Number 7] = Number 13
   \<and> fnAvg [CurrencyValue 4 (Some USD), Number 2] = CurrencyValue 3 (Some USD)
   \<and> fnMin [Number 3, CurrencyValue 3 (Some USD), Number 7] = Number 3
   \<and> fnMax [Number 3, CurrencyValue 3 (Some USD), Number 7] = Number 7"
proof -
  let ?args = "[Number 3, CurrencyValue 3 (Some USD), Number 7]"
  let ?args2 = "[CurrencyValue 4 (Some USD), Number 2]"
  have ne: "?args \<noteq> []" "?args2 \<noteq> []" by simp_all
  have ok: "\<forall>a \<in> set ?args. \<not> IsError a" "\<forall>a \<in> set ?args2. \<not> IsError a"
    by (simp_all add: IsError_def CurrencyValue_def Number_def)
  have nums: "Num (?args ! 0) = 3" "Num (?args ! 1) = 3" "Num (?args ! 2) = 7"
    by (simp_all add: CurrencyValue_def Number_def zeroValue_def)
  note c8 = C8_aggregations [OF ne(1) ok(1)]
  from c8 [THEN conjunct2, THEN conjunct2, THEN conjunct1]
  obtain i where i: "i < length ?args" "fnMin ?args = ?args ! i"
      and first: "\<forall>j < i. Num (?args ! i) < Num (?args ! j)"
    by blast
  have "i = 0"
  proof (rule ccontr)
    assume "i \<noteq> 0"
    with i(1) have "i = 1 \<or> i = 2" by auto
    moreover have "0 < i \<longrightarrow> Num (?args ! i) < Num (?args ! 0)" using first by blast
    ultimately show False using nums by auto
  qed
  with i have mn: "fnMin ?args = Number 3" by simp
  from c8 [THEN conjunct2, THEN conjunct2, THEN conjunct2]
  obtain k where k: "k < length ?args" "fnMax ?args = ?args ! k"
      and greatest: "\<forall>j < length ?args. Num (?args ! j) \<le> Num (?args ! k)"
    by blast
  have "k = 2"
  proof (rule ccontr)
    assume "k \<noteq> 2"
    with k(1) have "k = 0 \<or> k = 1" by auto
    moreover have "Num (?args ! 2) \<le> Num (?args ! k)"
      using greatest [rule_format, of 2] by simp
    ultimately show False using nums by auto
  qed
  with k have mx: "fnMax ?args = Number 7" by simp
  have sm: "fnSum ?args = Number 13"
    using c8 by (simp add: WithAmount_def CurrencyValue_def Number_def zeroValue_def)
  have av: "fnAvg ?args2 = CurrencyValue 3 (Some USD)"
    using C8_aggregations [OF ne(2) ok(2)]
    by (simp add: WithAmount_def CurrencyValue_def Number_def zeroValue_def)
  show ?thesis
    using ne ok sm av mn mx by (simp add: IsError_def CurrencyValue_def Number_def)
qed




text \<open>
  C10. For a name that reads \<^verbatim>\<open>_\<close>, \<^verbatim>\<open>ans\<close> or \<^verbatim>\<open>total\<close> in lower case, \<open>SetVariable\<close>
  returns the context as it was, and so does an assignment to that name as far as the
  variables map goes; \<open>GetVariable\<close> answers from the previous result or the running
  total and does not look at the map. A variables map free of such keys stays so under
  \<open>SetVariable\<close> with any name, under \<open>DeleteVariable\<close>, \<open>Clear\<close> and under the
  evaluation of any line, and the map of a new context is free of them.
\<close>

theorem C10_special_names:
  assumes "ToLower name \<in> {''_'', ''ans'', ''total''}" and "specialFree c"
  shows "SetVariable c name v = c
       \<and> variables (snd (evalStmt env c (AssignStmt name e))) = variables c
       \<and> GetVariable c name =
           (if ToLower name = ''total'' then (calculateTotal c, True)
            else if IsEmpty (previous c) then (Empty, False) else (previous c, True))
       \<and> GetVariable (c\<lparr>variables := m\<rparr>) name = GetVariable c name
       \<and> specialFree (SetVariable c name' v')
       \<and> specialFree (DeleteVariable c name')
       \<and> specialFree (Clear c)
       \<and> specialFree (snd (EvalLine env c line))
       \<and> specialFree (NewContext rc)"
proof -
  have set: "SetVariable c name v' = c" for v'
    using assms(1) by (rule SetVariable_special)
  have assign: "variables (snd (evalStmt env c (AssignStmt name e))) = variables c"
    by (simp add: Let_def set)
  have get: "GetVariable c' name =
      (if ToLower name = ''total'' then (calculateTotal c', True)
       else if IsEmpty (previous c') then (Empty, False) else (previous c', True))" for c'
    using assms(1) by (rule GetVariable_special)
  have same: "GetVariable (c\<lparr>variables := m\<rparr>) name = GetVariable c name"
    by (simp add: get calculateTotal_def)
  have del: "specialFree (DeleteVariable c name')"
    using assms(2) by (auto simp: specialFree_def DeleteVariable_def)
  have clr: "specialFree (Clear c)" by (simp add: specialFree_def Clear_def)
  have new: "specialFree (NewContext rc)" by (simp add: specialFree_def NewContext_def)
  show ?thesis
    using set assign get same del clr new specialFree_SetVariable [OF assms(2)]
      specialFree_EvalLine [OF assms(2)] by simp
qed

theorem C10_special_names_witness:
  "ToLower ''Total'' = ''total'' \<and> specialFree (NewContext [])
   \<and> SetVariable (NewContext []) ''Total'' (Number 7) = NewContext []
   \<and> variables (snd (evalStmt sampleEnv (NewContext []) (AssignStmt ''Total'' (NumberLit 7 ''7''))))
       ''Total'' = None
   \<and> GetVariable (SetVariable (NewContext []) ''Total'' (Number 7)) ''Total'' = (Number 0, True)"
proof -
  have low: "ToLower ''Total'' = ''total''" by code_simp
  have sp: "ToLower ''Total'' \<in> {''_'', ''ans'', ''total''}" by (simp add: low)
  have free: "specialFree (NewContext [])" by (simp add: specialFree_def NewContext_def)
  have empty: "variables (NewContext []) ''Total'' = None" by (simp add: NewContext_def)
  have tot: "calculateTotal (NewContext []) = Number 0"
    by (simp add: calculateTotal_def NewContext_def)
  show ?thesis
    using low free empty tot
      C10_special_names [OF sp free, of "Number 7" sampleEnv "NumberLit 7 ''7''"]
    by simp
qed

end
